(* ===== verification/Prelude.thy ===== *)
theory Prelude
  imports Main "HOL-Library.Sublist" "HOL-Library.Code_Target_Numeral"
begin

text \<open>
  Shared vocabulary of the development.  Python exceptions are values of a sum type
  (\<open>Inl\<close> the exception), and \<open>bind_exc\<close> sequences two steps the way a statement
  sequence does when the first may raise.  The list lemmas are the counting facts that
  the record store, the import loop and the statistics share: Django's
  \<open>.filter(...).count()\<close> is \<open>count_where\<close>, and a \<open>values(k).annotate(Count)\<close>
  grouping is a count per distinct key.
\<close>

named_theorems exc_simps "evaluation rules for exception-returning steps"

definition bind_exc :: "'e + 'a \<Rightarrow> ('a \<Rightarrow> 'e + 'b) \<Rightarrow> 'e + 'b" where
  "bind_exc m f = (case m of Inl e \<Rightarrow> Inl e | Inr a \<Rightarrow> f a)"

definition count_where :: "('a \<Rightarrow> bool) \<Rightarrow> 'a list \<Rightarrow> nat" where
  "count_where P xs = length (filter P xs)"

lemma bind_exc_Inl [simp, exc_simps]: "bind_exc (Inl e) f = Inl e"
  by (simp add: bind_exc_def)

lemma bind_exc_Inr [simp, exc_simps]: "bind_exc (Inr a) f = f a"
  by (simp add: bind_exc_def)

lemma bind_exc_eq_Inr_iff [exc_simps]:
  "bind_exc m f = Inr b \<longleftrightarrow> (\<exists>a. m = Inr a \<and> f a = Inr b)"
  by (cases m) auto

lemma bind_exc_eq_Inl_iff [exc_simps]:
  "bind_exc m f = Inl e \<longleftrightarrow> m = Inl e \<or> (\<exists>a. m = Inr a \<and> f a = Inl e)"
  by (cases m) auto

lemma bind_exc_InrE:
  assumes "bind_exc m f = Inr b"
  obtains a where "m = Inr a" and "f a = Inr b"
  using assms by (cases m) auto

lemma bind_exc_prod3_InrE:
  assumes "bind_exc m (\<lambda>(a, b, c). f a b c) = Inr r"
  obtains a b c where "m = Inr (a, b, c)" and "f a b c = Inr r"
  using assms by (cases m) auto

lemma count_where_Nil [simp]: "count_where P [] = 0"
  by (simp add: count_where_def)

lemma count_where_Cons [simp]:
  "count_where P (x # xs) = (if P x then Suc (count_where P xs) else count_where P xs)"
  by (simp add: count_where_def)

lemma count_where_append [simp]:
  "count_where P (xs @ ys) = count_where P xs + count_where P ys"
  by (simp add: count_where_def)

lemma count_where_le_length: "count_where P xs \<le> length xs"
  by (simp add: count_where_def)

lemma count_where_cong:
  "(\<And>x. x \<in> set xs \<Longrightarrow> P x = Q x) \<Longrightarrow> count_where P xs = count_where Q xs"
  by (induction xs) auto

lemma count_where_disj:
  "(\<And>x. \<not> (P x \<and> Q x)) \<Longrightarrow>
     count_where (\<lambda>x. P x \<or> Q x) xs = count_where P xs + count_where Q xs"
  by (induction xs) auto

lemma count_where_pos_iff: "0 < count_where P xs \<longleftrightarrow> (\<exists>x \<in> set xs. P x)"
  by (induction xs) auto

lemma count_list_map_eq: "count_list (map f xs) k = count_where (\<lambda>x. f x = k) xs"
  by (induction xs) auto

text \<open>The counts per distinct key add up to the length of the list.\<close>

lemma sum_counts_remdups:
  "(\<Sum>k\<leftarrow>remdups (map f xs). count_where (\<lambda>x. f x = k) xs) = length xs"
proof -
  have "(\<Sum>k\<leftarrow>remdups (map f xs). count_where (\<lambda>x. f x = k) xs)
        = sum (count_list (map f xs)) (set (map f xs))"
    by (simp only: count_list_map_eq [symmetric] sum_list_distinct_conv_sum_set distinct_remdups set_remdups)
  also have "\<dots> = length (map f xs)"
    by (rule sum_count_set) simp_all
  finally show ?thesis by (simp only: length_map)
qed

end
