(* ===== verification/PyValues.thy ===== *)
theory PyValues
  imports Prelude
begin

text \<open>
  The Python values that the spreadsheet import reads and writes: the cells that
  \<open>openpyxl\<close>'s \<open>iter_rows(values_only=True)\<close> yields (None, str, int, bool and
  datetime; floats and times are not modelled), their truthiness (\<open>if not sr_no\<close>,
  \<open>row[1] or ''\<close>), their \<open>str()\<close> rendering, \<open>str.isdigit\<close> and \<open>int()\<close>, the
  exceptions a row can raise, Python's \<open>datetime.date\<close> constructor and Django's
  \<open>parse_date\<close>.  Strings are ASCII character lists.
\<close>

record pdate =
  year :: nat
  month :: nat
  day :: nat

record ptime =
  hour :: nat
  minute :: nat
  second :: nat

datatype cell = CNone | CStr string | CInt int | CBool bool | CDateTime pdate ptime

datatype py_exc =
    IndexError
  | ValueError string
  | TypeError string
  | IntegrityError string
  | MultipleObjectsReturned
  | ValidationError string

fun truthy :: "cell \<Rightarrow> bool" where
  "truthy CNone = False"
| "truthy (CStr s) = (s \<noteq> [])"
| "truthy (CInt i) = (i \<noteq> 0)"
| "truthy (CBool b) = b"
| "truthy (CDateTime d t) = True"

subsection \<open>Decimal digits\<close>

definition is_digit :: "char \<Rightarrow> bool" where
  "is_digit c \<longleftrightarrow> (48::nat) \<le> of_char c \<and> of_char c \<le> (57::nat)"

definition digit_val :: "char \<Rightarrow> nat" where
  "digit_val c = of_char c - 48"

definition digit_char :: "nat \<Rightarrow> char" where
  "digit_char d = char_of (48 + d)"

definition digits_val :: "string \<Rightarrow> nat" where
  "digits_val s = foldl (\<lambda>acc c. 10 * acc + digit_val c) 0 s"

text \<open>\<open>str.isdigit\<close>: at least one character, all of them digits.\<close>

definition isdigit_str :: "string \<Rightarrow> bool" where
  "isdigit_str s \<longleftrightarrow> s \<noteq> [] \<and> list_all is_digit s"

fun nat_to_str :: "nat \<Rightarrow> string" where
  "nat_to_str n =
     (if n < 10 then [digit_char n] else nat_to_str (n div 10) @ [digit_char (n mod 10)])"

declare nat_to_str.simps [simp del]

definition int_to_str :: "int \<Rightarrow> string" where
  "int_to_str i = (if i < 0 then CHR ''-'' # nat_to_str (nat (- i)) else nat_to_str (nat i))"

definition pad0 :: "nat \<Rightarrow> string \<Rightarrow> string" where
  "pad0 k s = replicate (k - length s) (CHR ''0'') @ s"

definition date_str :: "pdate \<Rightarrow> string" where
  "date_str d = pad0 4 (nat_to_str (year d)) @ ''-'' @ pad0 2 (nat_to_str (month d))
     @ ''-'' @ pad0 2 (nat_to_str (day d))"

definition time_str :: "ptime \<Rightarrow> string" where
  "time_str t = pad0 2 (nat_to_str (hour t)) @ '':'' @ pad0 2 (nat_to_str (minute t))
     @ '':'' @ pad0 2 (nat_to_str (second t))"

text \<open>Python's \<open>str()\<close> of a cell value.\<close>

fun py_str :: "cell \<Rightarrow> string" where
  "py_str CNone = ''None''"
| "py_str (CStr s) = s"
| "py_str (CInt i) = int_to_str i"
| "py_str (CBool b) = (if b then ''True'' else ''False'')"
| "py_str (CDateTime d t) = date_str d @ '' '' @ time_str t"

text \<open>
  Python's \<open>int()\<close> of a cell value.  A digit string parses to its value; every other
  string is a \<open>ValueError\<close> here, although Python also accepts surrounding blanks, a
  sign and underscores: the only caller (\<open>views.py\<close> line 206) reaches \<open>int()\<close>
  behind an \<open>isdigit()\<close> guard, which lets none of those through.
\<close>

fun py_int :: "cell \<Rightarrow> py_exc + int" where
  "py_int (CInt i) = Inr i"
| "py_int (CBool b) = Inr (if b then 1 else 0)"
| "py_int (CStr s) =
     (if isdigit_str s then Inr (int (digits_val s))
      else Inl (ValueError (''invalid literal for int() with base 10: '' @ s)))"
| "py_int CNone = Inl (TypeError ''int() argument must be a string, a bytes-like object or a real number, not NoneType'')"
| "py_int (CDateTime d t) = Inl (TypeError ''int() argument must be a string, a bytes-like object or a real number, not datetime.datetime'')"

fun exc_str :: "py_exc \<Rightarrow> string" where
  "exc_str IndexError = ''tuple index out of range''"
| "exc_str (ValueError m) = m"
| "exc_str (TypeError m) = m"
| "exc_str (IntegrityError m) = m"
| "exc_str MultipleObjectsReturned = ''get() returned more than one OpenCourtApplication''"
| "exc_str (ValidationError m) = m"

text \<open>Indexing a row tuple: \<open>row[i]\<close> raises \<open>IndexError\<close> past its end.\<close>

definition row_get :: "cell list \<Rightarrow> nat \<Rightarrow> py_exc + cell" where
  "row_get row i = (if i < length row then Inr (row ! i) else Inl IndexError)"

subsection \<open>Dates\<close>

definition is_leap :: "nat \<Rightarrow> bool" where
  "is_leap y \<longleftrightarrow> (4 dvd y \<and> \<not> 100 dvd y) \<or> 400 dvd y"

definition days_in_month :: "nat \<Rightarrow> nat \<Rightarrow> nat" where
  "days_in_month y m =
     (if m = 2 then (if is_leap y then 29 else 28)
      else if m = 4 \<or> m = 6 \<or> m = 9 \<or> m = 11 then 30 else 31)"

definition valid_date :: "pdate \<Rightarrow> bool" where
  "valid_date d \<longleftrightarrow> 1 \<le> year d \<and> year d \<le> 9999 \<and> 1 \<le> month d \<and> month d \<le> 12
     \<and> 1 \<le> day d \<and> day d \<le> days_in_month (year d) (month d)"

text \<open>\<open>datetime.date(year, month, day)\<close>, with its checks in its order.\<close>

definition mk_date :: "nat \<Rightarrow> nat \<Rightarrow> nat \<Rightarrow> py_exc + pdate" where
  "mk_date y m d =
     (if \<not> (1 \<le> y \<and> y \<le> 9999) then Inl (ValueError (''year '' @ nat_to_str y @ '' is out of range''))
      else if \<not> (1 \<le> m \<and> m \<le> 12) then Inl (ValueError ''month must be in 1..12'')
      else if \<not> (1 \<le> d \<and> d \<le> days_in_month y m) then Inl (ValueError ''day is out of range for month'')
      else Inr \<lparr>year = y, month = m, day = d\<rparr>)"

text \<open>
  Django's \<open>parse_date\<close>: a string matching \<open>\d{4}-\d{1,2}-\d{1,2}$\<close> (\<open>$\<close> also
  before one final newline) is handed to \<open>datetime.date\<close>, which raises on an
  impossible date; any other string gives \<open>None\<close>.  The extra ISO 8601 forms that
  \<open>date.fromisoformat\<close> accepts on Python 3.11 and later (\<open>20240105\<close>, week dates)
  are not modelled.
\<close>

definition parse_date :: "string \<Rightarrow> py_exc + pdate option" where
  "parse_date s =
     (let ys = take 4 s; r1 = drop 4 s in
      if length ys = 4 \<and> list_all is_digit ys \<and> take 1 r1 = ''-'' then
        (let ms = takeWhile is_digit (drop 1 r1); r2 = dropWhile is_digit (drop 1 r1) in
         if 1 \<le> length ms \<and> length ms \<le> 2 \<and> take 1 r2 = ''-'' then
           (let ds = takeWhile is_digit (drop 1 r2); r3 = dropWhile is_digit (drop 1 r2) in
            if 1 \<le> length ds \<and> length ds \<le> 2 \<and> (r3 = [] \<or> r3 = [CHR 0x0A]) then
              map_sum id Some (mk_date (digits_val ys) (digits_val ms) (digits_val ds))
            else Inr None)
         else Inr None)
      else Inr None)"

subsection \<open>Lemmas\<close>

lemma of_char_digit_char: "d < 10 \<Longrightarrow> (of_char (digit_char d) :: nat) = 48 + d"
  by (simp add: digit_char_def of_char_of)

lemma is_digit_digit_char [simp]: "d < 10 \<Longrightarrow> is_digit (digit_char d)"
  by (simp add: is_digit_def of_char_digit_char)

lemma digit_val_digit_char [simp]: "d < 10 \<Longrightarrow> digit_val (digit_char d) = d"
  by (simp add: digit_val_def of_char_digit_char)

lemma digits_val_snoc [simp]: "digits_val (s @ [c]) = 10 * digits_val s + digit_val c"
  by (simp add: digits_val_def)

lemma nat_to_str_digits: "list_all is_digit (nat_to_str n)"
proof (induction n rule: nat_to_str.induct)
  case (1 n)
  then show ?case by (subst nat_to_str.simps) auto
qed

lemma nat_to_str_not_Nil [simp]: "nat_to_str n \<noteq> []"
  by (subst nat_to_str.simps) simp

lemma isdigit_nat_to_str [simp]: "isdigit_str (nat_to_str n)"
  by (simp add: isdigit_str_def nat_to_str_digits)

text \<open>Printing a number and reading it back gives the number.\<close>

lemma digits_val_nat_to_str [simp]: "digits_val (nat_to_str n) = n"
proof (induction n rule: nat_to_str.induct)
  case (1 n)
  show ?case
  proof (cases "n < 10")
    case True
    then show ?thesis by (subst nat_to_str.simps) (simp add: digits_val_def)
  next
    case False
    with "1.IH" have "digits_val (nat_to_str (n div 10)) = n div 10" by simp
    with False show ?thesis by (subst nat_to_str.simps) simp
  qed
qed

lemma isdigit_int_to_str [simp]: "isdigit_str (int_to_str i) \<longleftrightarrow> 0 \<le> i"
  by (simp add: int_to_str_def isdigit_str_def is_digit_def nat_to_str_digits)

lemma mk_date_valid: "mk_date y m d = Inr x \<Longrightarrow> valid_date x"
  by (auto simp: mk_date_def valid_date_def split: if_splits)

lemma parse_date_valid: "parse_date s = Inr (Some x) \<Longrightarrow> valid_date x"
  by (auto simp: parse_date_def Let_def map_sum_def mk_date_valid split: if_splits sum.splits)

end
