(* ===== verification/Records.thy ===== *)
theory Records
  imports PyValues
begin

text \<open>
  The data model and the record store.  \<open>models.py\<close> is not part of the repository,
  so the \<open>OpenCourtApplication\<close> model and the user model follow the spec (section 3):
  a record per application with an enumerated \<open>status\<close> and \<open>feedback\<close>, text
  columns that are NOT NULL (Django's default for a \<open>CharField\<close>), and a unique
  serial number \<open>sr_no\<close>.  The store is the table in insertion order with the next
  primary key, and its operations are the Django ORM calls \<open>views.py\<close> makes:
  \<open>update_or_create\<close>, \<open>save\<close> and \<open>get\<close> by primary key.
\<close>

datatype app_status = PENDING | HEARD | REFERRED | CLOSED

datatype app_feedback = FB_PENDING | POSITIVE | NEGATIVE

datatype role = STAFF | ADMIN

record user =
  user_id :: nat
  username :: string
  role :: role
  user_station :: string

record application =
  app_id :: nat
  sr_no :: string
  dairy_no :: string
  name :: string
  contact :: string
  marked_to :: string
  app_date :: "pdate option"
  marked_by :: string
  timeline :: string
  police_station :: string
  division :: string
  category :: string
  status :: app_status
  days :: "int option"
  feedback :: app_feedback
  remarks :: string
  dairy_ps :: string
  created_by :: "nat option"

record db =
  apps :: "application list"
  next_id :: nat

text \<open>The stored strings of the two enumerations, and the status choices check.\<close>

fun status_str :: "app_status \<Rightarrow> string" where
  "status_str PENDING = ''PENDING''"
| "status_str HEARD = ''HEARD''"
| "status_str REFERRED = ''REFERRED''"
| "status_str CLOSED = ''CLOSED''"

fun feedback_str :: "app_feedback \<Rightarrow> string" where
  "feedback_str FB_PENDING = ''PENDING''"
| "feedback_str POSITIVE = ''POSITIVE''"
| "feedback_str NEGATIVE = ''NEGATIVE''"

text \<open>
  The value of the date column as \<open>views.py\<close> hands it over: a date, or the raw cell
  when it was neither a datetime nor a string (\<open>None\<close> is \<open>DVCell CNone\<close>).
\<close>

datatype date_val = DVDate pdate | DVCell cell

text \<open>
  The \<open>defaults\<close> dictionary of \<open>update_or_create\<close> (\<open>application_data\<close>,
  \<open>views.py\<close> lines 210--225), holding the Python values before the model fields
  convert them.
\<close>

record app_data =
  d_dairy_no :: cell
  d_name :: cell
  d_contact :: string
  d_marked_to :: cell
  d_date :: date_val
  d_marked_by :: cell
  d_timeline :: cell
  d_police_station :: cell
  d_division :: cell
  d_category :: cell
  d_status :: app_status
  d_days :: "int option"
  d_feedback :: app_feedback
  d_dairy_ps :: cell

subsection \<open>Field conversion and the ORM calls\<close>

text \<open>
  \<open>DateField.to_python\<close>: a date stays, a datetime gives its date, a string is parsed,
  anything else fails \<open>parse_date\<close> with a \<open>TypeError\<close>.
\<close>

fun date_to_python :: "date_val \<Rightarrow> py_exc + pdate option" where
  "date_to_python (DVDate d) = Inr (Some d)"
| "date_to_python (DVCell CNone) = Inr None"
| "date_to_python (DVCell (CDateTime d t)) = Inr (Some d)"
| "date_to_python (DVCell (CStr s)) =
     (case parse_date s of
        Inr (Some d) \<Rightarrow> Inr (Some d)
      | Inr None \<Rightarrow> Inl (ValidationError ''value has an invalid date format. It must be in YYYY-MM-DD format.'')
      | Inl e \<Rightarrow> Inl (ValidationError ''value has the correct format (YYYY-MM-DD) but it is an invalid date.''))"
| "date_to_python (DVCell c) = Inl (TypeError ''fromisoformat: argument must be str'')"

definition text_cells :: "app_data \<Rightarrow> cell list" where
  "text_cells d = [d_dairy_no d, d_name d, d_marked_to d, d_marked_by d, d_timeline d,
     d_police_station d, d_division d, d_category d, d_dairy_ps d]"

text \<open>
  Setting the defaults on a model instance and saving it: the date column is converted
  first, then the database rejects \<open>None\<close> in a NOT NULL text column; a text value
  is stored as its \<open>str()\<close>.
\<close>

definition apply_defaults :: "app_data \<Rightarrow> application \<Rightarrow> py_exc + application" where
  "apply_defaults d a =
     (case date_to_python (d_date d) of
        Inl e \<Rightarrow> Inl e
      | Inr dt \<Rightarrow>
          if CNone \<in> set (text_cells d)
          then Inl (IntegrityError ''NOT NULL constraint failed: core_opencourtapplication'')
          else Inr (a\<lparr>dairy_no := py_str (d_dairy_no d), name := py_str (d_name d),
                      contact := d_contact d, marked_to := py_str (d_marked_to d),
                      app_date := dt, marked_by := py_str (d_marked_by d),
                      timeline := py_str (d_timeline d),
                      police_station := py_str (d_police_station d),
                      division := py_str (d_division d), category := py_str (d_category d),
                      status := d_status d, days := d_days d, feedback := d_feedback d,
                      dairy_ps := py_str (d_dairy_ps d)\<rparr>))"

text \<open>A fresh model instance: the model's defaults, the key and the next primary key.\<close>

definition blank_application :: "nat \<Rightarrow> string \<Rightarrow> application" where
  "blank_application i k =
     \<lparr>app_id = i, sr_no = k, dairy_no = [], name = [], contact = [], marked_to = [],
      app_date = None, marked_by = [], timeline = [], police_station = [], division = [],
      category = [], status = PENDING, days = None, feedback = FB_PENDING, remarks = [],
      dairy_ps = [], created_by = None\<rparr>"

text \<open>\<open>instance.save()\<close> of an existing row: the row with its primary key is replaced.\<close>

definition db_save :: "application \<Rightarrow> db \<Rightarrow> db" where
  "db_save a s = s\<lparr>apps := map (\<lambda>b. if app_id b = app_id a then a else b) (apps s)\<rparr>"

text \<open>\<open>objects.get(pk=i)\<close>, \<open>None\<close> standing for \<open>DoesNotExist\<close>.\<close>

definition db_get :: "nat \<Rightarrow> db \<Rightarrow> application option" where
  "db_get i s = find (\<lambda>a. app_id a = i) (apps s)"

text \<open>
  \<open>objects.update_or_create(sr_no=k, defaults=d)\<close>: the lookup value is converted
  to the column's string; no match creates a row, one match is updated and saved, more
  raise \<open>MultipleObjectsReturned\<close>.  The flag is Django's \<open>created\<close>.
\<close>

definition db_update_or_create ::
  "string \<Rightarrow> app_data \<Rightarrow> db \<Rightarrow> py_exc + (application \<times> bool \<times> db)" where
  "db_update_or_create k d s =
     (case filter (\<lambda>a. sr_no a = k) (apps s) of
        [] \<Rightarrow> bind_exc (apply_defaults d (blank_application (next_id s) k))
               (\<lambda>a. Inr (a, True, s\<lparr>apps := apps s @ [a], next_id := Suc (next_id s)\<rparr>))
      | [a] \<Rightarrow> bind_exc (apply_defaults d a) (\<lambda>a'. Inr (a', False, db_save a' s))
      | _ \<Rightarrow> Inl MultipleObjectsReturned)"

text \<open>
  The role scope both the listing and the dashboard start from (lines 87--89 and
  268--270): a STAFF user with a non-empty station sees that station's records, anyone
  else every record.
\<close>

definition role_scope :: "user \<Rightarrow> application list \<Rightarrow> application list" where
  "role_scope u qs =
     (if role u = STAFF \<and> user_station u \<noteq> [] then filter (\<lambda>a. police_station a = user_station u) qs
      else qs)"

definition empty_db :: db where
  "empty_db = \<lparr>apps = [], next_id = 1\<rparr>"

subsection \<open>The store invariant\<close>

text \<open>Primary keys are distinct and below the next one; serial numbers are unique.\<close>

definition db_wf :: "db \<Rightarrow> bool" where
  "db_wf s \<longleftrightarrow> distinct (map app_id (apps s)) \<and> (\<forall>a \<in> set (apps s). app_id a < next_id s)
     \<and> distinct (map sr_no (apps s))"

definition sr_keys :: "db \<Rightarrow> string set" where
  "sr_keys s = set (map sr_no (apps s))"

text \<open>Section 3 of the spec: the days column holds a non-negative count or nothing.\<close>

definition days_ok :: "application \<Rightarrow> bool" where
  "days_ok a \<longleftrightarrow> (case days a of None \<Rightarrow> True | Some i \<Rightarrow> 0 \<le> i)"

subsection \<open>Lemmas on the store\<close>

lemma filter_key_distinct:
  "distinct (map f xs) \<Longrightarrow> a \<in> set xs \<Longrightarrow> filter (\<lambda>b. f b = f a) xs = [a]"
  by (induction xs) (auto simp: filter_empty_conv rev_image_eqI)

lemma filter_key_absent:
  "k \<notin> f ` set xs \<Longrightarrow> filter (\<lambda>b. f b = k) xs = []"
  by (auto simp: filter_empty_conv)

lemma apply_defaults_Inr:
  assumes "apply_defaults d a = Inr a'"
  shows "app_id a' = app_id a \<and> sr_no a' = sr_no a \<and> remarks a' = remarks a
    \<and> created_by a' = created_by a \<and> status a' = d_status d \<and> feedback a' = d_feedback d
    \<and> days a' = d_days d \<and> police_station a' = py_str (d_police_station d)
    \<and> category a' = py_str (d_category d) \<and> division a' = py_str (d_division d)"
  using assms by (auto simp: apply_defaults_def split: sum.splits if_splits)

text \<open>Whether the defaults can be stored does not depend on the row they are stored in.\<close>

lemma apply_defaults_Inl_indep:
  "apply_defaults d a = Inl e \<longleftrightarrow> apply_defaults d b = Inl e"
  by (auto simp: apply_defaults_def split: sum.splits if_splits)

lemma apply_defaults_Inr_indep:
  "apply_defaults d a = Inr a' \<Longrightarrow> \<exists>b'. apply_defaults d b = Inr b'"
  by (auto simp: apply_defaults_def split: sum.splits if_splits)

lemma map_app_id_db_save [simp]: "map app_id (apps (db_save a s)) = map app_id (apps s)"
  by (induction "apps s" arbitrary: s) (auto simp: db_save_def)

lemma length_db_save [simp]: "length (apps (db_save a s)) = length (apps s)"
  by (simp add: db_save_def)

lemma next_id_db_save [simp]: "next_id (db_save a s) = next_id s"
  by (simp add: db_save_def)

lemma map_sr_no_db_save:
  assumes "\<forall>b \<in> set (apps s). app_id b = app_id a \<longrightarrow> sr_no b = sr_no a"
  shows "map sr_no (apps (db_save a s)) = map sr_no (apps s)"
  using assms by (auto simp: db_save_def)

lemma db_wf_db_save:
  assumes "db_wf s" and "\<forall>b \<in> set (apps s). app_id b = app_id a \<longrightarrow> sr_no b = sr_no a"
  shows "db_wf (db_save a s)"
proof -
  have ids: "app_id ` set (apps (db_save a s)) = app_id ` set (apps s)"
    using map_app_id_db_save [of a s] by (metis set_map)
  have "\<forall>c \<in> set (apps (db_save a s)). app_id c < next_id s"
  proof
    fix c
    assume "c \<in> set (apps (db_save a s))"
    then have "app_id c \<in> app_id ` set (apps s)" using ids by blast
    with assms(1) show "app_id c < next_id s" by (auto simp: db_wf_def)
  qed
  then show ?thesis
    using assms map_sr_no_db_save [OF assms(2)] map_app_id_db_save [of a s]
    by (simp add: db_wf_def)
qed

lemma db_wf_same_id:
  "db_wf s \<Longrightarrow> b \<in> set (apps s) \<Longrightarrow> b' \<in> set (apps s) \<Longrightarrow> app_id b' = app_id b \<Longrightarrow> b' = b"
  by (auto simp: db_wf_def distinct_map dest: inj_onD)

lemma db_wf_same_sr:
  "db_wf s \<Longrightarrow> b \<in> set (apps s) \<Longrightarrow> b' \<in> set (apps s) \<Longrightarrow> sr_no b' = sr_no b \<Longrightarrow> b' = b"
  by (auto simp: db_wf_def distinct_map dest: inj_onD)

lemma db_save_mem:
  "b \<in> set (apps s) \<Longrightarrow> app_id b = app_id a \<Longrightarrow> a \<in> set (apps (db_save a s))"
  by (force simp: db_save_def)

lemma db_update_or_create_absent:
  "k \<notin> sr_keys s \<Longrightarrow> db_update_or_create k d s =
     bind_exc (apply_defaults d (blank_application (next_id s) k))
       (\<lambda>a. Inr (a, True, s\<lparr>apps := apps s @ [a], next_id := Suc (next_id s)\<rparr>))"
  by (simp add: db_update_or_create_def sr_keys_def filter_key_absent)

lemma db_update_or_create_present:
  "db_wf s \<Longrightarrow> b \<in> set (apps s) \<Longrightarrow> sr_no b = k \<Longrightarrow> db_update_or_create k d s =
     bind_exc (apply_defaults d b) (\<lambda>a'. Inr (a', False, db_save a' s))"
proof -
  assume wf: "db_wf s" and b: "b \<in> set (apps s)" "sr_no b = k"
  then have "filter (\<lambda>a. sr_no a = k) (apps s) = [b]"
    using filter_key_distinct [of sr_no "apps s" b] by (simp add: db_wf_def)
  then show ?thesis by (simp add: db_update_or_create_def)
qed

lemma db_update_or_create_created:
  assumes "db_wf s" and "k \<notin> sr_keys s" and "db_update_or_create k d s = Inr (a, c, s')"
  shows "c \<and> s' = s\<lparr>apps := apps s @ [a], next_id := Suc (next_id s)\<rparr>
    \<and> app_id a = next_id s \<and> sr_no a = k \<and> created_by a = None \<and> remarks a = []"
  using assms(3) apply_defaults_Inr [of d "blank_application (next_id s) k" a]
  by (auto simp: db_update_or_create_absent [OF assms(2)] bind_exc_eq_Inr_iff blank_application_def)

lemma db_update_or_create_updated:
  assumes "db_wf s" and "b \<in> set (apps s)" and "sr_no b = k"
    and "db_update_or_create k d s = Inr (a, c, s')"
  shows "\<not> c \<and> s' = db_save a s \<and> apply_defaults d b = Inr a"
  using assms by (auto simp: db_update_or_create_present bind_exc_eq_Inr_iff)

lemma db_wf_append_new:
  assumes "db_wf s" and "app_id a = next_id s" and "sr_no a \<notin> sr_keys s"
  shows "db_wf (s\<lparr>apps := apps s @ [a], next_id := Suc (next_id s)\<rparr>)"
  using assms by (fastforce simp: db_wf_def sr_keys_def)

theorem db_update_or_create_wf:
  assumes "db_wf s" and "db_update_or_create k d s = Inr (a, c, s')"
  shows "db_wf s' \<and> sr_no a = k \<and> a \<in> set (apps s') \<and> (c \<longleftrightarrow> k \<notin> sr_keys s)
    \<and> sr_keys s' = insert k (sr_keys s)
    \<and> length (apps s') = length (apps s) + (if c then 1 else 0)"
proof (cases "k \<in> sr_keys s")
  case False
  with db_update_or_create_created [OF assms(1) False assms(2)] assms(1) show ?thesis
    by (auto simp: db_wf_append_new sr_keys_def)
next
  case True
  then obtain b where b: "b \<in> set (apps s)" "sr_no b = k" by (auto simp: sr_keys_def)
  from db_update_or_create_updated [OF assms(1) b assms(2)]
  have nc: "\<not> c" and s': "s' = db_save a s" and ad: "apply_defaults d b = Inr a" by auto
  from apply_defaults_Inr [OF ad] have ida: "app_id a = app_id b" and sra: "sr_no a = k"
    using b by auto
  have same: "\<forall>b' \<in> set (apps s). app_id b' = app_id a \<longrightarrow> sr_no b' = sr_no a"
    using db_wf_same_id [OF assms(1) b(1)] ida sra b by auto
  have "db_wf s'" using db_wf_db_save [OF assms(1) same] s' by simp
  moreover have "sr_keys s' = sr_keys s"
    using map_sr_no_db_save [OF same] s' by (simp add: sr_keys_def)
  moreover have "a \<in> set (apps s')" using db_save_mem [OF b(1)] ida s' by simp
  ultimately show ?thesis using nc sra True s' by auto
qed

lemma date_to_python_not_multiple: "date_to_python v \<noteq> Inl MultipleObjectsReturned"
  by (induction v rule: date_to_python.induct) (auto split: sum.splits option.splits)

lemma apply_defaults_not_multiple: "apply_defaults d a \<noteq> Inl MultipleObjectsReturned"
  using date_to_python_not_multiple [of "d_date d"]
  by (auto simp: apply_defaults_def split: sum.splits)

lemma db_update_or_create_no_multiple:
  "db_wf s \<Longrightarrow> db_update_or_create k d s \<noteq> Inl MultipleObjectsReturned"
proof (cases "k \<in> sr_keys s")
  case True
  assume wf: "db_wf s"
  with True obtain b where "b \<in> set (apps s)" "sr_no b = k" by (auto simp: sr_keys_def)
  with wf show ?thesis
    by (simp add: db_update_or_create_present bind_exc_eq_Inl_iff apply_defaults_not_multiple)
next
  case False
  then show ?thesis
    by (simp add: db_update_or_create_absent bind_exc_eq_Inl_iff apply_defaults_not_multiple)
qed

text \<open>Under the invariant, the call fails exactly when the defaults cannot be stored.\<close>

lemma db_update_or_create_Inl_iff:
  assumes "db_wf s"
  shows "db_update_or_create k d s = Inl e \<longleftrightarrow> apply_defaults d (blank_application 0 []) = Inl e"
proof (cases "k \<in> sr_keys s")
  case True
  then obtain b where "b \<in> set (apps s)" "sr_no b = k" by (auto simp: sr_keys_def)
  with assms have eq: "db_update_or_create k d s = bind_exc (apply_defaults d b) (\<lambda>a'. Inr (a', False, db_save a' s))"
    by (rule db_update_or_create_present)
  show ?thesis
  proof (cases "apply_defaults d b")
    case (Inl e')
    then show ?thesis using eq apply_defaults_Inl_indep [of d b e' "blank_application 0 []"] by auto
  next
    case (Inr a')
    then show ?thesis using eq apply_defaults_Inr_indep [of d b a' "blank_application 0 []"] by auto
  qed
next
  case False
  let ?b = "blank_application (next_id s) k"
  show ?thesis
  proof (cases "apply_defaults d ?b")
    case (Inl e')
    then show ?thesis using False apply_defaults_Inl_indep [of d ?b e' "blank_application 0 []"]
      by (auto simp: db_update_or_create_absent)
  next
    case (Inr a')
    then show ?thesis using False apply_defaults_Inr_indep [of d ?b a' "blank_application 0 []"]
      by (auto simp: db_update_or_create_absent)
  qed
qed

subsection \<open>Lemmas: properties every stored record keeps\<close>

lemma list_all_db_save: "list_all P (apps s) \<Longrightarrow> P a \<Longrightarrow> list_all P (apps (db_save a s))"
  by (auto simp: db_save_def list_all_iff)

text \<open>A property that every stored record has and every defaults payload gives survives
  \<open>update_or_create\<close>.\<close>

lemma db_update_or_create_list_all:
  assumes "db_update_or_create k d s = Inr (a, c, s')" and "list_all P (apps s)"
    and "\<And>b b'. apply_defaults d b = Inr b' \<Longrightarrow> P b'"
  shows "P a \<and> list_all P (apps s')"
  using assms
  by (auto simp: db_update_or_create_def bind_exc_eq_Inr_iff list_all_db_save split: list.splits)


text \<open>\<open>save\<close> and \<open>update_or_create\<close> leave every row of another key where it is.\<close>

lemma db_save_keeps: "b \<in> set (apps s) \<Longrightarrow> app_id b \<noteq> app_id a \<Longrightarrow> b \<in> set (apps (db_save a s))"
  by (force simp: db_save_def)

lemma db_update_or_create_keeps:
  assumes "db_wf s" and "db_update_or_create k d s = Inr (a, c, s')"
    and "b \<in> set (apps s)" and "sr_no b \<noteq> k"
  shows "b \<in> set (apps s') \<and> app_id a \<noteq> app_id b"
proof (cases "k \<in> sr_keys s")
  case True
  then obtain b0 where b0: "b0 \<in> set (apps s)" "sr_no b0 = k" by (auto simp: sr_keys_def)
  note upd = db_update_or_create_updated [OF assms(1) b0 assms(2)]
  have "app_id a = app_id b0" using apply_defaults_Inr [of d b0 a] upd by simp
  moreover have "app_id b0 \<noteq> app_id b"
    using db_wf_same_id [OF assms(1) assms(3) b0(1)] b0(2) assms(4) by auto
  ultimately show ?thesis using upd db_save_keeps [OF assms(3)] by auto
next
  case False
  note cr = db_update_or_create_created [OF assms(1) False assms(2)]
  have "app_id b < next_id s" using assms(1,3) by (auto simp: db_wf_def)
  then show ?thesis using cr assms(3) by auto
qed

end
