(* ===== verification/Import.thy ===== *)
theory Import
  imports Records
begin

text \<open>
  The spreadsheet import, \<open>upload_excel\<close> in \<open>views.py\<close> (lines 162--256): the file
  checks, the loop over the rows after the header, and for each row the serial-number
  skip, the date and days normalisation, the \<open>defaults\<close> payload, the
  \<open>update_or_create\<close> upsert and the \<open>created_by\<close> stamp on update.  A row that
  raises is reported as \<open>Row n: message\<close> and the loop goes on.  The workbook is
  given as the rows \<open>openpyxl\<close> yields for the active sheet, or as the message of
  the exception that loading it raised.
\<close>

subsection \<open>One row\<close>

text \<open>Lines 197--201: a datetime gives its date, a string is parsed, anything else stays.\<close>

definition date_of_cell :: "cell \<Rightarrow> py_exc + date_val" where
  "date_of_cell c =
     (case c of
        CDateTime d t \<Rightarrow> Inr (DVDate d)
      | CStr s \<Rightarrow> (case parse_date s of
                    Inl e \<Rightarrow> Inl e
                  | Inr None \<Rightarrow> Inr (DVCell CNone)
                  | Inr (Some d) \<Rightarrow> Inr (DVDate d))
      | _ \<Rightarrow> Inr (DVCell c))"

text \<open>Lines 204--208: \<open>int(days)\<close> when the value is truthy and its \<open>str()\<close> is all digits.\<close>

definition parse_days :: "cell \<Rightarrow> py_exc + int option" where
  "parse_days c =
     (if truthy c \<and> isdigit_str (py_str c) then map_sum id Some (py_int c) else Inr None)"

text \<open>\<open>x or ''\<close>.\<close>

definition or_empty :: "cell \<Rightarrow> cell" where
  "or_empty c = (if truthy c then c else CStr [])"

text \<open>Lines 210--225, the \<open>application_data\<close> dictionary, read in its order.\<close>

definition application_data :: "cell list \<Rightarrow> date_val \<Rightarrow> int option \<Rightarrow> py_exc + app_data" where
  "application_data row dv dy =
     bind_exc (row_get row 1) (\<lambda>c1. bind_exc (row_get row 2) (\<lambda>c2.
     bind_exc (row_get row 3) (\<lambda>c3. bind_exc (row_get row 4) (\<lambda>c4.
     bind_exc (row_get row 6) (\<lambda>c6. bind_exc (row_get row 7) (\<lambda>c7.
     bind_exc (row_get row 8) (\<lambda>c8. bind_exc (row_get row 9) (\<lambda>c9.
     bind_exc (row_get row 10) (\<lambda>c10.
       Inr \<lparr>d_dairy_no = or_empty c1, d_name = or_empty c2,
            d_contact = (if truthy c3 then py_str c3 else []), d_marked_to = or_empty c4,
            d_date = dv, d_marked_by = or_empty c6, d_timeline = or_empty c7,
            d_police_station = or_empty c8, d_division = or_empty c9,
            d_category = or_empty c10, d_status = PENDING, d_days = dy,
            d_feedback = FB_PENDING,
            d_dairy_ps = (if 14 < length row then row ! 14 else CStr [])\<rparr>)))))))))"

text \<open>Lines 196--225: from the date cell to the payload.\<close>

definition row_payload :: "cell list \<Rightarrow> py_exc + app_data" where
  "row_payload row =
     bind_exc (row_get row 5) (\<lambda>c5. bind_exc (date_of_cell c5) (\<lambda>dv.
     bind_exc (row_get row 12) (\<lambda>c12. bind_exc (parse_days c12) (\<lambda>dy.
     application_data row dv dy))))"

datatype row_outcome = Skipped | Created | Updated

text \<open>
  Lines 191--240, the body of the \<open>try\<close>: the serial number (a falsy one skips the
  row), the payload, the upsert keyed by the serial number's column string, and on an
  update the \<open>created_by\<close> stamp and a second save.
\<close>

definition process_row :: "user \<Rightarrow> cell list \<Rightarrow> db \<Rightarrow> py_exc + (row_outcome \<times> db)" where
  "process_row u row s =
     bind_exc (row_get row 0) (\<lambda>sr.
       if \<not> truthy sr then Inr (Skipped, s)
       else bind_exc (row_payload row) (\<lambda>d.
            bind_exc (db_update_or_create (py_str sr) d s) (\<lambda>(a, created, s').
              if \<not> created then Inr (Updated, db_save (a\<lparr>created_by := Some (user_id u)\<rparr>) s')
              else Inr (Created, s'))))"

subsection \<open>The loop and the request\<close>

record import_state =
  imp_db :: db
  created_count :: nat
  updated_count :: nat
  errors :: "string list"

definition row_error_msg :: "nat \<Rightarrow> py_exc \<Rightarrow> string" where
  "row_error_msg n e = ''Row '' @ nat_to_str n @ '': '' @ exc_str e"

text \<open>Lines 190--243, the loop body: the row's exception is caught and recorded.\<close>

definition import_row :: "user \<Rightarrow> nat \<Rightarrow> cell list \<Rightarrow> import_state \<Rightarrow> import_state" where
  "import_row u n row st =
     (case process_row u row (imp_db st) of
        Inl e \<Rightarrow> st\<lparr>errors := errors st @ [row_error_msg n e]\<rparr>
      | Inr (Skipped, s') \<Rightarrow> st\<lparr>imp_db := s'\<rparr>
      | Inr (Created, s') \<Rightarrow> st\<lparr>imp_db := s', created_count := Suc (created_count st)\<rparr>
      | Inr (Updated, s') \<Rightarrow> st\<lparr>imp_db := s', updated_count := Suc (updated_count st)\<rparr>)"

text \<open>Line 189: the rows after the header, numbered from 2.\<close>

primrec import_rows :: "user \<Rightarrow> nat \<Rightarrow> cell list list \<Rightarrow> import_state \<Rightarrow> import_state" where
  "import_rows u n [] st = st"
| "import_rows u n (row # rows) st = import_rows u (Suc n) rows (import_row u n row st)"

record uploaded_file =
  file_name :: string
  workbook :: "string + cell list list"

datatype upload_response =
    UploadOk string nat nat "string list"
  | UploadError string

definition start_state :: "db \<Rightarrow> import_state" where
  "start_state s = \<lparr>imp_db = s, created_count = 0, updated_count = 0, errors = []\<rparr>"

text \<open>
  Lines 164--256.  No file, a name without an Excel extension (compared case-sensitively)
  and a workbook that does not load are request errors; otherwise the rows after the
  header are imported and the counts and messages returned.
\<close>

definition upload_excel :: "user \<Rightarrow> uploaded_file option \<Rightarrow> db \<Rightarrow> upload_response \<times> db" where
  "upload_excel u f s =
     (case f of
        None \<Rightarrow> (UploadError ''No file provided'', s)
      | Some file \<Rightarrow>
          if \<not> (suffix ''.xlsx'' (file_name file) \<or> suffix ''.xls'' (file_name file))
          then (UploadError ''File must be Excel format (. xlsx or .xls)'', s)
          else (case workbook file of
                  Inl msg \<Rightarrow> (UploadError (''Error processing file: '' @ msg), s)
                | Inr rows \<Rightarrow>
                    (let st = import_rows u 2 (drop 1 rows) (start_state s) in
                     (UploadOk ''Excel file processed successfully'' (created_count st)
                        (updated_count st) (errors st), imp_db st))))"

subsection \<open>What a row does, independently of the table\<close>

text \<open>
  Under the store invariant a row's fate does not depend on the table: \<open>row_exc\<close>
  is the exception it raises, \<open>row_counted\<close> says it is created or updated,
  \<open>row_skipped\<close> that its serial number is falsy, and \<open>errs_of\<close> lists the
  messages a run over the rows reports.
\<close>
definition row_exc :: "cell list \<Rightarrow> py_exc option" where
  "row_exc row =
     (case row_get row 0 of
        Inl e \<Rightarrow> Some e
      | Inr sr \<Rightarrow> if \<not> truthy sr then None
                 else (case row_payload row of
                         Inl e \<Rightarrow> Some e
                       | Inr d \<Rightarrow> (case apply_defaults d (blank_application 0 []) of
                                    Inl e \<Rightarrow> Some e
                                  | Inr _ \<Rightarrow> None)))"

definition row_counted :: "cell list \<Rightarrow> bool" where
  "row_counted row \<longleftrightarrow> row \<noteq> [] \<and> truthy (hd row) \<and> row_exc row = None"

definition row_skipped :: "cell list \<Rightarrow> bool" where
  "row_skipped row \<longleftrightarrow> row \<noteq> [] \<and> \<not> truthy (hd row)"

primrec errs_of :: "nat \<Rightarrow> cell list list \<Rightarrow> string list" where
  "errs_of n [] = []"
| "errs_of n (row # rows) =
     (case row_exc row of Some e \<Rightarrow> [row_error_msg n e] | None \<Rightarrow> []) @ errs_of (Suc n) rows"

definition counted_keys :: "cell list list \<Rightarrow> string set" where
  "counted_keys rows = set (map (\<lambda>r. py_str (hd r)) (filter row_counted rows))"

subsection \<open>Example inputs\<close>

text \<open>A clerk and two small workbooks, used to instantiate the theorems below.\<close>

definition example_clerk :: user where
  "example_clerk = \<lparr>user_id = 1, username = ''clerk'', role = STAFF, user_station = ''Saddar''\<rparr>"

definition example_row :: "cell list" where
  "example_row = [CInt 1001, CStr ''D-17'', CStr ''Ali'', CStr ''0300'', CStr ''SHO'',
     CStr ''2024-01-05'', CStr ''DSP'', CStr ''7'', CStr ''Saddar'', CStr ''City'', CStr ''Land'',
     CNone, CStr ''15'']"

definition example_sheet :: uploaded_file where
  "example_sheet = \<lparr>file_name = ''apps.xlsx'', workbook = Inr [[CStr ''Sr No''], example_row]\<rparr>"

definition example_rows2 :: "cell list list" where
  "example_rows2 = [[CStr ''Sr No''], example_row, [CNone], [CStr ''5'', CNone]]"

definition example_sheet2 :: uploaded_file where
  "example_sheet2 = \<lparr>file_name = ''apps.xlsx'', workbook = Inr example_rows2\<rparr>"

subsection \<open>Lemmas: one row\<close>

lemma process_row_Nil: "process_row u [] s = Inl IndexError"
  by (simp add: process_row_def row_get_def)

lemma process_row_Cons:
  "process_row u (c # cs) s =
     (if \<not> truthy c then Inr (Skipped, s)
      else bind_exc (row_payload (c # cs)) (\<lambda>d.
           bind_exc (db_update_or_create (py_str c) d s) (\<lambda>(a, created, s').
             if \<not> created then Inr (Updated, db_save (a\<lparr>created_by := Some (user_id u)\<rparr>) s')
             else Inr (Created, s'))))"
  by (simp add: process_row_def row_get_def)

lemma row_exc_Cons:
  "row_exc (c # cs) =
     (if \<not> truthy c then None
      else (case row_payload (c # cs) of
              Inl e \<Rightarrow> Some e
            | Inr d \<Rightarrow> (case apply_defaults d (blank_application 0 []) of Inl e \<Rightarrow> Some e | Inr _ \<Rightarrow> None)))"
  by (simp add: row_exc_def row_get_def)

lemma db_update_or_create_Inr_ex:
  assumes "db_wf s" and "apply_defaults d (blank_application 0 []) = Inr b"
  shows "\<exists>a c s'. db_update_or_create k d s = Inr (a, c, s')"
proof (cases "db_update_or_create k d s")
  case (Inl e)
  with db_update_or_create_Inl_iff [OF assms(1)] assms(2) show ?thesis by simp
qed auto

text \<open>Under the invariant, a row raises exactly what \<open>row_exc\<close> says, whatever the table.\<close>

lemma process_row_Inl_iff:
  assumes "db_wf s"
  shows "process_row u row s = Inl e \<longleftrightarrow> row_exc row = Some e"
proof (cases row)
  case Nil
  then show ?thesis by (simp add: process_row_Nil row_exc_def row_get_def)
next
  case (Cons c cs)
  show ?thesis
  proof (cases "truthy c")
    case False
    then show ?thesis using Cons by (simp add: process_row_Cons row_exc_Cons)
  next
    case True
    show ?thesis
    proof (cases "row_payload (c # cs)")
      case (Inl e')
      then show ?thesis using Cons True by (simp add: process_row_Cons row_exc_Cons)
    next
      case (Inr d)
      show ?thesis
      proof (cases "apply_defaults d (blank_application 0 [])")
        case (Inl e')
        then have "db_update_or_create (py_str c) d s = Inl e'"
          using db_update_or_create_Inl_iff [OF assms] by simp
        then show ?thesis using Cons True Inr Inl by (simp add: process_row_Cons row_exc_Cons)
      next
        case (Inr b)
        then obtain a cr s' where "db_update_or_create (py_str c) d s = Inr (a, cr, s')"
          using db_update_or_create_Inr_ex [OF assms] by blast
        then show ?thesis using Cons True \<open>row_payload (c # cs) = Inr d\<close> Inr
          by (simp add: process_row_Cons row_exc_Cons)
      qed
    qed
  qed
qed

lemma process_row_InrE:
  assumes "process_row u (c # cs) s = Inr (r, s')" and "truthy c"
  obtains d a cr s'' where "row_payload (c # cs) = Inr d"
    and "db_update_or_create (py_str c) d s = Inr (a, cr, s'')"
    and "\<not> cr" and "r = Updated" and "s' = db_save (a\<lparr>created_by := Some (user_id u)\<rparr>) s''"
  | d a cr where "row_payload (c # cs) = Inr d"
    and "db_update_or_create (py_str c) d s = Inr (a, cr, s')" and "cr" and "r = Created"
proof -
  let ?k = "\<lambda>(a, created, s'').
               if \<not> created then Inr (Updated, db_save (a\<lparr>created_by := Some (user_id u)\<rparr>) s'')
               else Inr (Created, s'')"
  from assms
  have "bind_exc (row_payload (c # cs)) (\<lambda>d. bind_exc (db_update_or_create (py_str c) d s) ?k)
          = Inr (r, s')" by (simp add: process_row_Cons)
  then obtain d where pay: "row_payload (c # cs) = Inr d"
    and rest: "bind_exc (db_update_or_create (py_str c) d s) ?k = Inr (r, s')"
    by (rule bind_exc_InrE)
  from rest obtain a cr s'' where
    uoc: "db_update_or_create (py_str c) d s = Inr (a, cr, s'')" and
    res: "(if \<not> cr then Inr (Updated, db_save (a\<lparr>created_by := Some (user_id u)\<rparr>) s'')
           else Inr (Created, s'')) = (Inr (r, s') :: py_exc + row_outcome \<times> db)"
    by (rule bind_exc_prod3_InrE)
  show thesis
  proof (cases cr)
    case True
    with res have r: "r = Created" and eq: "s'' = s'" by auto
    show thesis by (rule that(2) [OF pay uoc [unfolded eq] True r])
  next
    case False
    with res have r: "r = Updated" and eq: "s' = db_save (a\<lparr>created_by := Some (user_id u)\<rparr>) s''"
      by auto
    show thesis by (rule that(1) [OF pay uoc False r eq])
  qed
qed

lemma process_row_Inr:
  assumes "db_wf s" and "process_row u row s = Inr (r, s')"
  shows "db_wf s' \<and> (r = Skipped \<longleftrightarrow> row_skipped row) \<and> (r = Skipped \<longrightarrow> s' = s)
    \<and> (r \<noteq> Skipped \<longrightarrow> row_counted row
         \<and> sr_keys s' = insert (py_str (hd row)) (sr_keys s)
         \<and> (r = Created \<longleftrightarrow> py_str (hd row) \<notin> sr_keys s))
    \<and> length (apps s') = length (apps s) + (if r = Created then 1 else 0)"
proof (cases row)
  case Nil
  with assms(2) show ?thesis by (simp add: process_row_Nil)
next
  case (Cons c cs)
  show ?thesis
  proof (cases "truthy c")
    case False
    with Cons assms(1,2) show ?thesis by (auto simp: process_row_Cons row_skipped_def)
  next
    case True
    have "row_exc row = None"
      using process_row_Inl_iff [of s u row e for e] assms by (cases "row_exc row") auto
    then have counted: "row_counted row" using Cons True by (simp add: row_counted_def)
    from assms(2) [unfolded Cons] True show ?thesis
    proof (rule process_row_InrE)
      fix d a cr s''
      assume uoc: "db_update_or_create (py_str c) d s = Inr (a, cr, s'')" and "\<not> cr"
        and r: "r = Updated" and s': "s' = db_save (a\<lparr>created_by := Some (user_id u)\<rparr>) s''"
      note facts = db_update_or_create_wf [OF assms(1) uoc]
      let ?a = "a\<lparr>created_by := Some (user_id u)\<rparr>"
      have same: "\<forall>b \<in> set (apps s''). app_id b = app_id ?a \<longrightarrow> sr_no b = sr_no ?a"
        using facts db_wf_same_id [of s'' a] by auto
      have "db_wf (db_save ?a s'')" using db_wf_db_save [OF _ same] facts by blast
      moreover have "sr_keys (db_save ?a s'') = sr_keys s''"
        using map_sr_no_db_save [OF same] by (simp add: sr_keys_def)
      ultimately show ?thesis using r s' \<open>\<not> cr\<close> facts counted Cons True
        by (auto simp: row_skipped_def)
    next
      fix d a cr
      assume uoc: "db_update_or_create (py_str c) d s = Inr (a, cr, s')" and "cr" and "r = Created"
      with db_update_or_create_wf [OF assms(1) uoc] counted Cons True show ?thesis
        by (auto simp: row_skipped_def)
    qed
  qed
qed

text \<open>The record a counted row lands in, and its \<open>created_by\<close> stamp.\<close>

lemma process_row_record:
  assumes "db_wf s" and "process_row u (c # cs) s = Inr (r, s')" and "r \<noteq> Skipped"
  shows "\<exists>a \<in> set (apps s'). sr_no a = py_str c
     \<and> created_by a = (if r = Created then None else Some (user_id u))"
proof -
  have "truthy c" using assms(2,3) by (auto simp: process_row_Cons split: if_splits)
  from assms(2) this show ?thesis
  proof (rule process_row_InrE)
    fix d a cr s''
    assume uoc: "db_update_or_create (py_str c) d s = Inr (a, cr, s'')" and "\<not> cr"
      and r: "r = Updated" and s': "s' = db_save (a\<lparr>created_by := Some (user_id u)\<rparr>) s''"
    note facts = db_update_or_create_wf [OF assms(1) uoc]
    have mem: "a\<lparr>created_by := Some (user_id u)\<rparr> \<in> set (apps s')"
      using db_save_mem [of a s'' "a\<lparr>created_by := Some (user_id u)\<rparr>"] facts s' by simp
    show ?thesis using facts r by (intro bexI [OF _ mem]) simp
  next
    fix d a cr
    assume uoc: "db_update_or_create (py_str c) d s = Inr (a, cr, s')" and "cr" and "r = Created"
    have "py_str c \<notin> sr_keys s" using db_update_or_create_wf [OF assms(1) uoc] \<open>cr\<close> by simp
    note cr = db_update_or_create_created [OF assms(1) this uoc]
    have mem: "a \<in> set (apps s')" using db_update_or_create_wf [OF assms(1) uoc] by simp
    show ?thesis using cr \<open>r = Created\<close> by (intro bexI [OF _ mem]) simp
  qed
qed

lemma process_row_Inr_row_exc:
  "db_wf s \<Longrightarrow> process_row u row s = Inr p \<Longrightarrow> row_exc row = None"
  using process_row_Inl_iff [of s u row] by (cases "row_exc row") auto

lemma import_row_facts:
  assumes "db_wf (imp_db st)" and "st' = import_row u n row st"
  shows "db_wf (imp_db st')
    \<and> errors st' = errors st @ (case row_exc row of Some e \<Rightarrow> [row_error_msg n e] | None \<Rightarrow> [])
    \<and> created_count st' = created_count st
        + (if row_counted row \<and> py_str (hd row) \<notin> sr_keys (imp_db st) then 1 else 0)
    \<and> updated_count st' = updated_count st
        + (if row_counted row \<and> py_str (hd row) \<in> sr_keys (imp_db st) then 1 else 0)
    \<and> length (apps (imp_db st')) + created_count st = length (apps (imp_db st)) + created_count st'
    \<and> sr_keys (imp_db st') = sr_keys (imp_db st) \<union> (if row_counted row then {py_str (hd row)} else {})"
proof (cases "process_row u row (imp_db st)")
  case (Inl e)
  with process_row_Inl_iff [OF assms(1)] have "row_exc row = Some e" by simp
  then have "\<not> row_counted row" by (simp add: row_counted_def)
  with Inl assms \<open>row_exc row = Some e\<close> show ?thesis
    by (simp add: import_row_def)
next
  case (Inr p)
  obtain r s' where p: "p = (r, s')" by (cases p)
  note facts = process_row_Inr [OF assms(1) Inr [unfolded p]]
  have "row_exc row = None" using process_row_Inr_row_exc [OF assms(1) Inr] .
  with facts Inr p assms(2) show ?thesis
    by (cases r) (auto simp: import_row_def row_counted_def row_skipped_def)
qed

subsection \<open>Lemmas: the loop\<close>

lemma counted_keys_Cons:
  "counted_keys (row # rows) = (if row_counted row then {py_str (hd row)} else {}) \<union> counted_keys rows"
  by (auto simp: counted_keys_def)

lemma counted_keys_Nil [simp]: "counted_keys [] = {}"
  by (simp add: counted_keys_def)

lemma import_rows_facts:
  assumes "db_wf (imp_db st)" and "st' = import_rows u n rows st"
  shows "db_wf (imp_db st') \<and> errors st' = errors st @ errs_of n rows
    \<and> created_count st' + updated_count st'
        = created_count st + updated_count st + count_where row_counted rows
    \<and> length (apps (imp_db st')) + created_count st = length (apps (imp_db st)) + created_count st'
    \<and> sr_keys (imp_db st') = sr_keys (imp_db st) \<union> counted_keys rows"
  using assms
proof (induction rows arbitrary: n st)
  case Nil
  then show ?case by simp
next
  case (Cons row rows)
  let ?st1 = "import_row u n row st"
  note step = import_row_facts [OF Cons.prems(1) refl, of u n row]
  have "st' = import_rows u (Suc n) rows ?st1" using Cons.prems(2) by simp
  with step have IH: "db_wf (imp_db st') \<and> errors st' = errors ?st1 @ errs_of (Suc n) rows
    \<and> created_count st' + updated_count st'
        = created_count ?st1 + updated_count ?st1 + count_where row_counted rows
    \<and> length (apps (imp_db st')) + created_count ?st1 = length (apps (imp_db ?st1)) + created_count st'
    \<and> sr_keys (imp_db st') = sr_keys (imp_db ?st1) \<union> counted_keys rows"
    using Cons.IH by blast
  show ?case
    using IH step by (auto simp: counted_keys_Cons split: option.splits)
qed

text \<open>When every counted row's key is already stored, nothing is created.\<close>

lemma import_rows_no_create:
  assumes "db_wf (imp_db st)" and "counted_keys rows \<subseteq> sr_keys (imp_db st)"
  shows "created_count (import_rows u n rows st) = created_count st"
  using assms
proof (induction rows arbitrary: n st)
  case Nil
  then show ?case by simp
next
  case (Cons row rows)
  let ?st1 = "import_row u n row st"
  note step = import_row_facts [OF Cons.prems(1) refl, of u n row]
  have "created_count ?st1 = created_count st"
    using step Cons.prems(2) by (auto simp: counted_keys_Cons)
  moreover have "created_count (import_rows u (Suc n) rows ?st1) = created_count ?st1"
    using step Cons.prems(2) by (intro Cons.IH) (auto simp: counted_keys_Cons)
  ultimately show ?case by simp
qed

subsection \<open>Lemmas: the request\<close>

lemma row_partition:
  "count_where (\<lambda>r. row_exc r \<noteq> None) rows + count_where row_skipped rows
     + count_where row_counted rows = length rows"
proof (induction rows)
  case (Cons r rows)
  have "row_skipped r \<Longrightarrow> row_exc r = None"
    by (cases r) (auto simp: row_skipped_def row_exc_Cons)
  moreover have "r = [] \<Longrightarrow> row_exc r \<noteq> None" by (simp add: row_exc_def row_get_def)
  ultimately show ?case using Cons
    by (cases r) (auto simp: row_counted_def row_skipped_def)
qed simp

lemma length_errs_of: "length (errs_of n rows) = count_where (\<lambda>r. row_exc r \<noteq> None) rows"
  by (induction rows arbitrary: n) (auto split: option.splits)

lemma upload_excel_OkE:
  assumes "upload_excel u f s = (UploadOk m c up errs, s')"
  obtains fl rows where "f = Some fl" and "workbook fl = Inr rows"
    and "m = ''Excel file processed successfully''"
    and "c = created_count (import_rows u 2 (drop 1 rows) (start_state s))"
    and "up = updated_count (import_rows u 2 (drop 1 rows) (start_state s))"
    and "errs = errors (import_rows u 2 (drop 1 rows) (start_state s))"
    and "s' = imp_db (import_rows u 2 (drop 1 rows) (start_state s))"
  using assms by (auto simp: upload_excel_def Let_def split: option.splits if_splits sum.splits)

lemma upload_excel_accepts:
  assumes "upload_excel u (Some f) s = (UploadOk m c up errs, s')" and "workbook f = Inr rows"
  shows "upload_excel u' (Some f) t =
    (let st = import_rows u' 2 (drop 1 rows) (start_state t) in
      (UploadOk ''Excel file processed successfully'' (created_count st) (updated_count st)
         (errors st), imp_db st))"
  using assms by (auto simp: upload_excel_def split: if_splits sum.splits)

lemma isdigit_py_str_datetime: "\<not> isdigit_str (py_str (CDateTime d t))"
proof -
  have "CHR ''-'' \<in> set (py_str (CDateTime d t))" by (simp add: date_str_def)
  moreover have "\<not> is_digit (CHR ''-'')" by (simp add: is_digit_def)
  ultimately show ?thesis by (auto simp: isdigit_str_def list_all_iff)
qed

lemma import_rows_wf: "db_wf (imp_db st) \<Longrightarrow> db_wf (imp_db (import_rows u n rows st))"
  using import_rows_facts by blast

subsection \<open>Properties of the import\<close>

text \<open>
  C1. Re-importing a spreadsheet that was imported successfully creates nothing: every
  row that was created or updated the first time is updated, the same row errors are
  reported, and the number of records does not change.
\<close>

theorem upload_excel_reimport:
  assumes "db_wf s" and "upload_excel u (Some f) s = (UploadOk m c up errs, s1)"
  shows "fst (upload_excel u' (Some f) s1) = UploadOk m 0 (c + up) errs
    \<and> length (apps (snd (upload_excel u' (Some f) s1))) = length (apps s1)"
proof -
  from assms(2) obtain fl rows where "Some f = Some fl" and wb0: "workbook fl = Inr rows"
    and m: "m = ''Excel file processed successfully''"
    and st: "c = created_count (import_rows u 2 (drop 1 rows) (start_state s))"
       "up = updated_count (import_rows u 2 (drop 1 rows) (start_state s))"
       "errs = errors (import_rows u 2 (drop 1 rows) (start_state s))"
       "s1 = imp_db (import_rows u 2 (drop 1 rows) (start_state s))"
    by (rule upload_excel_OkE)
  then have wb: "workbook f = Inr rows" by simp
  let ?rs = "drop 1 rows"
  let ?st2 = "import_rows u' 2 ?rs (start_state s1)"
  have wf0: "db_wf (imp_db (start_state s))" using assms(1) by (simp add: start_state_def)
  note f1 = import_rows_facts [OF wf0 refl, of u 2 ?rs]
  have wf1: "db_wf (imp_db (start_state s1))" using f1 st by (simp add: start_state_def)
  note f2 = import_rows_facts [OF wf1 refl, of u' 2 ?rs]
  have keys: "counted_keys ?rs \<subseteq> sr_keys (imp_db (start_state s1))"
    using f1 st by (auto simp: start_state_def)
  have c2: "created_count ?st2 = 0"
    using import_rows_no_create [OF wf1 keys, of u' 2] by (simp add: start_state_def)
  have "upload_excel u' (Some f) s1 =
      (UploadOk m (created_count ?st2) (updated_count ?st2) (errors ?st2), imp_db ?st2)"
    using upload_excel_accepts [OF assms(2) wb, of u' s1] m by (simp add: Let_def)
  then show ?thesis
    using f1 f2 c2 st by (simp add: start_state_def)
qed

theorem upload_excel_reimport_witness:
  "db_wf empty_db
   \<and> upload_excel example_clerk (Some example_sheet) empty_db = (UploadOk ''Excel file processed successfully'' 1 0 [],
        snd (upload_excel example_clerk (Some example_sheet) empty_db))
   \<and> fst (upload_excel example_clerk (Some example_sheet) (snd (upload_excel example_clerk (Some example_sheet) empty_db)))
        = UploadOk ''Excel file processed successfully'' 0 (1 + 0) []"
proof -
  have wf: "db_wf empty_db" by (simp add: db_wf_def empty_db_def)
  have ok: "upload_excel example_clerk (Some example_sheet) empty_db = (UploadOk ''Excel file processed successfully'' 1 0 [],
        snd (upload_excel example_clerk (Some example_sheet) empty_db))" by code_simp
  show ?thesis using wf ok upload_excel_reimport [OF wf ok, of example_clerk] by simp
qed

text \<open>
  C2. A successful import reports exactly the rows that raised, as \<open>Row n: message\<close>
  numbered from 2, without stopping at them; every data row is created, updated,
  reported or skipped, exactly one of these; and the table grows by the created count.
\<close>

theorem upload_excel_counts:
  assumes "db_wf s" and "upload_excel u (Some f) s = (UploadOk m c up errs, s')"
    and "workbook f = Inr rows"
  shows "db_wf s' \<and> errs = errs_of 2 (drop 1 rows)
    \<and> c + up + length errs + count_where row_skipped (drop 1 rows) = length rows - 1
    \<and> length (apps s') = length (apps s) + c"
proof -
  from assms(2) obtain fl rows' where "Some f = Some fl" and wb: "workbook fl = Inr rows'"
    and st: "c = created_count (import_rows u 2 (drop 1 rows') (start_state s))"
       "up = updated_count (import_rows u 2 (drop 1 rows') (start_state s))"
       "errs = errors (import_rows u 2 (drop 1 rows') (start_state s))"
       "s' = imp_db (import_rows u 2 (drop 1 rows') (start_state s))"
    by (rule upload_excel_OkE)
  then have "rows' = rows" using assms(3) by simp
  note facts = import_rows_facts [of "start_state s" _ u 2 "drop 1 rows", OF _ refl]
  show ?thesis
    using facts assms(1) st \<open>rows' = rows\<close> row_partition [of "drop 1 rows"]
      length_errs_of [of 2 "drop 1 rows"]
    by (simp add: start_state_def)
qed

theorem upload_excel_counts_witness:
  "db_wf empty_db \<and> upload_excel example_clerk (Some example_sheet2) empty_db = (UploadOk ''Excel file processed successfully'' 1 0
      [''Row 4: tuple index out of range''], snd (upload_excel example_clerk (Some example_sheet2) empty_db))
   \<and> workbook example_sheet2 = Inr example_rows2
   \<and> 1 + 0 + 1 + count_where row_skipped (drop 1 example_rows2) = length example_rows2 - 1"
proof -
  have wf: "db_wf empty_db" by (simp add: db_wf_def empty_db_def)
  have ok: "upload_excel example_clerk (Some example_sheet2) empty_db = (UploadOk ''Excel file processed successfully'' 1 0
      [''Row 4: tuple index out of range''], snd (upload_excel example_clerk (Some example_sheet2) empty_db))" by code_simp
  have wb: "workbook example_sheet2 = Inr example_rows2" by (simp add: example_sheet2_def)
  show ?thesis using upload_excel_counts [OF wf ok wb] wf ok wb by simp
qed

text \<open>
  C4. A row whose serial number is empty (or otherwise falsy) is skipped silently: the
  loop state, counts and error list included, is unchanged.
\<close>

theorem import_row_skip:
  "row \<noteq> [] \<Longrightarrow> \<not> truthy (hd row) \<Longrightarrow> import_row u n row st = st"
  by (cases row) (simp_all add: import_row_def process_row_Cons)

theorem import_row_skip_witness:
  "import_row example_clerk 3 [CStr [], CStr ''D-1''] (start_state empty_db) = start_state empty_db"
  using import_row_skip [of "[CStr [], CStr ''D-1'']"] by simp

text \<open>
  C5. A created or updated row lands in a record with its serial number; an update stamps
  \<open>created_by\<close> with the importing user, a creation leaves it empty.
\<close>

theorem import_created_by:
  assumes "db_wf s" and "process_row u (c # cs) s = Inr (r, s')" and "r \<noteq> Skipped"
  shows "\<exists>a \<in> set (apps s'). sr_no a = py_str c
     \<and> created_by a = (if r = Created then None else Some (user_id u))"
  using process_row_record [OF assms] .

theorem import_created_by_witness:
  "\<exists>a \<in> set (apps (snd (projr (process_row example_clerk example_row empty_db)))).
     sr_no a = ''1001'' \<and> created_by a = None"
proof -
  have wf: "db_wf empty_db" by (simp add: db_wf_def empty_db_def)
  let ?s' = "snd (projr (process_row example_clerk example_row empty_db))"
  have pr: "process_row example_clerk (CInt 1001 # tl example_row) empty_db = Inr (Created, ?s')"
    by code_simp
  have "py_str (CInt 1001) = ''1001''" by code_simp
  then show ?thesis using import_created_by [OF wf pr] by simp
qed

text \<open>
  C6. The days column: a string becomes its value exactly when it is all digits, an
  integer exactly when it is positive (a zero integer is lost, unlike the string
  \<open>0\<close>), and None, booleans and datetimes give None; the step never raises.
\<close>

theorem parse_days_cases:
  "parse_days CNone = Inr None
   \<and> parse_days (CStr s) = Inr (if isdigit_str s then Some (int (digits_val s)) else None)
   \<and> parse_days (CInt i) = Inr (if 0 < i then Some i else None)
   \<and> parse_days (CBool b) = Inr None
   \<and> parse_days (CDateTime d t) = Inr None"
proof -
  have str: "parse_days (CStr s) = Inr (if isdigit_str s then Some (int (digits_val s)) else None)"
    by (auto simp: parse_days_def isdigit_str_def)
  have int: "parse_days (CInt i) = Inr (if 0 < i then Some i else None)"
    by (auto simp: parse_days_def)
  have bool: "parse_days (CBool b) = Inr None"
    by (simp add: parse_days_def isdigit_str_def is_digit_def)
  have dt: "parse_days (CDateTime d t) = Inr None"
    using isdigit_py_str_datetime [of d t] by (simp add: parse_days_def)
  show ?thesis using str int bool dt by (simp add: parse_days_def)
qed

text \<open>
  C7. Request-level errors: no file, a name not ending in \<open>.xlsx\<close> or \<open>.xls\<close>
  (compared case-sensitively) and a workbook that does not load are answered with an
  error and leave the store unchanged.
\<close>

theorem upload_excel_rejects:
  "upload_excel u None s = (UploadError ''No file provided'', s)
   \<and> (\<not> suffix ''.xlsx'' (file_name f) \<and> \<not> suffix ''.xls'' (file_name f) \<longrightarrow>
        upload_excel u (Some f) s = (UploadError ''File must be Excel format (. xlsx or .xls)'', s))
   \<and> ((suffix ''.xlsx'' (file_name f) \<or> suffix ''.xls'' (file_name f)) \<and> workbook f = Inl msg \<longrightarrow>
        upload_excel u (Some f) s = (UploadError (''Error processing file: '' @ msg), s))"
  by (simp add: upload_excel_def)

theorem upload_excel_rejects_witness:
  "upload_excel example_clerk (Some \<lparr>file_name = ''APPS.XLSX'', workbook = Inr [[CInt 1001]]\<rparr>) empty_db
     = (UploadError ''File must be Excel format (. xlsx or .xls)'', empty_db)
   \<and> upload_excel example_clerk (Some \<lparr>file_name = ''apps.xls'', workbook = Inl ''bad zip''\<rparr>) empty_db
     = (UploadError ''Error processing file: bad zip'', empty_db)"
proof -
  have n1: "\<not> suffix ''.xlsx'' ''APPS.XLSX'' \<and> \<not> suffix ''.xls'' ''APPS.XLSX''" by code_simp
  have n2: "suffix ''.xlsx'' ''apps.xls'' \<or> suffix ''.xls'' ''apps.xls''" by code_simp
  note r1 = upload_excel_rejects [of example_clerk empty_db "\<lparr>file_name = ''APPS.XLSX'', workbook = Inr [[CInt 1001]]\<rparr>"]
  note r2 = upload_excel_rejects [of example_clerk empty_db "\<lparr>file_name = ''apps.xls'', workbook = Inl ''bad zip''\<rparr>" "''bad zip''"]
  show ?thesis using r1 r2 n1 n2 by simp
qed

text \<open>
  The spec's end-to-end example, computed: a sheet with a header and one row with serial
  number 1001 and days \<open>15\<close> imports into an empty store as one created record with
  days 15 and status and feedback PENDING, and no errors.
\<close>

theorem upload_example:
  "upload_excel example_clerk (Some example_sheet) empty_db
   = (UploadOk ''Excel file processed successfully'' 1 0 [],
      \<lparr>apps = [\<lparr>app_id = 1, sr_no = ''1001'', dairy_no = ''D-17'', name = ''Ali'', contact = ''0300'',
        marked_to = ''SHO'', app_date = Some \<lparr>year = 2024, month = 1, day = 5\<rparr>, marked_by = ''DSP'',
        timeline = ''7'', police_station = ''Saddar'', division = ''City'', category = ''Land'',
        status = PENDING, days = Some 15, feedback = FB_PENDING, remarks = [], dairy_ps = [],
        created_by = None\<rparr>], next_id = 2\<rparr>)"
  by code_simp

subsection \<open>Lemmas: what an import writes\<close>

lemma row_payload_pending:
  "row_payload row = Inr d \<Longrightarrow> d_status d = PENDING \<and> d_feedback d = FB_PENDING"
  by (auto simp: row_payload_def application_data_def bind_exc_eq_Inr_iff)

lemma process_row_touches:
  assumes "db_wf s" and "process_row u (c # cs) s = Inr (r, s')" and "r \<noteq> Skipped"
    and "b \<in> set (apps s')"
  shows "(b \<in> set (apps s) \<and> sr_no b \<noteq> py_str c)
     \<or> (sr_no b = py_str c \<and> status b = PENDING \<and> feedback b = FB_PENDING)"
proof -
  have "truthy c" using assms(2,3) by (auto simp: process_row_Cons split: if_splits)
  from assms(2) this show ?thesis
  proof (rule process_row_InrE)
    fix d a cr s''
    assume pay: "row_payload (c # cs) = Inr d"
      and uoc: "db_update_or_create (py_str c) d s = Inr (a, cr, s'')" and "\<not> cr"
      and s': "s' = db_save (a\<lparr>created_by := Some (user_id u)\<rparr>) s''"
    have "py_str c \<in> sr_keys s" using db_update_or_create_wf [OF assms(1) uoc] \<open>\<not> cr\<close> by simp
    then obtain b0 where b0: "b0 \<in> set (apps s)" "sr_no b0 = py_str c" by (auto simp: sr_keys_def)
    from db_update_or_create_updated [OF assms(1) b0 uoc]
    have s'': "s'' = db_save a s" and ad: "apply_defaults d b0 = Inr a" by auto
    note ka = apply_defaults_Inr [OF ad]
    have pend: "status a = PENDING \<and> feedback a = FB_PENDING" using ka row_payload_pending [OF pay] by simp
    have ids: "app_id a = app_id b0" using ka by simp
    show ?thesis
    proof (cases "app_id b = app_id a")
      case True
      with assms(4) s' s'' pend ka b0 show ?thesis by (auto simp: db_save_def)
    next
      case False
      with assms(4) s' s'' have "b \<in> set (apps s)" by (auto simp: db_save_def)
      moreover have "sr_no b \<noteq> py_str c"
      proof
        assume "sr_no b = py_str c"
        with b0 \<open>b \<in> set (apps s)\<close> assms(1) have "b = b0"
          using db_wf_same_sr [of s b0 b] by simp
        with False ids show False by simp
      qed
      ultimately show ?thesis by simp
    qed
  next
    fix d a cr
    assume pay: "row_payload (c # cs) = Inr d"
      and uoc: "db_update_or_create (py_str c) d s = Inr (a, cr, s')" and "cr"
    have nk: "py_str c \<notin> sr_keys s" using db_update_or_create_wf [OF assms(1) uoc] \<open>cr\<close> by simp
    note cr = db_update_or_create_created [OF assms(1) nk uoc]
    have ad: "apply_defaults d (blank_application (next_id s) (py_str c)) = Inr a"
      using uoc nk by (auto simp: db_update_or_create_absent bind_exc_eq_Inr_iff)
    have pend: "status a = PENDING \<and> feedback a = FB_PENDING"
      using apply_defaults_Inr [OF ad] row_payload_pending [OF pay] by simp
    from assms(4) cr have "b \<in> set (apps s) \<or> b = a" by auto
    then show ?thesis
    proof
      assume "b \<in> set (apps s)"
      moreover from this nk have "sr_no b \<noteq> py_str c" by (auto simp: sr_keys_def rev_image_eqI)
      ultimately show ?thesis by simp
    next
      assume "b = a"
      with cr pend show ?thesis by simp
    qed
  qed
qed

lemma imp_db_import_row:
  "imp_db (import_row u n row st) =
     (case process_row u row (imp_db st) of Inl e \<Rightarrow> imp_db st | Inr (r, s') \<Rightarrow> s')"
  by (auto simp: import_row_def split: sum.splits prod.splits row_outcome.splits)

text \<open>Every record whose serial number a counted row carried ends PENDING, feedback included.\<close>

lemma import_rows_pending:
  assumes "db_wf (imp_db st)"
    and "\<forall>a \<in> set (apps (imp_db st)). sr_no a \<in> K \<longrightarrow> status a = PENDING \<and> feedback a = FB_PENDING"
  shows "\<forall>a \<in> set (apps (imp_db (import_rows u n rows st))). sr_no a \<in> K \<union> counted_keys rows
           \<longrightarrow> status a = PENDING \<and> feedback a = FB_PENDING"
  using assms
proof (induction rows arbitrary: n st K)
  case Nil
  then show ?case by simp
next
  case (Cons row rows)
  let ?st1 = "import_row u n row st"
  let ?K1 = "K \<union> (if row_counted row then {py_str (hd row)} else {})"
  have wf1: "db_wf (imp_db ?st1)" using import_row_facts [OF Cons.prems(1) refl, of u n row] by simp
  have P1: "\<forall>a \<in> set (apps (imp_db ?st1)). sr_no a \<in> ?K1 \<longrightarrow> status a = PENDING \<and> feedback a = FB_PENDING"
  proof (cases "process_row u row (imp_db st)")
    case (Inl e)
    then have "\<not> row_counted row"
      using process_row_Inl_iff [OF Cons.prems(1)] by (simp add: row_counted_def)
    then show ?thesis using Inl Cons.prems(2) by (simp add: imp_db_import_row)
  next
    case (Inr p)
    obtain r s' where p: "p = (r, s')" by (cases p)
    note facts = process_row_Inr [OF Cons.prems(1) Inr [unfolded p]]
    show ?thesis
    proof (cases "r = Skipped")
      case True
      with facts Inr p Cons.prems(2) show ?thesis by (auto simp: imp_db_import_row row_counted_def row_skipped_def)
    next
      case False
      with facts obtain c cs where row: "row = c # cs" and cnt: "row_counted row"
        by (cases row) (auto simp: row_counted_def)
      have "status b = PENDING \<and> feedback b = FB_PENDING"
        if "b \<in> set (apps s')" and "sr_no b \<in> ?K1" for b
        using process_row_touches [OF Cons.prems(1) Inr [unfolded p row] False that(1)]
          Cons.prems(2) that(2) row cnt by auto
      then show ?thesis using Inr p by (simp add: imp_db_import_row)
    qed
  qed
  have "\<forall>a \<in> set (apps (imp_db (import_rows u (Suc n) rows ?st1))). sr_no a \<in> ?K1 \<union> counted_keys rows
           \<longrightarrow> status a = PENDING \<and> feedback a = FB_PENDING"
    by (rule Cons.IH [OF wf1 P1])
  then show ?case by (simp add: counted_keys_Cons Un_assoc)
qed

subsection \<open>Lemmas: the days column stays a count\<close>

lemma parse_days_nonneg: "parse_days c = Inr (Some i) \<Longrightarrow> 0 \<le> i"
  by (cases c) (auto simp: parse_days_def split: if_splits)

lemma row_payload_days:
  "row_payload row = Inr d \<Longrightarrow> (case d_days d of None \<Rightarrow> True | Some i \<Rightarrow> 0 \<le> i)"
  by (auto simp: row_payload_def application_data_def bind_exc_eq_Inr_iff
      dest: parse_days_nonneg split: option.splits)

lemma process_row_days:
  assumes "process_row u row s = Inr (r, s')" and "list_all days_ok (apps s)"
  shows "list_all days_ok (apps s')"
proof (cases row)
  case Nil
  with assms(1) show ?thesis by (simp add: process_row_Nil)
next
  case (Cons c cs)
  show ?thesis
  proof (cases "truthy c")
    case False
    with Cons assms show ?thesis by (simp add: process_row_Cons)
  next
    case True
    have stored: "days_ok a \<and> list_all days_ok (apps s'')"
      if pay: "row_payload (c # cs) = Inr d" and uoc: "db_update_or_create (py_str c) d s = Inr (a, cr, s'')"
      for d a cr s''
    proof (rule db_update_or_create_list_all [OF uoc assms(2)])
      fix b b' assume "apply_defaults d b = Inr b'"
      then show "days_ok b'" using apply_defaults_Inr row_payload_days [OF pay] by (simp add: days_ok_def)
    qed
    from assms(1) [unfolded Cons] True show ?thesis
    proof (rule process_row_InrE)
      fix d a cr s''
      assume "row_payload (c # cs) = Inr d" "db_update_or_create (py_str c) d s = Inr (a, cr, s'')"
        and "s' = db_save (a\<lparr>created_by := Some (user_id u)\<rparr>) s''"
      with stored show ?thesis by (auto intro: list_all_db_save simp: days_ok_def)
    qed (use stored in blast)
  qed
qed

lemma import_rows_days:
  "list_all days_ok (apps (imp_db st)) \<Longrightarrow> list_all days_ok (apps (imp_db (import_rows u n rows st)))"
proof (induction rows arbitrary: n st)
  case (Cons row rows)
  have "list_all days_ok (apps (imp_db (import_row u n row st)))"
    using Cons.prems process_row_days [of u row "imp_db st"]
    by (auto simp: import_row_def split: sum.splits row_outcome.splits)
  then show ?case using Cons.IH by simp
qed simp

lemma upload_excel_days:
  "list_all days_ok (apps s) \<Longrightarrow> list_all days_ok (apps (snd (upload_excel u f s)))"
  using import_rows_days [of "start_state s"]
  by (auto simp: upload_excel_def start_state_def Let_def split: option.splits sum.splits)


subsection \<open>Lemmas: what an import leaves alone\<close>

lemma process_row_keeps:
  assumes "db_wf s" and "process_row u row s = Inr (r, s')" and "b \<in> set (apps s)"
    and "\<not> (row_counted row \<and> sr_no b = py_str (hd row))"
  shows "b \<in> set (apps s')"
proof (cases row)
  case Nil
  with assms(2) show ?thesis by (simp add: process_row_Nil)
next
  case (Cons c cs)
  show ?thesis
  proof (cases "truthy c")
    case False
    with Cons assms(2,3) show ?thesis by (simp add: process_row_Cons)
  next
    case True
    have "r \<noteq> Skipped" using assms(2) Cons True by (auto simp: process_row_Cons bind_exc_eq_Inr_iff split: if_splits)
    then have "row_counted row" using process_row_Inr [OF assms(1,2)] by blast
    then have ne: "sr_no b \<noteq> py_str c" using assms(4) Cons by simp
    from assms(2) [unfolded Cons] True show ?thesis
    proof (rule process_row_InrE)
      fix d a cr s''
      assume uoc: "db_update_or_create (py_str c) d s = Inr (a, cr, s'')"
        and s': "s' = db_save (a\<lparr>created_by := Some (user_id u)\<rparr>) s''"
      note k = db_update_or_create_keeps [OF assms(1) uoc assms(3) ne]
      show ?thesis unfolding s' using k by (intro db_save_keeps) auto
    next
      fix d a cr
      assume uoc: "db_update_or_create (py_str c) d s = Inr (a, cr, s')"
      show ?thesis using db_update_or_create_keeps [OF assms(1) uoc assms(3) ne] by simp
    qed
  qed
qed

lemma import_rows_keeps:
  assumes "db_wf (imp_db st)" and "b \<in> set (apps (imp_db st))" and "sr_no b \<notin> counted_keys rows"
  shows "b \<in> set (apps (imp_db (import_rows u n rows st)))"
  using assms
proof (induction rows arbitrary: n st)
  case (Cons row rows)
  let ?st1 = "import_row u n row st"
  have wf1: "db_wf (imp_db ?st1)" using import_row_facts [OF Cons.prems(1) refl] by blast
  have "b \<in> set (apps (imp_db ?st1))"
    using Cons.prems process_row_keeps [OF Cons.prems(1), of u row _ _ b]
    by (auto simp: imp_db_import_row counted_keys_Cons split: sum.splits if_splits)
  moreover have "sr_no b \<notin> counted_keys rows" using Cons.prems(3) by (simp add: counted_keys_Cons)
  ultimately show ?case using Cons.IH [OF wf1] by simp
qed simp

text \<open>
  C3. An import writes exactly the serial numbers of the counted rows after the header:
  the stored keys afterwards are the old ones and those, and every record whose serial
  number no counted row carries is left untouched.
\<close>

theorem upload_excel_keys:
  assumes "db_wf s" and "upload_excel u (Some f) s = (UploadOk m c up errs, s')"
    and "workbook f = Inr rows"
  shows "sr_keys s' = sr_keys s \<union> counted_keys (drop 1 rows)
    \<and> (\<forall>b \<in> set (apps s). sr_no b \<notin> counted_keys (drop 1 rows) \<longrightarrow> b \<in> set (apps s'))"
proof -
  from assms(2) obtain fl rows' where "Some f = Some fl" and wb: "workbook fl = Inr rows'"
    and s': "s' = imp_db (import_rows u 2 (drop 1 rows') (start_state s))"
    by (rule upload_excel_OkE)
  then have s'': "s' = imp_db (import_rows u 2 (drop 1 rows) (start_state s))" using assms(3) by simp
  have wf0: "db_wf (imp_db (start_state s))" using assms(1) by (simp add: start_state_def)
  have "sr_keys s' = sr_keys s \<union> counted_keys (drop 1 rows)"
    using import_rows_facts [OF wf0 refl, of u 2 "drop 1 rows"] s'' by (simp add: start_state_def)
  moreover have "\<forall>b \<in> set (apps s). sr_no b \<notin> counted_keys (drop 1 rows) \<longrightarrow> b \<in> set (apps s')"
    using import_rows_keeps [OF wf0] s'' by (simp add: start_state_def)
  ultimately show ?thesis by blast
qed

theorem upload_excel_keys_witness:
  "sr_keys (snd (upload_excel example_clerk (Some example_sheet) \<lparr>apps = [blank_application 1 ''777''], next_id = 2\<rparr>))
     = {''777'', ''1001''}
   \<and> blank_application 1 ''777''
       \<in> set (apps (snd (upload_excel example_clerk (Some example_sheet) \<lparr>apps = [blank_application 1 ''777''], next_id = 2\<rparr>)))"
proof -
  let ?s = "\<lparr>apps = [blank_application 1 ''777''], next_id = 2\<rparr>"
  have wf: "db_wf ?s" by (simp add: db_wf_def blank_application_def)
  have ok: "upload_excel example_clerk (Some example_sheet) ?s
      = (UploadOk ''Excel file processed successfully'' 1 0 [], snd (upload_excel example_clerk (Some example_sheet) ?s))"
    by code_simp
  have wb: "workbook example_sheet = Inr [[CStr ''Sr No''], example_row]" by (simp add: example_sheet_def)
  have ck: "counted_keys (drop 1 [[CStr ''Sr No''], example_row]) = {''1001''}" by code_simp
  have k0: "sr_keys ?s = {''777''}" by (simp add: sr_keys_def blank_application_def)
  have "sr_no (blank_application 1 ''777'') \<notin> {''1001''}" by (simp add: blank_application_def)
  then show ?thesis using upload_excel_keys [OF wf ok wb] ck k0 by auto
qed

end
