(* ===== verification/Workflow.thy ===== *)
theory Workflow
  imports Records
begin

text \<open>
  The two workflow actions of the view set, \<open>update_status\<close> and \<open>update_feedback\<close>
  (\<open>views.py\<close> lines 122--159), as their bodies are written: \<open>get_object()\<close>
  (a 404 when no record has the primary key, before the body is read), the check of the
  requested value against the allowed strings, the assignment and the save.  In the
  repository these bodies sit inside the module-level \<open>get_queryset\<close> after its
  \<open>return\<close>, so no route reaches them; the model says what they would do.  The
  requests form a step relation on the store; each step keeps the store invariant, the
  serial numbers and the record count.
\<close>

datatype 'a response = Ok 'a | BadRequest string | NotFound

text \<open>Line 128: the status strings the action accepts.\<close>

fun status_of_str :: "string \<Rightarrow> app_status option" where
  "status_of_str s =
     (if s = ''PENDING'' then Some PENDING else if s = ''HEARD'' then Some HEARD
      else if s = ''REFERRED'' then Some REFERRED else if s = ''CLOSED'' then Some CLOSED
      else None)"

text \<open>Line 147: the feedback strings the action accepts; \<open>PENDING\<close> is not among them.\<close>

fun feedback_of_str :: "string \<Rightarrow> app_feedback option" where
  "feedback_of_str s =
     (if s = ''POSITIVE'' then Some POSITIVE else if s = ''NEGATIVE'' then Some NEGATIVE
      else None)"

text \<open>
  Lines 122--138.  \<open>new\<close> is \<open>request.data.get('status')\<close>, \<open>None\<close> when the key
  is missing.
\<close>

definition update_status ::
  "nat \<Rightarrow> string option \<Rightarrow> db \<Rightarrow> application response \<times> db" where
  "update_status pk new s =
     (case db_get pk s of
        None \<Rightarrow> (NotFound, s)
      | Some a \<Rightarrow>
          (case Option.bind new status_of_str of
             None \<Rightarrow> (BadRequest ''Invalid status'', s)
           | Some st \<Rightarrow> (let a' = a\<lparr>status := st\<rparr> in (Ok a', db_save a' s))))"

text \<open>
  Lines 140--159.  \<open>rm\<close> is \<open>request.data.get('remarks', '')\<close>; an empty value keeps
  the stored remarks.
\<close>

definition update_feedback ::
  "nat \<Rightarrow> string option \<Rightarrow> string \<Rightarrow> db \<Rightarrow> application response \<times> db" where
  "update_feedback pk fb rm s =
     (case db_get pk s of
        None \<Rightarrow> (NotFound, s)
      | Some a \<Rightarrow>
          (case Option.bind fb feedback_of_str of
             None \<Rightarrow> (BadRequest ''Invalid feedback'', s)
           | Some f \<Rightarrow>
               (let a' = a\<lparr>feedback := f, remarks := (if rm \<noteq> [] then rm else remarks a)\<rparr>
                in (Ok a', db_save a' s))))"

text \<open>One workflow request, whatever its arguments.\<close>

inductive workflow_step :: "db \<Rightarrow> db \<Rightarrow> bool" where
  status_req: "workflow_step s (snd (update_status pk new s))"
| feedback_req: "workflow_step s (snd (update_feedback pk fb rm s))"

inductive_cases workflow_stepE: "workflow_step s t"

text \<open>A store holding one imported record, used to instantiate the theorems below.\<close>

definition example_app :: application where
  "example_app = \<lparr>app_id = 1, sr_no = ''1001'', dairy_no = ''D-17'', name = ''Ali'', contact = ''0300'',
     marked_to = ''SHO'', app_date = None, marked_by = ''DSP'', timeline = ''7'',
     police_station = ''Saddar'', division = ''City'', category = ''Land'', status = CLOSED,
     days = Some 15, feedback = POSITIVE, remarks = ''heard in court'', dairy_ps = [],
     created_by = None\<rparr>"

definition example_db :: db where
  "example_db = \<lparr>apps = [example_app], next_id = 2\<rparr>"

subsection \<open>Lemmas\<close>

lemma db_get_Some: "db_get pk s = Some a \<Longrightarrow> a \<in> set (apps s) \<and> app_id a = pk"
  by (auto simp: db_get_def find_Some_iff nth_mem)

lemma db_get_None: "db_get pk s = None \<longleftrightarrow> (\<forall>a \<in> set (apps s). app_id a \<noteq> pk)"
  by (auto simp: db_get_def find_None_iff)

text \<open>Saving a record changed only outside its key fields.\<close>

lemma db_save_same_keys:
  assumes "db_wf s" and "db_get pk s = Some a" and "app_id a' = app_id a" and "sr_no a' = sr_no a"
  shows "db_wf (db_save a' s) \<and> sr_keys (db_save a' s) = sr_keys s
    \<and> length (apps (db_save a' s)) = length (apps s)
    \<and> apps (db_save a' s) = map (\<lambda>b. if app_id b = pk then a' else b) (apps s)"
proof -
  from db_get_Some [OF assms(2)] have a: "a \<in> set (apps s)" "app_id a = pk" by auto
  have same: "\<forall>b \<in> set (apps s). app_id b = app_id a' \<longrightarrow> sr_no b = sr_no a'"
    using db_wf_same_id [OF assms(1) a(1)] assms(3,4) by auto
  show ?thesis
    using db_wf_db_save [OF assms(1) same] map_sr_no_db_save [OF same] a assms(3)
    by (simp add: sr_keys_def db_save_def)
qed

lemma find_replace:
  "app_id a' = k \<Longrightarrow> \<exists>b \<in> set xs. app_id b = k \<Longrightarrow>
     find (\<lambda>b. app_id b = k) (map (\<lambda>b. if app_id b = k then a' else b) xs) = Some a'"
  by (induction xs) auto

lemma db_get_db_save:
  "db_get pk s = Some a \<Longrightarrow> app_id a' = pk \<Longrightarrow> db_get pk (db_save a' s) = Some a'"
  using find_replace [of a' pk "apps s"] db_get_Some [of pk s a]
  by (auto simp: db_get_def db_save_def)

lemma status_of_str_Some: "status_of_str (status_str st) = Some st"
  by (cases st) simp_all

lemma feedback_of_str_not_pending: "feedback_of_str s \<noteq> Some FB_PENDING"
  by simp

lemma update_status_db:
  assumes "db_wf s"
  shows "db_wf (snd (update_status pk new s)) \<and> sr_keys (snd (update_status pk new s)) = sr_keys s
    \<and> length (apps (snd (update_status pk new s))) = length (apps s)"
  using assms db_save_same_keys [OF assms, of pk]
  by (auto simp: update_status_def Let_def split: option.splits)

lemma update_feedback_db:
  assumes "db_wf s"
  shows "db_wf (snd (update_feedback pk fb rm s)) \<and> sr_keys (snd (update_feedback pk fb rm s)) = sr_keys s
    \<and> length (apps (snd (update_feedback pk fb rm s))) = length (apps s)"
  using assms db_save_same_keys [OF assms, of pk]
  by (auto simp: update_feedback_def Let_def split: option.splits)

lemma workflow_step_db:
  "workflow_step s t \<Longrightarrow> db_wf s \<Longrightarrow> db_wf t \<and> sr_keys t = sr_keys s \<and> length (apps t) = length (apps s)"
  by (induction rule: workflow_step.induct) (simp_all add: update_status_db update_feedback_db)

text \<open>The workflow rewrites only status, feedback and remarks: the days column is kept.\<close>

lemma workflow_step_days:
  assumes "workflow_step s t" and "list_all days_ok (apps s)"
  shows "list_all days_ok (apps t)"
  using assms
proof (induction rule: workflow_step.induct)
  case (status_req s pk new)
  then show ?case
    by (auto simp: update_status_def Let_def split: option.splits intro!: list_all_db_save)
      (auto simp: days_ok_def list_all_iff dest: db_get_Some)
next
  case (feedback_req s pk fb rm)
  then show ?case
    by (auto simp: update_feedback_def Let_def split: option.splits intro!: list_all_db_save)
      (auto simp: days_ok_def list_all_iff dest: db_get_Some)
qed

lemma no_pending_feedback_step:
  assumes "workflow_step s t" and "\<forall>a \<in> set (apps s). feedback a \<noteq> FB_PENDING"
  shows "\<forall>a \<in> set (apps t). feedback a \<noteq> FB_PENDING"
  using assms
proof (induction rule: workflow_step.induct)
  case (status_req s pk new)
  then show ?case
    by (auto simp: update_status_def Let_def db_save_def dest: db_get_Some split: option.splits)
next
  case (feedback_req s pk fb rm)
  have "feedback_of_str x \<noteq> Some FB_PENDING" for x by (rule feedback_of_str_not_pending)
  with feedback_req show ?case
    by (auto simp: update_feedback_def Let_def db_save_def Option.bind_eq_Some_conv
             dest: db_get_Some split: option.splits)
qed

lemma db_wf_example_db: "db_wf example_db"
  by (simp add: db_wf_def example_db_def example_app_def)

lemma db_get_example_db: "db_get 1 example_db = Some example_app"
  by (simp add: db_get_def example_db_def example_app_def)

subsection \<open>Properties of the workflow\<close>

text \<open>
  C8. An unknown primary key gives 404 whatever the body; on an existing record a
  missing or unknown status value (such as \<open>BOGUS\<close>) is a 400 with
  \<open>Invalid status\<close> and the stored status is untouched.
\<close>

theorem update_status_rejects:
  "(db_get pk s = None \<longrightarrow> update_status pk new s = (NotFound, s))
   \<and> (db_get pk s = Some a \<and> Option.bind new status_of_str = None
      \<longrightarrow> update_status pk new s = (BadRequest ''Invalid status'', s))"
  by (simp add: update_status_def)

theorem update_status_rejects_witness:
  "update_status 1 (Some ''BOGUS'') example_db = (BadRequest ''Invalid status'', example_db)
   \<and> update_status 7 (Some ''BOGUS'') example_db = (NotFound, example_db)"
proof -
  have n: "db_get 7 example_db = None" by (simp add: db_get_def example_db_def example_app_def)
  have b: "Option.bind (Some ''BOGUS'') status_of_str = None" by simp
  show ?thesis
    using update_status_rejects [of 1 example_db "Some ''BOGUS''" example_app]
      update_status_rejects [of 7 example_db "Some ''BOGUS''"] db_get_example_db n b
    by simp
qed

text \<open>
  C9. Any of the four status values can be set on any record, whatever its current
  status (there is no transition order, CLOSED back to PENDING included); only that
  record's status changes, and the store invariant holds.
\<close>

theorem update_status_sets:
  assumes "db_wf s" and "db_get pk s = Some a"
  shows "update_status pk (Some (status_str st)) s
     = (Ok (a\<lparr>status := st\<rparr>), s\<lparr>apps := map (\<lambda>b. if app_id b = pk then a\<lparr>status := st\<rparr> else b) (apps s)\<rparr>)
   \<and> db_wf (snd (update_status pk (Some (status_str st)) s))"
proof -
  note k = db_save_same_keys [OF assms, of "a\<lparr>status := st\<rparr>"]
  have "db_save (a\<lparr>status := st\<rparr>) s = s\<lparr>apps := map (\<lambda>b. if app_id b = pk then a\<lparr>status := st\<rparr> else b) (apps s)\<rparr>"
    using k by (simp add: db_save_def)
  then show ?thesis using assms(2) k status_of_str_Some [of st]
    by (simp add: update_status_def Let_def)
qed

theorem update_status_sets_witness:
  "update_status 1 (Some ''PENDING'') example_db
     = (Ok (example_app\<lparr>status := PENDING\<rparr>), \<lparr>apps = [example_app\<lparr>status := PENDING\<rparr>], next_id = 2\<rparr>)"
proof -
  have "status_str PENDING = ''PENDING''" by simp
  then show ?thesis
    using update_status_sets [OF db_wf_example_db db_get_example_db, of PENDING]
    by (simp add: example_db_def example_app_def)
qed

text \<open>
  C10. \<open>update_feedback\<close> accepts POSITIVE and NEGATIVE only (PENDING is a 400); it
  sets the feedback, overwrites the remarks when the request's remarks are non-empty
  and keeps them otherwise.
\<close>

theorem update_feedback_remarks:
  assumes "db_wf s" and "db_get pk s = Some a" and "f \<noteq> FB_PENDING"
  shows "fst (update_feedback pk (Some (feedback_str f)) rm s)
       = Ok (a\<lparr>feedback := f, remarks := (if rm = [] then remarks a else rm)\<rparr>)
    \<and> db_get pk (snd (update_feedback pk (Some (feedback_str f)) rm s))
       = Some (a\<lparr>feedback := f, remarks := (if rm = [] then remarks a else rm)\<rparr>)
    \<and> update_feedback pk (Some ''PENDING'') rm s = (BadRequest ''Invalid feedback'', s)"
proof -
  let ?a = "a\<lparr>feedback := f, remarks := (if rm = [] then remarks a else rm)\<rparr>"
  have fb: "feedback_of_str (feedback_str f) = Some f" using assms(3) by (cases f) simp_all
  note k = db_save_same_keys [OF assms(1,2), of ?a]
  have a: "a \<in> set (apps s)" "app_id a = pk" using db_get_Some [OF assms(2)] by auto
  have "db_get pk (db_save ?a s) = Some ?a"
    using db_get_db_save [OF assms(2)] a by simp
  then show ?thesis using assms(2) fb by (auto simp: update_feedback_def Let_def)
qed

theorem update_feedback_remarks_witness:
  "fst (update_feedback 1 (Some ''NEGATIVE'') [] example_db)
     = Ok (example_app\<lparr>feedback := NEGATIVE, remarks := ''heard in court''\<rparr>)
   \<and> fst (update_feedback 1 (Some ''POSITIVE'') ''settled'' example_db)
     = Ok (example_app\<lparr>feedback := POSITIVE, remarks := ''settled''\<rparr>)"
proof -
  note r1 = update_feedback_remarks [OF db_wf_example_db db_get_example_db, of NEGATIVE "[]"]
  note r2 = update_feedback_remarks [OF db_wf_example_db db_get_example_db, of POSITIVE "''settled''"]
  show ?thesis using r1 r2 by (simp add: example_app_def)
qed

text \<open>
  C11. The workflow never brings feedback back to PENDING: once no record has pending
  feedback, none has after any sequence of workflow requests.
\<close>

theorem workflow_feedback_never_pending:
  assumes "workflow_step\<^sup>*\<^sup>* s t" and "\<forall>a \<in> set (apps s). feedback a \<noteq> FB_PENDING"
  shows "\<forall>a \<in> set (apps t). feedback a \<noteq> FB_PENDING"
  using assms
  by (induction rule: rtranclp_induct) (auto dest: no_pending_feedback_step)

theorem workflow_feedback_never_pending_witness:
  "workflow_step\<^sup>*\<^sup>* example_db (snd (update_feedback 1 (Some ''PENDING'') [] example_db))
   \<and> list_all (\<lambda>a. feedback a \<noteq> FB_PENDING) (apps (snd (update_feedback 1 (Some ''PENDING'') [] example_db)))"
proof -
  have st: "workflow_step\<^sup>*\<^sup>* example_db (snd (update_feedback 1 (Some ''PENDING'') [] example_db))"
    by (rule r_into_rtranclp) (rule workflow_step.feedback_req)
  have np: "\<forall>a \<in> set (apps example_db). feedback a \<noteq> FB_PENDING"
    by (simp add: example_db_def example_app_def)
  show ?thesis using workflow_feedback_never_pending [OF st np] st by (simp add: list_all_iff)
qed


end
