(* ===== verification/Query.thy ===== *)
theory Query
  imports Records
begin

text \<open>
  The listing of applications.  \<open>views.py\<close> writes a \<open>get_queryset\<close> (lines 82--115)
  that scopes the records by role and narrows them by the query parameters
  \<open>status\<close>, \<open>police_station\<close>, \<open>category\<close> and \<open>search\<close>; but the function is
  defined at module level, outside \<open>OpenCourtApplicationViewSet\<close>, so the view set
  lists its class attribute \<open>queryset = OpenCourtApplication.objects.all()\<close> (line
  76), every record whoever asks.  What is modelled here is \<open>get_queryset\<close> as
  written, refined against the spec's conjunctive filter: the scoping the code means to
  apply and the spec describes.
\<close>

record query_params =
  q_status :: "string option"
  q_police_station :: "string option"
  q_category :: "string option"
  q_search :: "string option"

definition no_params :: query_params where
  "no_params = \<lparr>q_status = None, q_police_station = None, q_category = None, q_search = None\<rparr>"

text \<open>
  Django's \<open>icontains\<close> on the default SQLite backend: \<open>LIKE\<close>, case-insensitive on
  ASCII letters.
\<close>

definition lower_char :: "char \<Rightarrow> char" where
  "lower_char c =
     (if (65::nat) \<le> of_char c \<and> (of_char c :: nat) \<le> 90 then char_of ((of_char c :: nat) + 32) else c)"

definition icontains :: "string \<Rightarrow> string \<Rightarrow> bool" where
  "icontains hay needle \<longleftrightarrow> sublist (map lower_char needle) (map lower_char hay)"

text \<open>\<open>p = query_params.get(k); if p: qs = qs.filter(...)\<close>: a present, non-empty parameter narrows.\<close>

definition filter_param ::
  "string option \<Rightarrow> (string \<Rightarrow> application \<Rightarrow> bool) \<Rightarrow> application list \<Rightarrow> application list" where
  "filter_param p f qs = (case p of Some v \<Rightarrow> if v \<noteq> [] then filter (f v) qs else qs | None \<Rightarrow> qs)"

definition search_match :: "string \<Rightarrow> application \<Rightarrow> bool" where
  "search_match t a \<longleftrightarrow> icontains (name a) t \<or> icontains (dairy_no a) t \<or> icontains (contact a) t"

text \<open>Lines 82--115, in their order.\<close>

definition get_queryset :: "user \<Rightarrow> query_params \<Rightarrow> db \<Rightarrow> application list" where
  "get_queryset u q s =
     filter_param (q_search q) search_match
       (filter_param (q_category q) (\<lambda>v a. category a = v)
         (filter_param (q_police_station q) (\<lambda>v a. police_station a = v)
           (filter_param (q_status q) (\<lambda>v a. status_str (status a) = v)
             (role_scope u (apps s)))))"

subsection \<open>The spec's listing predicate\<close>

text \<open>Section 4.1 of the spec: the base scope and the present filters, in conjunction.\<close>

definition param_ok :: "string option \<Rightarrow> (string \<Rightarrow> bool) \<Rightarrow> bool" where
  "param_ok p P \<longleftrightarrow> (case p of Some v \<Rightarrow> v = [] \<or> P v | None \<Rightarrow> True)"

definition listing_spec :: "user \<Rightarrow> query_params \<Rightarrow> application \<Rightarrow> bool" where
  "listing_spec u q a \<longleftrightarrow>
     (role u = STAFF \<and> user_station u \<noteq> [] \<longrightarrow> police_station a = user_station u)
     \<and> param_ok (q_status q) (\<lambda>v. status_str (status a) = v)
     \<and> param_ok (q_police_station q) (\<lambda>v. police_station a = v)
     \<and> param_ok (q_category q) (\<lambda>v. category a = v)
     \<and> param_ok (q_search q) (\<lambda>v. search_match v a)"

subsection \<open>Lemmas\<close>

lemma filter_param_eq: "filter_param p f qs = filter (\<lambda>a. param_ok p (\<lambda>v. f v a)) qs"
  by (auto simp: filter_param_def param_ok_def split: option.splits)

lemma role_scope_eq:
  "role_scope u qs = filter (\<lambda>a. role u = STAFF \<and> user_station u \<noteq> [] \<longrightarrow> police_station a = user_station u) qs"
  by (cases "role u = STAFF \<and> user_station u \<noteq> []") (auto simp: role_scope_def)

subsection \<open>Properties of the listing\<close>

text \<open>
  C12. The written \<open>get_queryset\<close> keeps a STAFF user with a station to that
  station's records, whatever the parameters (the spec's first testable property).
\<close>

theorem get_queryset_staff_scope:
  assumes "role u = STAFF" and "user_station u \<noteq> []" and "a \<in> set (get_queryset u q s)"
  shows "police_station a = user_station u"
  using assms by (auto simp: get_queryset_def filter_param_eq role_scope_def)

theorem get_queryset_staff_scope_witness:
  "role \<lparr>user_id = 2, username = ''sho'', role = STAFF, user_station = ''Saddar''\<rparr> = STAFF
   \<and> user_station \<lparr>user_id = 2, username = ''sho'', role = STAFF, user_station = ''Saddar''\<rparr> \<noteq> []
   \<and> get_queryset \<lparr>user_id = 2, username = ''sho'', role = STAFF, user_station = ''Saddar''\<rparr> no_params
        \<lparr>apps = [blank_application 1 ''1''\<lparr>police_station := ''Saddar''\<rparr>,
                 blank_application 2 ''2''\<lparr>police_station := ''Civil Lines''\<rparr>], next_id = 3\<rparr>
      = [blank_application 1 ''1''\<lparr>police_station := ''Saddar''\<rparr>]"
proof -
  let ?u = "\<lparr>user_id = 2, username = ''sho'', role = STAFF, user_station = ''Saddar''\<rparr>"
  let ?s = "\<lparr>apps = [blank_application 1 ''1''\<lparr>police_station := ''Saddar''\<rparr>,
                 blank_application 2 ''2''\<lparr>police_station := ''Civil Lines''\<rparr>], next_id = 3\<rparr>"
  have l: "get_queryset ?u no_params ?s = [blank_application 1 ''1''\<lparr>police_station := ''Saddar''\<rparr>]"
    by (simp add: get_queryset_def no_params_def filter_param_def role_scope_def)
  have "police_station a = ''Saddar''" if "a \<in> set (get_queryset ?u no_params ?s)" for a
    using get_queryset_staff_scope [of ?u a no_params ?s] that by simp
  then show ?thesis using l by simp
qed

text \<open>
  C13. Refinement: the chain of filters the code applies is the spec's conjunctive
  listing predicate (base scope, exact matches, and the three-field case-insensitive
  search as a disjunction), applied to the store in its order.
\<close>

theorem get_queryset_refines: "get_queryset u q s = filter (listing_spec u q) (apps s)"
  unfolding get_queryset_def filter_param_eq role_scope_eq filter_filter
  by (rule filter_cong) (auto simp: listing_spec_def)

text \<open>
  C14. A STAFF user whose station is empty is not scoped at all: without parameters
  the written \<open>get_queryset\<close> lists every record (the spec only scopes STAFF users
  with a station).
\<close>

theorem get_queryset_staff_no_station:
  "role u = STAFF \<Longrightarrow> user_station u = [] \<Longrightarrow> get_queryset u no_params s = apps s"
  by (simp add: get_queryset_def no_params_def filter_param_def role_scope_def)

theorem get_queryset_staff_no_station_witness:
  "get_queryset \<lparr>user_id = 3, username = ''new'', role = STAFF, user_station = []\<rparr> no_params
     \<lparr>apps = [blank_application 1 ''1''\<lparr>police_station := ''Civil Lines''\<rparr>], next_id = 2\<rparr>
   = [blank_application 1 ''1''\<lparr>police_station := ''Civil Lines''\<rparr>]"
  using get_queryset_staff_no_station [of "\<lparr>user_id = 3, username = ''new'', role = STAFF, user_station = []\<rparr>"]
  by simp

end
