(* ===== verification/Stats.thy ===== *)
theory Stats
  imports Records "HOL-Library.Multiset"
begin

text \<open>
  The dashboard statistics, \<open>dashboard_stats\<close> (\<open>views.py\<close> lines 259--315), and the
  two distinct-value lists \<open>police_stations\<close> and \<open>categories\<close> (lines 317--329).
  A Django \<open>values(k).annotate(count=Count('id'))\<close> is a count per distinct key
  (\<open>group_count\<close>), and \<open>order_by('-count')\<close> a sort by descending count; the database
  leaves the order of equal counts open, and the model takes the stable sort, so the
  theorems below do not depend on how ties are broken.
\<close>

record overall_stats =
  total_applications :: nat
  pending :: nat
  heard :: nat
  referred :: nat
  closed :: nat
  positive_feedback :: nat
  negative_feedback :: nat

record station_stat =
  st_name :: string
  st_count :: nat
  st_pending :: nat
  st_heard :: nat

record dashboard =
  overall :: overall_stats
  category_stats :: "(string \<times> nat) list"
  police_station_stats :: "station_stat list"
  division_stats :: "(string \<times> nat) list"

text \<open>Lines 273--281.\<close>

definition overall_of :: "application list \<Rightarrow> overall_stats" where
  "overall_of qs =
     \<lparr>total_applications = length qs,
      pending = count_where (\<lambda>a. status a = PENDING) qs,
      heard = count_where (\<lambda>a. status a = HEARD) qs,
      referred = count_where (\<lambda>a. status a = REFERRED) qs,
      closed = count_where (\<lambda>a. status a = CLOSED) qs,
      positive_feedback = count_where (\<lambda>a. feedback a = POSITIVE) qs,
      negative_feedback = count_where (\<lambda>a. feedback a = NEGATIVE) qs\<rparr>"

text \<open>\<open>values(k).annotate(count=Count('id'))\<close>.\<close>

definition group_count :: "(application \<Rightarrow> string) \<Rightarrow> application list \<Rightarrow> (string \<times> nat) list" where
  "group_count f qs = map (\<lambda>k. (k, count_where (\<lambda>a. f a = k) qs)) (remdups (map f qs))"

text \<open>\<open>order_by('-count')\<close>.\<close>

definition by_count_desc :: "(string \<times> nat) list \<Rightarrow> (string \<times> nat) list" where
  "by_count_desc xs = sort_key (\<lambda>x. - int (snd x)) xs"

text \<open>
  Lines 294--299: \<open>values('police_station').annotate(count, pending, heard)\<close>, per
  station the count and the PENDING and HEARD counts.
\<close>

definition station_rows :: "application list \<Rightarrow> station_stat list" where
  "station_rows qs =
     map (\<lambda>k. \<lparr>st_name = k, st_count = count_where (\<lambda>a. police_station a = k) qs,
                st_pending = count_where (\<lambda>a. police_station a = k \<and> status a = PENDING) qs,
                st_heard = count_where (\<lambda>a. police_station a = k \<and> status a = HEARD) qs\<rparr>)
       (remdups (map police_station qs))"

text \<open>Lines 293--301: ordered by descending count, the first ten.\<close>

definition station_stats :: "application list \<Rightarrow> station_stat list" where
  "station_stats qs = take 10 (sort_key (\<lambda>r. - int (st_count r)) (station_rows qs))"

text \<open>
  Lines 259--315: the role-scoped records give the overall counts, the top ten
  categories and all divisions; the station statistics are computed over the whole
  table, for ADMIN users only.
\<close>

definition dashboard_stats :: "user \<Rightarrow> db \<Rightarrow> dashboard" where
  "dashboard_stats u s =
     (let qs = role_scope u (apps s) in
      \<lparr>overall = overall_of qs,
       category_stats = take 10 (by_count_desc (group_count category qs)),
       police_station_stats = (if role u = ADMIN then station_stats (apps s) else []),
       division_stats = by_count_desc (group_count division qs)\<rparr>)"

text \<open>Lines 317--329: distinct station and category names over the whole table.\<close>

definition police_stations :: "db \<Rightarrow> string list" where
  "police_stations s = remdups (map police_station (apps s))"

definition categories :: "db \<Rightarrow> string list" where
  "categories s = remdups (map category (apps s))"

text \<open>An administrator and a small store, used to instantiate the theorems below.\<close>

definition example_admin :: user where
  "example_admin = \<lparr>user_id = 9, username = ''admin'', role = ADMIN, user_station = []\<rparr>"

definition example_stats_db :: db where
  "example_stats_db =
     \<lparr>apps = [blank_application 1 ''1''\<lparr>police_station := ''Saddar'', category := ''Land''\<rparr>,
              blank_application 2 ''2''\<lparr>police_station := ''Saddar'', category := ''Family'', status := HEARD\<rparr>,
              blank_application 3 ''3''\<lparr>police_station := ''Civil Lines'', category := ''Land''\<rparr>],
      next_id = 4\<rparr>"

subsection \<open>Lemmas\<close>

lemma status_partition:
  "count_where (\<lambda>a. status a = PENDING) qs + count_where (\<lambda>a. status a = HEARD) qs
   + count_where (\<lambda>a. status a = REFERRED) qs + count_where (\<lambda>a. status a = CLOSED) qs = length qs"
proof (induction qs)
  case (Cons a qs)
  then show ?case by (cases "status a") auto
qed simp

lemma feedback_le:
  "count_where (\<lambda>a. feedback a = POSITIVE) qs + count_where (\<lambda>a. feedback a = NEGATIVE) qs \<le> length qs"
  by (induction qs) auto

lemma set_group_count:
  "(k, c) \<in> set (group_count f qs) \<longleftrightarrow> k \<in> f ` set qs \<and> c = count_where (\<lambda>a. f a = k) qs"
  by (auto simp: group_count_def)

lemma distinct_group_count: "distinct (map fst (group_count f qs))"
  by (simp add: group_count_def comp_def)

lemma mset_by_count_desc: "mset (by_count_desc xs) = mset xs"
  by (simp add: by_count_desc_def)

lemma set_by_count_desc [simp]: "set (by_count_desc xs) = set xs"
  by (simp add: by_count_desc_def)

lemma distinct_fst_by_count_desc:
  "distinct (map fst xs) \<Longrightarrow> distinct (map fst (by_count_desc xs))"
  using mset_eq_imp_distinct_iff [of "map fst (by_count_desc xs)" "map fst xs"]
  by (simp add: mset_by_count_desc)

lemma sorted_by_count_desc: "sorted_wrt (\<lambda>x y. snd y \<le> snd x) (by_count_desc xs)"
proof -
  have "sorted (map (\<lambda>x. - int (snd x)) (by_count_desc xs))"
    by (simp add: by_count_desc_def)
  then show ?thesis by (simp add: sorted_map)
qed

lemma sum_snd_by_count_desc: "sum_list (map snd (by_count_desc xs)) = sum_list (map snd xs)"
  by (metis mset_by_count_desc mset_map sum_mset_sum_list)

text \<open>In a list sorted by descending count, whatever is cut off by \<open>take n\<close> counts at most as much as anything kept.\<close>

lemma take_sorted_desc_top:
  assumes "sorted_wrt (\<lambda>x y. g y \<le> g x) xs" and "x \<in> set xs" and "x \<notin> set (take n xs)"
    and "y \<in> set (take n xs)"
  shows "g x \<le> g y"
proof -
  have "x \<in> set (drop n xs)" using assms(2,3) by (metis Un_iff append_take_drop_id set_append)
  moreover have "sorted_wrt (\<lambda>x y. g y \<le> g x) (take n xs @ drop n xs)"
    by (simp only: append_take_drop_id assms(1))
  then have "\<forall>a \<in> set (take n xs). \<forall>b \<in> set (drop n xs). g b \<le> g a"
    unfolding sorted_wrt_append by (elim conjE)
  ultimately show ?thesis using assms(4) by blast
qed

lemma dashboard_stats_simps:
  "overall (dashboard_stats u s) = overall_of (role_scope u (apps s))"
  "category_stats (dashboard_stats u s) = take 10 (by_count_desc (group_count category (role_scope u (apps s))))"
  "police_station_stats (dashboard_stats u s) = (if role u = ADMIN then station_stats (apps s) else [])"
  "division_stats (dashboard_stats u s) = by_count_desc (group_count division (role_scope u (apps s)))"
  by (simp_all add: dashboard_stats_def Let_def)

lemma set_station_rows:
  "r \<in> set (station_rows qs) \<longleftrightarrow> st_name r \<in> police_station ` set qs
     \<and> st_count r = count_where (\<lambda>a. police_station a = st_name r) qs
     \<and> st_pending r = count_where (\<lambda>a. police_station a = st_name r \<and> status a = PENDING) qs
     \<and> st_heard r = count_where (\<lambda>a. police_station a = st_name r \<and> status a = HEARD) qs"
  by (cases r) (auto simp: station_rows_def)

lemma set_station_stats: "r \<in> set (station_stats qs) \<Longrightarrow> r \<in> set (station_rows qs)"
proof -
  assume "r \<in> set (station_stats qs)"
  then have "r \<in> set (sort_key (\<lambda>r. - int (st_count r)) (station_rows qs))"
    unfolding station_stats_def by (rule in_set_takeD)
  then show ?thesis by simp
qed

lemma length_station_stats: "length (station_stats qs) \<le> 10"
  by (simp add: station_stats_def)

lemma station_stats_Nil_iff: "station_stats qs = [] \<longleftrightarrow> qs = []"
proof -
  have "station_stats qs = [] \<longleftrightarrow> sort_key (\<lambda>r. - int (st_count r)) (station_rows qs) = []"
    by (simp add: station_stats_def)
  also have "\<dots> \<longleftrightarrow> station_rows qs = []"
    by (metis length_0_conv length_sort)
  also have "\<dots> \<longleftrightarrow> qs = []" by (simp add: station_rows_def)
  finally show ?thesis .
qed

subsection \<open>Properties of the statistics\<close>

text \<open>
  C15. The overall counts are taken over the role-scoped records: the four status counts
  add up to the total, and the positive and negative feedback counts stay within it.
\<close>

theorem dashboard_overall:
  "total_applications (overall (dashboard_stats u s)) = length (role_scope u (apps s))
   \<and> pending (overall (dashboard_stats u s)) + heard (overall (dashboard_stats u s))
     + referred (overall (dashboard_stats u s)) + closed (overall (dashboard_stats u s))
     = total_applications (overall (dashboard_stats u s))
   \<and> positive_feedback (overall (dashboard_stats u s)) + negative_feedback (overall (dashboard_stats u s))
     \<le> total_applications (overall (dashboard_stats u s))"
  by (simp add: dashboard_stats_simps overall_of_def status_partition feedback_le)

text \<open>
  C16. The category statistics are the top ten categories of the role-scoped records:
  at most ten entries, by descending count, each category once with its exact count,
  and every category left out counts no more than any category listed.
\<close>

theorem category_stats_top:
  assumes "L = category_stats (dashboard_stats u s)" and "qs = role_scope u (apps s)"
  shows "length L \<le> 10 \<and> sorted_wrt (\<lambda>x y. snd y \<le> snd x) L \<and> distinct (map fst L)
    \<and> (\<forall>x \<in> set L. fst x \<in> category ` set qs \<and> snd x = count_where (\<lambda>a. category a = fst x) qs)
    \<and> (\<forall>a \<in> set qs. category a \<notin> fst ` set L \<longrightarrow>
         (\<forall>x \<in> set L. count_where (\<lambda>b. category b = category a) qs \<le> snd x))"
proof -
  let ?G = "by_count_desc (group_count category qs)"
  have L: "L = take 10 ?G" using assms by (simp add: dashboard_stats_simps)
  have sorted: "sorted_wrt (\<lambda>x y. snd y \<le> snd x) ?G" by (rule sorted_by_count_desc)
  have dist: "distinct (map fst ?G)" by (rule distinct_fst_by_count_desc [OF distinct_group_count])
  have entries: "\<forall>x \<in> set L. fst x \<in> category ` set qs \<and> snd x = count_where (\<lambda>a. category a = fst x) qs"
    using L set_group_count [of _ _ category qs] by (auto dest: in_set_takeD)
  have top: "count_where (\<lambda>b. category b = category a) qs \<le> snd x"
    if a: "a \<in> set qs" and out: "category a \<notin> fst ` set L" and x: "x \<in> set L" for a x
  proof -
    let ?y = "(category a, count_where (\<lambda>b. category b = category a) qs)"
    have "?y \<in> set ?G" using a by (simp add: set_group_count)
    moreover have "?y \<notin> set (take 10 ?G)" using out L by force
    ultimately show ?thesis
      using take_sorted_desc_top [OF sorted, of ?y 10 x] x L by simp
  qed
  show ?thesis
    using L sorted dist entries top
    by (auto simp: sorted_wrt_take take_map [symmetric] distinct_take)
qed

theorem category_stats_top_witness:
  "category_stats (dashboard_stats example_admin example_stats_db) = [(''Land'', 2), (''Family'', 1)]
   \<and> sorted_wrt (\<lambda>x y. snd y \<le> snd x) (category_stats (dashboard_stats example_admin example_stats_db))"
proof -
  have "category_stats (dashboard_stats example_admin example_stats_db) = [(''Land'', 2), (''Family'', 1)]"
    by code_simp
  moreover note category_stats_top [OF refl refl, of example_admin example_stats_db]
  ultimately show ?thesis by blast
qed

text \<open>
  C17. The station statistics are empty for a STAFF user; for an ADMIN user they are
  computed over the whole table, unscoped, non-empty exactly when some record exists,
  at most ten entries, each with its exact count and PENDING and HEARD counts.
\<close>

theorem station_stats_roles:
  "(role u = STAFF \<longrightarrow> police_station_stats (dashboard_stats u s) = [])
   \<and> (role u = ADMIN \<longrightarrow>
        (police_station_stats (dashboard_stats u s) \<noteq> [] \<longleftrightarrow> apps s \<noteq> [])
        \<and> length (police_station_stats (dashboard_stats u s)) \<le> 10
        \<and> (\<forall>r \<in> set (police_station_stats (dashboard_stats u s)).
             st_count r = count_where (\<lambda>a. police_station a = st_name r) (apps s)
             \<and> st_pending r = count_where (\<lambda>a. police_station a = st_name r \<and> status a = PENDING) (apps s)
             \<and> st_heard r = count_where (\<lambda>a. police_station a = st_name r \<and> status a = HEARD) (apps s)))"
proof -
  have "\<forall>r \<in> set (station_stats (apps s)).
             st_count r = count_where (\<lambda>a. police_station a = st_name r) (apps s)
             \<and> st_pending r = count_where (\<lambda>a. police_station a = st_name r \<and> status a = PENDING) (apps s)
             \<and> st_heard r = count_where (\<lambda>a. police_station a = st_name r \<and> status a = HEARD) (apps s)"
    using set_station_stats set_station_rows by blast
  then show ?thesis
    by (simp add: dashboard_stats_simps station_stats_Nil_iff length_station_stats)
qed

theorem station_stats_roles_witness:
  "police_station_stats (dashboard_stats example_admin example_stats_db)
   = [\<lparr>st_name = ''Saddar'', st_count = 2, st_pending = 1, st_heard = 1\<rparr>,
      \<lparr>st_name = ''Civil Lines'', st_count = 1, st_pending = 1, st_heard = 0\<rparr>]
   \<and> police_station_stats (dashboard_stats (example_admin\<lparr>role := STAFF\<rparr>) example_stats_db) = []"
proof -
  have "police_station_stats (dashboard_stats example_admin example_stats_db)
   = [\<lparr>st_name = ''Saddar'', st_count = 2, st_pending = 1, st_heard = 1\<rparr>,
      \<lparr>st_name = ''Civil Lines'', st_count = 1, st_pending = 1, st_heard = 0\<rparr>]"
    by code_simp
  moreover have "police_station_stats (dashboard_stats (example_admin\<lparr>role := STAFF\<rparr>) example_stats_db) = []"
    using station_stats_roles [of "example_admin\<lparr>role := STAFF\<rparr>" example_stats_db] by simp
  ultimately show ?thesis by simp
qed

text \<open>
  C18. The division statistics cover every role-scoped record: the counts of the
  listed divisions add up to the total, each division listed once.
\<close>

theorem division_stats_complete:
  "sum_list (map snd (division_stats (dashboard_stats u s))) = total_applications (overall (dashboard_stats u s))
   \<and> distinct (map fst (division_stats (dashboard_stats u s)))"
proof -
  let ?qs = "role_scope u (apps s)"
  have "sum_list (map snd (group_count division ?qs)) = length ?qs"
    using sum_counts_remdups [of division ?qs] by (simp add: group_count_def comp_def)
  then show ?thesis
    by (simp add: dashboard_stats_simps overall_of_def sum_snd_by_count_desc
        distinct_fst_by_count_desc distinct_group_count)
qed

end
