(* ===== verification/Auth.thy ===== *)
theory Auth
  imports Records
begin

text \<open>
  Authentication: \<open>login_view\<close>, \<open>logout_view\<close> and \<open>current_user\<close> of
  \<open>views.py\<close> (lines 24--70) with the collaborators they call, Django's
  \<open>authenticate\<close> (the model backend), simplejwt's \<open>RefreshToken\<close> (\<open>for_user\<close>,
  \<open>access_token\<close>, decoding, \<open>blacklist\<close>) and the \<open>JWTAuthentication\<close> class
  with the \<open>IsAuthenticated\<close> permission that guards every other view.  The
  collaborators are not in the repository and follow their documented behaviour.

  A token is its claims (type, \<open>jti\<close>, user id, expiry).  Signing is abstracted: a
  token text decodes exactly when the server signed those claims (the \<open>minted\<close>
  list), which is what HMAC verification with the server's secret establishes; a
  forged or mangled text is \<open>Malformed\<close> or unsigned.  The \<open>jti\<close> (a fresh
  \<open>uuid4\<close>) is a counter, the clock is the parameter \<open>now\<close> in seconds, and the
  token lifetimes are simplejwt's defaults.
\<close>

datatype token_type = RefreshT | AccessT

record claims =
  tok_type :: token_type
  tok_jti :: nat
  tok_user :: "nat option"
  tok_exp :: nat

datatype token_text = Encoded (the_Encoded: claims) | Malformed string

record account =
  acc_user :: user
  acc_password :: string
  acc_active :: bool

text \<open>A row of simplejwt's \<open>OutstandingToken\<close> table.\<close>

record outstanding =
  ot_jti :: nat
  ot_user :: "nat option"
  ot_exp :: nat

record auth_state =
  accounts :: "account list"
  minted :: "claims list"
  outstanding :: "outstanding list"
  blacklisted :: "nat list"
  next_jti :: nat

definition refresh_lifetime :: nat where
  "refresh_lifetime = 86400"

definition access_lifetime :: nat where
  "access_lifetime = 300"

text \<open>Truthiness of \<open>request.data.get(k)\<close> for a string field.\<close>

fun str_truthy :: "string option \<Rightarrow> bool" where
  "str_truthy None = False"
| "str_truthy (Some s) = (s \<noteq> [])"

subsection \<open>Collaborators\<close>

text \<open>
  \<open>ModelBackend.authenticate\<close>: the account with that username, whose password checks
  and which is active (\<open>user_can_authenticate\<close>); otherwise \<open>None\<close>.
\<close>

definition authenticate :: "auth_state \<Rightarrow> string \<Rightarrow> string \<Rightarrow> user option" where
  "authenticate st u p =
     (case find (\<lambda>a. username (acc_user a) = u) (accounts st) of
        None \<Rightarrow> None
      | Some a \<Rightarrow> if acc_password a = p \<and> acc_active a then Some (acc_user a) else None)"

definition user_by_id :: "auth_state \<Rightarrow> nat \<Rightarrow> account option" where
  "user_by_id st uid = find (\<lambda>a. user_id (acc_user a) = uid) (accounts st)"

text \<open>\<open>Token()\<close> without a text: fresh claims with a new \<open>jti\<close> and the lifetime's expiry.\<close>

definition new_token :: "token_type \<Rightarrow> nat \<Rightarrow> nat \<Rightarrow> auth_state \<Rightarrow> claims \<times> auth_state" where
  "new_token ty lifetime now st =
     (\<lparr>tok_type = ty, tok_jti = next_jti st, tok_user = None, tok_exp = now + lifetime\<rparr>,
      st\<lparr>next_jti := Suc (next_jti st)\<rparr>)"

text \<open>\<open>str(token)\<close>: the server signs the claims.\<close>

definition sign :: "claims \<Rightarrow> auth_state \<Rightarrow> auth_state" where
  "sign c st = (if c \<in> set (minted st) then st else st\<lparr>minted := minted st @ [c]\<rparr>)"

text \<open>
  \<open>RefreshToken.for_user\<close>: a fresh refresh token carrying the user id, recorded as an
  outstanding token (the blacklist app's \<open>for_user\<close>, which signs it to store it).
\<close>

definition refresh_for_user :: "user \<Rightarrow> nat \<Rightarrow> auth_state \<Rightarrow> claims \<times> auth_state" where
  "refresh_for_user u now st =
     (let (t, st1) = new_token RefreshT refresh_lifetime now st;
          r = t\<lparr>tok_user := Some (user_id u)\<rparr>;
          st2 = sign r st1 in
      (r, st2\<lparr>outstanding := outstanding st2 @
                 [\<lparr>ot_jti = tok_jti r, ot_user = tok_user r, ot_exp = tok_exp r\<rparr>]\<rparr>))"

text \<open>\<open>refresh.access_token\<close>: fresh access claims copying the user id.\<close>

definition access_of :: "claims \<Rightarrow> nat \<Rightarrow> auth_state \<Rightarrow> claims \<times> auth_state" where
  "access_of r now st =
     (let (t, st1) = new_token AccessT access_lifetime now st in (t\<lparr>tok_user := tok_user r\<rparr>, st1))"

text \<open>
  Decoding a token text (\<open>TokenBackend.decode\<close>): the signature and the expiry
  (PyJWT rejects \<open>exp \<le> now\<close>); both failures are the same \<open>TokenError\<close>.
\<close>

definition decode_token :: "nat \<Rightarrow> auth_state \<Rightarrow> token_text \<Rightarrow> string + claims" where
  "decode_token now st t =
     (case t of
        Malformed _ \<Rightarrow> Inl ''Token is invalid or expired''
      | Encoded c \<Rightarrow>
          if c \<notin> set (minted st) \<or> tok_exp c \<le> now then Inl ''Token is invalid or expired''
          else Inr c)"

text \<open>
  \<open>RefreshToken(token)\<close>: no text makes a fresh token (simplejwt's \<open>Token.__init__\<close>
  with \<open>token=None\<close>); a text is decoded, then \<open>verify\<close> checks the blacklist
  (the blacklist app's mixin) and the token type.
\<close>

definition refresh_token :: "nat \<Rightarrow> token_text option \<Rightarrow> auth_state \<Rightarrow> string + claims \<times> auth_state" where
  "refresh_token now t st =
     (case t of
        None \<Rightarrow> Inr (new_token RefreshT refresh_lifetime now st)
      | Some tt \<Rightarrow> bind_exc (decode_token now st tt) (\<lambda>c.
          if tok_jti c \<in> set (blacklisted st) then Inl ''Token is blacklisted''
          else if tok_type c \<noteq> RefreshT then Inl ''Token has wrong type''
          else Inr (c, st)))"

text \<open>
  \<open>token.blacklist()\<close>: \<open>get_or_create\<close> of its outstanding row (the defaults, the
  signed text included, are evaluated in any case) and of its blacklist row.
\<close>

definition blacklist :: "claims \<Rightarrow> auth_state \<Rightarrow> auth_state" where
  "blacklist c st =
     (let st1 = sign c st;
          uid = (case tok_user c of None \<Rightarrow> None
                 | Some i \<Rightarrow> map_option (user_id \<circ> acc_user) (user_by_id st1 i));
          st2 = (if tok_jti c \<in> set (map ot_jti (outstanding st1)) then st1
                 else st1\<lparr>outstanding := outstanding st1 @
                           [\<lparr>ot_jti = tok_jti c, ot_user = uid, ot_exp = tok_exp c\<rparr>]\<rparr>) in
      if tok_jti c \<in> set (blacklisted st2) then st2
      else st2\<lparr>blacklisted := blacklisted st2 @ [tok_jti c]\<rparr>)"

text \<open>
  \<open>JWTAuthentication.authenticate\<close>: no header is an anonymous request; a header
  must decode as an access token (access tokens are never checked against the
  blacklist) whose user exists and is active.
\<close>

definition jwt_authenticate :: "nat \<Rightarrow> token_text option \<Rightarrow> auth_state \<Rightarrow> string + user option" where
  "jwt_authenticate now hdr st =
     (case hdr of
        None \<Rightarrow> Inr None
      | Some t \<Rightarrow>
          (case decode_token now st t of
             Inl _ \<Rightarrow> Inl ''Given token not valid for any token type''
           | Inr c \<Rightarrow>
               if tok_type c \<noteq> AccessT then Inl ''Given token not valid for any token type''
               else (case tok_user c of
                       None \<Rightarrow> Inl ''Token contained no recognizable user identification''
                     | Some uid \<Rightarrow>
                         (case user_by_id st uid of
                            None \<Rightarrow> Inl ''User not found''
                          | Some a \<Rightarrow> if acc_active a then Inr (Some (acc_user a))
                                     else Inl ''User is inactive''))))"

text \<open>\<open>IsAuthenticated\<close> on top of the authentication: a 401 unless a user results.\<close>

definition request_user :: "nat \<Rightarrow> token_text option \<Rightarrow> auth_state \<Rightarrow> string + user" where
  "request_user now hdr st =
     (case jwt_authenticate now hdr st of
        Inl msg \<Rightarrow> Inl msg
      | Inr None \<Rightarrow> Inl ''Authentication credentials were not provided.''
      | Inr (Some u) \<Rightarrow> Inr u)"

subsection \<open>The views\<close>

datatype login_response =
    LoginOk token_text token_text user
  | LoginError nat string

text \<open>Lines 24--50.\<close>

definition login_view ::
  "nat \<Rightarrow> string option \<Rightarrow> string option \<Rightarrow> auth_state \<Rightarrow> login_response \<times> auth_state" where
  "login_view now uname pw st =
     (if \<not> str_truthy uname \<or> \<not> str_truthy pw
      then (LoginError 400 ''Please provide both username and password'', st)
      else (case authenticate st (the uname) (the pw) of
              None \<Rightarrow> (LoginError 401 ''Invalid credentials'', st)
            | Some u \<Rightarrow>
                (let (r, st1) = refresh_for_user u now st;
                     (a, st2) = access_of r now st1 in
                 (LoginOk (Encoded r) (Encoded a) u, sign a st2))))"

datatype logout_response =
    LogoutOk string
  | LogoutError nat string

text \<open>Lines 53--63, behind \<open>IsAuthenticated\<close>: every exception of the body is a 400.\<close>

definition logout_view ::
  "nat \<Rightarrow> token_text option \<Rightarrow> token_text option \<Rightarrow> auth_state \<Rightarrow> logout_response \<times> auth_state" where
  "logout_view now hdr refresh st =
     (case request_user now hdr st of
        Inl msg \<Rightarrow> (LogoutError 401 msg, st)
      | Inr _ \<Rightarrow>
          (case refresh_token now refresh st of
             Inl msg \<Rightarrow> (LogoutError 400 msg, st)
           | Inr (c, st1) \<Rightarrow> (LogoutOk ''Successfully logged out'', blacklist c st1)))"

text \<open>Lines 66--70: the authenticated user, no state change.\<close>

definition current_user :: "nat \<Rightarrow> token_text option \<Rightarrow> auth_state \<Rightarrow> string + user" where
  "current_user now hdr st = request_user now hdr st"

subsection \<open>Invariant and steps\<close>

text \<open>
  The authentication state is well formed when user ids and usernames are unique, every
  signed token has a distinct \<open>jti\<close> below the counter, every outstanding row
  belongs to a signed token and every blacklist row to an outstanding one.
\<close>

definition accounts_wf :: "account list \<Rightarrow> bool" where
  "accounts_wf as \<longleftrightarrow> distinct (map (user_id \<circ> acc_user) as) \<and> distinct (map (username \<circ> acc_user) as)"

definition auth_wf :: "auth_state \<Rightarrow> bool" where
  "auth_wf st \<longleftrightarrow> accounts_wf (accounts st)
     \<and> list_all (\<lambda>c. tok_jti c < next_jti st) (minted st)
     \<and> distinct (map tok_jti (minted st))
     \<and> set (map ot_jti (outstanding st)) \<subseteq> set (map tok_jti (minted st))
     \<and> distinct (map ot_jti (outstanding st))
     \<and> set (blacklisted st) \<subseteq> set (map ot_jti (outstanding st))
     \<and> distinct (blacklisted st)"

text \<open>The requests that change the authentication state, in any order.\<close>

inductive auth_step :: "auth_state \<Rightarrow> auth_state \<Rightarrow> bool" where
  login_req: "auth_step st (snd (login_view now u p st))"
| logout_req: "auth_step st (snd (logout_view now h r st))"


subsection \<open>Examples\<close>

definition example_accounts :: "account list" where
  "example_accounts =
     [\<lparr>acc_user = \<lparr>user_id = 1, username = ''clerk'', role = STAFF, user_station = ''Saddar''\<rparr>,
       acc_password = ''secret'', acc_active = True\<rparr>,
      \<lparr>acc_user = \<lparr>user_id = 2, username = ''admin'', role = ADMIN, user_station = []\<rparr>,
       acc_password = ''admin1'', acc_active = True\<rparr>,
      \<lparr>acc_user = \<lparr>user_id = 3, username = ''retired'', role = STAFF, user_station = ''City''\<rparr>,
       acc_password = ''old'', acc_active = False\<rparr>]"

definition example_auth :: auth_state where
  "example_auth = \<lparr>accounts = example_accounts, minted = [], outstanding = [], blacklisted = [],
     next_jti = 1\<rparr>"

subsection \<open>Lemmas\<close>

inductive_cases auth_stepE: "auth_step st st'"

lemma sign_fields [simp]:
  "accounts (sign c st) = accounts st" "outstanding (sign c st) = outstanding st"
  "blacklisted (sign c st) = blacklisted st" "next_jti (sign c st) = next_jti st"
  "set (minted (sign c st)) = insert c (set (minted st))"
  by (auto simp: sign_def)

lemma auth_wf_sign:
  assumes "auth_wf st" and "tok_jti c < next_jti st"
    and "c \<in> set (minted st) \<or> tok_jti c \<notin> set (map tok_jti (minted st))"
  shows "auth_wf (sign c st)"
  using assms by (auto simp: auth_wf_def sign_def list_all_iff)

lemma auth_wf_fresh:
  "auth_wf st \<Longrightarrow> next_jti st \<notin> set (map tok_jti (minted st))"
  by (auto simp: auth_wf_def list_all_iff)

lemma auth_wf_bump:
  "auth_wf st \<Longrightarrow> auth_wf (st\<lparr>next_jti := Suc (next_jti st)\<rparr>)"
  by (auto simp: auth_wf_def list_all_iff)

lemma refresh_for_user_eq:
  "refresh_for_user u now st =
     (\<lparr>tok_type = RefreshT, tok_jti = next_jti st, tok_user = Some (user_id u),
       tok_exp = now + refresh_lifetime\<rparr>,
      (sign \<lparr>tok_type = RefreshT, tok_jti = next_jti st, tok_user = Some (user_id u),
         tok_exp = now + refresh_lifetime\<rparr> (st\<lparr>next_jti := Suc (next_jti st)\<rparr>))
        \<lparr>outstanding := outstanding st @ [\<lparr>ot_jti = next_jti st, ot_user = Some (user_id u),
           ot_exp = now + refresh_lifetime\<rparr>]\<rparr>)"
  by (simp add: refresh_for_user_def new_token_def Let_def)

lemma access_of_eq:
  "access_of r now st =
     (\<lparr>tok_type = AccessT, tok_jti = next_jti st, tok_user = tok_user r,
       tok_exp = now + access_lifetime\<rparr>, st\<lparr>next_jti := Suc (next_jti st)\<rparr>)"
  by (simp add: access_of_def new_token_def)

lemma auth_wf_add_outstanding:
  assumes "auth_wf st" and "ot_jti row \<in> set (map tok_jti (minted st))"
    and "ot_jti row \<notin> set (map ot_jti (outstanding st))"
  shows "auth_wf (st\<lparr>outstanding := outstanding st @ [row]\<rparr>)"
  using assms by (auto simp: auth_wf_def)

lemma auth_wf_refresh_for_user:
  assumes "auth_wf st"
  shows "auth_wf (snd (refresh_for_user u now st))"
proof -
  let ?r = "\<lparr>tok_type = RefreshT, tok_jti = next_jti st, tok_user = Some (user_id u),
       tok_exp = now + refresh_lifetime\<rparr>"
  let ?st1 = "sign ?r (st\<lparr>next_jti := Suc (next_jti st)\<rparr>)"
  have "auth_wf ?st1"
    using auth_wf_bump [OF assms] auth_wf_fresh [OF assms] by (intro auth_wf_sign) auto
  moreover have "next_jti st \<notin> set (map ot_jti (outstanding st))"
    using assms auth_wf_fresh [OF assms] by (auto simp: auth_wf_def)
  ultimately have "auth_wf (?st1\<lparr>outstanding := outstanding ?st1 @ [\<lparr>ot_jti = next_jti st,
      ot_user = Some (user_id u), ot_exp = now + refresh_lifetime\<rparr>]\<rparr>)"
    by (intro auth_wf_add_outstanding) (auto simp: image_iff)
  then show ?thesis by (simp add: refresh_for_user_eq)
qed

lemma auth_wf_login: "auth_wf st \<Longrightarrow> auth_wf (snd (login_view now u p st))"
proof -
  assume wf: "auth_wf st"
  show ?thesis
  proof (cases "\<not> str_truthy u \<or> \<not> str_truthy p")
    case False
    show ?thesis
    proof (cases "authenticate st (the u) (the p)")
      case (Some usr)
      let ?st1 = "snd (refresh_for_user usr now st)"
      let ?r = "fst (refresh_for_user usr now st)"
      have wf1: "auth_wf ?st1" using auth_wf_refresh_for_user [OF wf] .
      have wf2: "auth_wf (?st1\<lparr>next_jti := Suc (next_jti ?st1)\<rparr>)" using auth_wf_bump [OF wf1] .
      have "auth_wf (sign (fst (access_of ?r now ?st1)) (snd (access_of ?r now ?st1)))"
        using wf2 auth_wf_fresh [OF wf1] by (intro auth_wf_sign) (auto simp: access_of_eq)
      then show ?thesis using False Some
        by (simp add: login_view_def case_prod_beta)
    qed (use False in \<open>simp add: login_view_def wf\<close>)
  qed (simp add: login_view_def wf)
qed

lemma auth_wf_add_blacklisted:
  assumes "auth_wf st" and "j \<in> set (map ot_jti (outstanding st))" and "j \<notin> set (blacklisted st)"
  shows "auth_wf (st\<lparr>blacklisted := blacklisted st @ [j]\<rparr>)"
  using assms by (auto simp: auth_wf_def)

lemma blacklist_fields [simp]:
  "accounts (blacklist c st) = accounts st" "next_jti (blacklist c st) = next_jti st"
  "set (minted (blacklist c st)) = insert c (set (minted st))"
  "set (blacklisted (blacklist c st)) = insert (tok_jti c) (set (blacklisted st))"
  by (auto simp: blacklist_def Let_def)

lemma auth_wf_blacklist:
  assumes "auth_wf st" and "tok_jti c < next_jti st"
    and "c \<in> set (minted st) \<or> tok_jti c \<notin> set (map tok_jti (minted st))"
  shows "auth_wf (blacklist c st)"
proof -
  let ?st1 = "sign c st"
  let ?uid = "case tok_user c of None \<Rightarrow> None
                 | Some i \<Rightarrow> map_option (user_id \<circ> acc_user) (user_by_id ?st1 i)"
  let ?st2 = "if tok_jti c \<in> set (map ot_jti (outstanding ?st1)) then ?st1
              else ?st1\<lparr>outstanding := outstanding ?st1 @
                     [\<lparr>ot_jti = tok_jti c, ot_user = ?uid, ot_exp = tok_exp c\<rparr>]\<rparr>"
  have wf1: "auth_wf ?st1" using auth_wf_sign [OF assms] .
  have mem: "tok_jti c \<in> set (map tok_jti (minted ?st1))" by simp
  have wf2: "auth_wf ?st2"
  proof (cases "tok_jti c \<in> set (map ot_jti (outstanding ?st1))")
    case False
    show ?thesis
      by (subst if_not_P [OF False], rule auth_wf_add_outstanding [OF wf1]) (use mem False in simp_all)
  qed (simp add: wf1)
  have out2: "tok_jti c \<in> set (map ot_jti (outstanding ?st2))" by (auto simp: image_iff)
  have "auth_wf (if tok_jti c \<in> set (blacklisted ?st2) then ?st2
                 else ?st2\<lparr>blacklisted := blacklisted ?st2 @ [tok_jti c]\<rparr>)"
  proof (cases "tok_jti c \<in> set (blacklisted ?st2)")
    case False
    show ?thesis by (subst if_not_P [OF False]) (rule auth_wf_add_blacklisted [OF wf2 out2 False])
  next
    case True
    show ?thesis by (subst if_P [OF True]) (rule wf2)
  qed
  then show ?thesis unfolding blacklist_def Let_def .
qed

lemma refresh_token_InrE:
  assumes "refresh_token now t st = Inr (c, st1)"
  obtains "t = None" and "c = fst (new_token RefreshT refresh_lifetime now st)"
    and "st1 = st\<lparr>next_jti := Suc (next_jti st)\<rparr>"
  | tt where "t = Some tt" and "decode_token now st tt = Inr c" and "st1 = st"
    and "tok_jti c \<notin> set (blacklisted st)" and "tok_type c = RefreshT"
  using assms
  by (cases t) (auto simp: refresh_token_def new_token_def bind_exc_eq_Inr_iff split: if_splits)

lemma decode_token_Inr:
  "decode_token now st t = Inr c \<Longrightarrow> t = Encoded c \<and> c \<in> set (minted st) \<and> now < tok_exp c"
  by (cases t) (auto simp: decode_token_def split: if_splits)

lemma auth_wf_minted_jti: "auth_wf st \<Longrightarrow> c \<in> set (minted st) \<Longrightarrow> tok_jti c < next_jti st"
  by (auto simp: auth_wf_def list_all_iff)

lemma auth_wf_logout: "auth_wf st \<Longrightarrow> auth_wf (snd (logout_view now h r st))"
proof -
  assume wf: "auth_wf st"
  show ?thesis
  proof (cases "refresh_token now r st")
    case (Inr p)
    obtain c st1 where p: "p = (c, st1)" by (cases p)
    have "auth_wf (blacklist c st1)"
      using Inr [unfolded p]
    proof (rule refresh_token_InrE)
      assume c: "c = fst (new_token RefreshT refresh_lifetime now st)"
        and st1: "st1 = st\<lparr>next_jti := Suc (next_jti st)\<rparr>"
      show ?thesis unfolding st1 using auth_wf_bump [OF wf] auth_wf_fresh [OF wf] c
        by (intro auth_wf_blacklist) (auto simp: new_token_def)
    next
      fix tt
      assume "decode_token now st tt = Inr c" and "st1 = st"
      then show ?thesis using wf decode_token_Inr auth_wf_minted_jti
        by (metis auth_wf_blacklist)
    qed
    then show ?thesis using Inr p wf by (simp add: logout_view_def split: sum.splits)
  qed (simp add: logout_view_def wf split: sum.splits)
qed

lemma login_view_mono:
  "accounts (snd (login_view now u p st)) = accounts st
   \<and> set (minted st) \<subseteq> set (minted (snd (login_view now u p st)))
   \<and> blacklisted (snd (login_view now u p st)) = blacklisted st"
  by (auto simp: login_view_def refresh_for_user_eq access_of_eq split: option.splits)

lemma logout_view_mono:
  "accounts (snd (logout_view now h r st)) = accounts st
   \<and> set (minted st) \<subseteq> set (minted (snd (logout_view now h r st)))
   \<and> set (blacklisted st) \<subseteq> set (blacklisted (snd (logout_view now h r st)))"
  by (auto simp: logout_view_def refresh_token_def new_token_def bind_exc_def
      split: sum.splits option.splits if_splits)

lemma auth_step_mono:
  "auth_step st st' \<Longrightarrow> accounts st' = accounts st
     \<and> set (minted st) \<subseteq> set (minted st') \<and> set (blacklisted st) \<subseteq> set (blacklisted st')"
  by (induction rule: auth_step.induct) (simp_all add: login_view_mono logout_view_mono)

lemma auth_steps_mono:
  "auth_step\<^sup>*\<^sup>* st st' \<Longrightarrow> accounts st' = accounts st
     \<and> set (minted st) \<subseteq> set (minted st') \<and> set (blacklisted st) \<subseteq> set (blacklisted st')"
proof (induction rule: rtranclp_induct)
  case (step y z)
  then show ?case using auth_step_mono [OF step(2)] by (metis order_trans)
qed simp

lemma auth_step_wf: "auth_step st st' \<Longrightarrow> auth_wf st \<Longrightarrow> auth_wf st'"
  by (induction rule: auth_step.induct) (simp_all add: auth_wf_login auth_wf_logout)

lemma authenticate_Some:
  "authenticate st u p = Some usr \<Longrightarrow>
     \<exists>a \<in> set (accounts st). acc_user a = usr \<and> username usr = u \<and> acc_password a = p \<and> acc_active a"
  by (auto simp: authenticate_def find_Some_iff split: option.splits if_splits)

lemma find_user_id:
  "distinct (map (user_id \<circ> acc_user) as) \<Longrightarrow> a \<in> set as \<Longrightarrow>
     find (\<lambda>b. user_id (acc_user b) = user_id (acc_user a)) as = Some a"
  by (induction as) (auto simp: image_iff)

lemma login_view_Ok:
  assumes "login_view now un pw st = (LoginOk rt at usr, st')"
  shows "\<exists>u p. un = Some u \<and> pw = Some p \<and> authenticate st u p = Some usr
    \<and> rt = Encoded \<lparr>tok_type = RefreshT, tok_jti = next_jti st, tok_user = Some (user_id usr),
                      tok_exp = now + refresh_lifetime\<rparr>
    \<and> at = Encoded \<lparr>tok_type = AccessT, tok_jti = Suc (next_jti st), tok_user = Some (user_id usr),
                      tok_exp = now + access_lifetime\<rparr>
    \<and> accounts st' = accounts st \<and> blacklisted st' = blacklisted st
    \<and> set (minted st') = set (minted st) \<union> {the_Encoded rt, the_Encoded at}"
  using assms
  by (cases un; cases pw)
    (auto simp: login_view_def refresh_for_user_eq access_of_eq split: option.splits if_splits)

text \<open>A token the server signed authenticates its user as long as it lives.\<close>

lemma jwt_authenticate_access:
  assumes "accounts_wf (accounts st)" and "a \<in> set (accounts st)" and "acc_active a"
    and "\<lparr>tok_type = AccessT, tok_jti = j, tok_user = Some (user_id (acc_user a)), tok_exp = e\<rparr>
           \<in> set (minted st)"
    and "now < e"
  shows "jwt_authenticate now (Some (Encoded \<lparr>tok_type = AccessT, tok_jti = j,
           tok_user = Some (user_id (acc_user a)), tok_exp = e\<rparr>)) st = Inr (Some (acc_user a))"
  using assms find_user_id [of "accounts st" a]
  by (simp add: jwt_authenticate_def decode_token_def user_by_id_def accounts_wf_def)

lemma blacklisted_refresh_token:
  "tok_jti c \<in> set (blacklisted st) \<Longrightarrow> \<exists>msg. refresh_token now (Some (Encoded c)) st = Inl msg"
  by (auto simp: refresh_token_def decode_token_def)

lemma auth_wf_fresh_blacklisted:
  assumes "auth_wf st"
  shows "next_jti st \<notin> set (blacklisted st)"
proof -
  have "set (blacklisted st) \<subseteq> set (map tok_jti (minted st))"
    using assms unfolding auth_wf_def by (meson order_trans)
  then show ?thesis using auth_wf_fresh [OF assms] by blast
qed

lemma logout_view_OkE:
  assumes "logout_view now h (Some t) st = (LogoutOk m, st1)"
  obtains c where "t = Encoded c" and "st1 = blacklist c st"
proof -
  obtain c s where rt: "refresh_token now (Some t) st = Inr (c, s)" and st1: "st1 = blacklist c s"
    using assms by (auto simp: logout_view_def split: sum.splits)
  from rt show thesis
  proof (rule refresh_token_InrE)
    fix tt
    assume "Some t = Some tt" and "decode_token now st tt = Inr c" and "s = st"
    then show thesis using that decode_token_Inr st1 by blast
  qed simp
qed

text \<open>The access token of a login authenticates its user in any later state that keeps
  the accounts and the signed tokens, until it expires.\<close>

lemma login_access_valid:
  assumes "auth_wf st" and "login_view now un pw st = (LoginOk rt at usr, st1)"
    and "accounts st2 = accounts st1" and "set (minted st1) \<subseteq> set (minted st2)"
    and "now' < now + access_lifetime"
  shows "current_user now' (Some at) st2 = Inr usr"
proof -
  from login_view_Ok [OF assms(2)] obtain u p where
    auth: "authenticate st u p = Some usr" and
    at: "at = Encoded \<lparr>tok_type = AccessT, tok_jti = Suc (next_jti st), tok_user = Some (user_id usr),
                      tok_exp = now + access_lifetime\<rparr>" and
    acc: "accounts st1 = accounts st" and
    mint: "set (minted st1) = set (minted st) \<union> {the_Encoded rt, the_Encoded at}"
    by blast
  from authenticate_Some [OF auth] obtain a where
    a: "a \<in> set (accounts st)" "acc_user a = usr" "acc_active a" by blast
  have wfa: "accounts_wf (accounts st2)" using assms(1,3) acc by (simp add: auth_wf_def)
  have "jwt_authenticate now' (Some at) st2 = Inr (Some usr)"
    using jwt_authenticate_access [OF wfa, of a] a acc assms(3,4,5) mint at by auto
  then show ?thesis by (simp add: current_user_def request_user_def)
qed

lemma request_user_Inr:
  assumes "request_user now hdr st = Inr u"
  obtains c a where "hdr = Some (Encoded c)" and "c \<in> set (minted st)" and "tok_type c = AccessT"
    and "now < tok_exp c" and "tok_user c = Some (user_id u)"
    and "a \<in> set (accounts st)" and "acc_user a = u" and "acc_active a"
proof -
  obtain t where hdr: "hdr = Some t" and ja: "jwt_authenticate now (Some t) st = Inr (Some u)"
    using assms by (cases hdr) (auto simp: request_user_def jwt_authenticate_def split: sum.splits option.splits)
  then obtain c where dec: "decode_token now st t = Inr c" and ty: "tok_type c = AccessT"
    by (auto simp: jwt_authenticate_def split: sum.splits if_splits)
  then obtain uid a where uid: "tok_user c = Some uid" and ua: "user_by_id st uid = Some a"
    and act: "acc_active a" and au: "acc_user a = u"
    using ja by (auto simp: jwt_authenticate_def split: option.splits if_splits)
  have "a \<in> set (accounts st)" "user_id (acc_user a) = uid"
    using ua by (auto simp: user_by_id_def find_Some_iff)
  then show thesis using that [of c a] hdr dec decode_token_Inr [OF dec] ty uid act au by auto
qed

subsection \<open>Properties of authentication\<close>

text \<open>
  C20. Login errors: a missing or empty username or password is a 400 with the code's
  message, credentials that do not authenticate (unknown user, wrong password,
  inactive account) a 401; neither changes any state.
\<close>

theorem login_view_rejects:
  "(\<not> str_truthy un \<or> \<not> str_truthy pw \<longrightarrow>
      login_view now un pw st = (LoginError 400 ''Please provide both username and password'', st))
   \<and> (u \<noteq> [] \<and> p \<noteq> [] \<and> authenticate st u p = None \<longrightarrow>
      login_view now (Some u) (Some p) st = (LoginError 401 ''Invalid credentials'', st))"
  by (simp add: login_view_def)

theorem login_view_rejects_witness:
  "login_view 1000 (Some ''clerk'') None example_auth
     = (LoginError 400 ''Please provide both username and password'', example_auth)
   \<and> login_view 1000 (Some ''retired'') (Some ''old'') example_auth
     = (LoginError 401 ''Invalid credentials'', example_auth)"
proof -
  have "authenticate example_auth ''retired'' ''old'' = None" by code_simp
  then show ?thesis
    using login_view_rejects [of "Some ''clerk''" None 1000 example_auth]
      login_view_rejects [of _ _ 1000 example_auth "''retired''" "''old''"]
    by simp
qed

text \<open>
  C21. A successful login is an active account with that username and password; its
  access token authenticates that user until it expires, and its refresh token carries
  the user's id and is accepted by \<open>RefreshToken\<close> (fresh, not blacklisted).
\<close>

theorem login_view_tokens:
  assumes "auth_wf st" and "login_view now un pw st = (LoginOk rt at usr, st')"
    and "now' < now + access_lifetime"
  shows "(\<exists>a \<in> set (accounts st). acc_user a = usr \<and> un = Some (username usr)
            \<and> pw = Some (acc_password a) \<and> acc_active a)
    \<and> current_user now' (Some at) st' = Inr usr
    \<and> (\<exists>c. rt = Encoded c \<and> tok_user c = Some (user_id usr)
            \<and> refresh_token now' (Some rt) st' = Inr (c, st'))"
proof -
  from login_view_Ok [OF assms(2)] obtain u p where
    up: "un = Some u" "pw = Some p" and auth: "authenticate st u p = Some usr" and
    rt: "rt = Encoded \<lparr>tok_type = RefreshT, tok_jti = next_jti st, tok_user = Some (user_id usr),
                      tok_exp = now + refresh_lifetime\<rparr>" and
    acc: "accounts st' = accounts st" and bl: "blacklisted st' = blacklisted st" and
    mint: "set (minted st') = set (minted st) \<union> {the_Encoded rt, the_Encoded at}"
    by blast
  have cu: "current_user now' (Some at) st' = Inr usr"
    using login_access_valid [OF assms(1,2) refl order_refl assms(3)] .
  have "now' < now + refresh_lifetime"
    using assms(3) by (simp add: access_lifetime_def refresh_lifetime_def)
  then have "refresh_token now' (Some rt) st' = Inr (the_Encoded rt, st')"
    using rt mint bl auth_wf_fresh_blacklisted [OF assms(1)]
    by (simp add: refresh_token_def decode_token_def)
  then show ?thesis using authenticate_Some [OF auth] up cu rt by auto
qed

theorem login_view_tokens_witness:
  "current_user 1200 (Some (Encoded \<lparr>tok_type = AccessT, tok_jti = 2, tok_user = Some 1, tok_exp = 1300\<rparr>))
     (snd (login_view 1000 (Some ''clerk'') (Some ''secret'') example_auth))
   = Inr \<lparr>user_id = 1, username = ''clerk'', role = STAFF, user_station = ''Saddar''\<rparr>"
proof -
  have wf: "auth_wf example_auth" by code_simp
  have ok: "login_view 1000 (Some ''clerk'') (Some ''secret'') example_auth
    = (LoginOk (Encoded \<lparr>tok_type = RefreshT, tok_jti = 1, tok_user = Some 1, tok_exp = 87400\<rparr>)
         (Encoded \<lparr>tok_type = AccessT, tok_jti = 2, tok_user = Some 1, tok_exp = 1300\<rparr>)
         \<lparr>user_id = 1, username = ''clerk'', role = STAFF, user_station = ''Saddar''\<rparr>,
       snd (login_view 1000 (Some ''clerk'') (Some ''secret'') example_auth))"
    by code_simp
  have "(1200::nat) < 1000 + access_lifetime" by (simp add: access_lifetime_def)
  then show ?thesis using login_view_tokens [OF wf ok] by blast
qed

text \<open>
  C22. A refresh token is spent by a successful logout: after it, in every state the
  requests lead to, logging out with the same token is an error (400, or 401 for a
  request that does not authenticate) that changes nothing.
\<close>

theorem logout_view_token_spent:
  assumes "logout_view now h (Some t) st = (LogoutOk m, st1)" and "auth_step\<^sup>*\<^sup>* st1 st2"
  shows "\<exists>k msg. logout_view now' h' (Some t) st2 = (LogoutError k msg, st2)"
proof -
  from assms(1) obtain c where t: "t = Encoded c" and st1: "st1 = blacklist c st"
    by (rule logout_view_OkE)
  have "tok_jti c \<in> set (blacklisted st2)"
    using auth_steps_mono [OF assms(2)] st1 by auto
  then obtain msg where "refresh_token now' (Some t) st2 = Inl msg"
    using blacklisted_refresh_token t by blast
  then show ?thesis by (auto simp: logout_view_def split: sum.splits)
qed

theorem logout_view_token_spent_witness:
  "logout_view 1020 (Some (Encoded \<lparr>tok_type = AccessT, tok_jti = 2, tok_user = Some 1, tok_exp = 1300\<rparr>))
     (Some (Encoded \<lparr>tok_type = RefreshT, tok_jti = 1, tok_user = Some 1, tok_exp = 87400\<rparr>))
     (snd (logout_view 1010 (Some (Encoded \<lparr>tok_type = AccessT, tok_jti = 2, tok_user = Some 1, tok_exp = 1300\<rparr>))
        (Some (Encoded \<lparr>tok_type = RefreshT, tok_jti = 1, tok_user = Some 1, tok_exp = 87400\<rparr>))
        (snd (login_view 1000 (Some ''clerk'') (Some ''secret'') example_auth))))
   \<noteq> (LogoutOk ''Successfully logged out'',
       snd (logout_view 1010 (Some (Encoded \<lparr>tok_type = AccessT, tok_jti = 2, tok_user = Some 1, tok_exp = 1300\<rparr>))
        (Some (Encoded \<lparr>tok_type = RefreshT, tok_jti = 1, tok_user = Some 1, tok_exp = 87400\<rparr>))
        (snd (login_view 1000 (Some ''clerk'') (Some ''secret'') example_auth))))"
proof -
  let ?at = "Encoded \<lparr>tok_type = AccessT, tok_jti = 2, tok_user = Some 1, tok_exp = 1300\<rparr>"
  let ?rt = "Encoded \<lparr>tok_type = RefreshT, tok_jti = 1, tok_user = Some 1, tok_exp = 87400\<rparr>"
  let ?s1 = "snd (login_view 1000 (Some ''clerk'') (Some ''secret'') example_auth)"
  have ok: "logout_view 1010 (Some ?at) (Some ?rt) ?s1
      = (LogoutOk ''Successfully logged out'', snd (logout_view 1010 (Some ?at) (Some ?rt) ?s1))"
    by code_simp
  show ?thesis
    using logout_view_token_spent [OF ok rtranclp.rtrancl_refl, of 1020 "Some ?at"] by auto
qed

text \<open>
  C23. Logging out without a \<open>refresh\<close> field succeeds: \<open>RefreshToken(None)\<close> makes a
  fresh token, which is blacklisted, so the answer is 200 although no token the client
  holds is invalidated (the spec asks for a 400 on any failure).
\<close>

theorem logout_view_without_refresh:
  assumes "auth_wf st" and "request_user now h st = Inr u"
  shows "\<exists>st'. logout_view now h None st = (LogoutOk ''Successfully logged out'', st')
    \<and> set (blacklisted st') = insert (next_jti st) (set (blacklisted st))
    \<and> next_jti st \<notin> set (map tok_jti (minted st)) \<and> next_jti st \<notin> set (blacklisted st)"
proof -
  let ?c = "fst (new_token RefreshT refresh_lifetime now st)"
  have "logout_view now h None st
      = (LogoutOk ''Successfully logged out'', blacklist ?c (st\<lparr>next_jti := Suc (next_jti st)\<rparr>))"
    using assms(2) by (simp add: logout_view_def refresh_token_def new_token_def)
  moreover have "tok_jti ?c = next_jti st" by (simp add: new_token_def)
  ultimately show ?thesis
    using auth_wf_fresh [OF assms(1)] auth_wf_fresh_blacklisted [OF assms(1)] by auto
qed

theorem logout_view_without_refresh_witness:
  "fst (logout_view 1010 (Some (Encoded \<lparr>tok_type = AccessT, tok_jti = 2, tok_user = Some 1, tok_exp = 1300\<rparr>)) None
      (snd (login_view 1000 (Some ''clerk'') (Some ''secret'') example_auth)))
   = LogoutOk ''Successfully logged out''"
proof -
  let ?s1 = "snd (login_view 1000 (Some ''clerk'') (Some ''secret'') example_auth)"
  have wf: "auth_wf ?s1" using auth_wf_login [of example_auth] by code_simp
  have u: "request_user 1010 (Some (Encoded \<lparr>tok_type = AccessT, tok_jti = 2, tok_user = Some 1, tok_exp = 1300\<rparr>)) ?s1
      = Inr \<lparr>user_id = 1, username = ''clerk'', role = STAFF, user_station = ''Saddar''\<rparr>"
    by code_simp
  show ?thesis using logout_view_without_refresh [OF wf u] by auto
qed

text \<open>
  Logout does not revoke the access token: after a login, whatever logins and
  logouts follow (the logout of this login's refresh token included), its access token
  still authenticates the user until it expires.
\<close>

theorem access_token_outlives_logout:
  assumes "auth_wf st" and "login_view now un pw st = (LoginOk rt at usr, st1)"
    and "auth_step\<^sup>*\<^sup>* st1 st2" and "now' < now + access_lifetime"
  shows "current_user now' (Some at) st2 = Inr usr"
  using auth_steps_mono [OF assms(3)] login_access_valid [OF assms(1,2) _ _ assms(4)] by simp

theorem access_token_outlives_logout_witness:
  "fst (logout_view 1010 (Some (Encoded \<lparr>tok_type = AccessT, tok_jti = 2, tok_user = Some 1, tok_exp = 1300\<rparr>))
      (Some (Encoded \<lparr>tok_type = RefreshT, tok_jti = 1, tok_user = Some 1, tok_exp = 87400\<rparr>))
      (snd (login_view 1000 (Some ''clerk'') (Some ''secret'') example_auth))) = LogoutOk ''Successfully logged out''
   \<and> current_user 1200 (Some (Encoded \<lparr>tok_type = AccessT, tok_jti = 2, tok_user = Some 1, tok_exp = 1300\<rparr>))
      (snd (logout_view 1010 (Some (Encoded \<lparr>tok_type = AccessT, tok_jti = 2, tok_user = Some 1, tok_exp = 1300\<rparr>))
        (Some (Encoded \<lparr>tok_type = RefreshT, tok_jti = 1, tok_user = Some 1, tok_exp = 87400\<rparr>))
        (snd (login_view 1000 (Some ''clerk'') (Some ''secret'') example_auth))))
     = Inr \<lparr>user_id = 1, username = ''clerk'', role = STAFF, user_station = ''Saddar''\<rparr>"
proof -
  let ?at = "Encoded \<lparr>tok_type = AccessT, tok_jti = 2, tok_user = Some 1, tok_exp = 1300\<rparr>"
  let ?rt = "Encoded \<lparr>tok_type = RefreshT, tok_jti = 1, tok_user = Some 1, tok_exp = 87400\<rparr>"
  let ?s1 = "snd (login_view 1000 (Some ''clerk'') (Some ''secret'') example_auth)"
  have wf: "auth_wf example_auth" by code_simp
  have ok: "login_view 1000 (Some ''clerk'') (Some ''secret'') example_auth
    = (LoginOk ?rt ?at \<lparr>user_id = 1, username = ''clerk'', role = STAFF, user_station = ''Saddar''\<rparr>, ?s1)"
    by code_simp
  have out: "fst (logout_view 1010 (Some ?at) (Some ?rt) ?s1) = LogoutOk ''Successfully logged out''"
    by code_simp
  have st: "auth_step\<^sup>*\<^sup>* ?s1 (snd (logout_view 1010 (Some ?at) (Some ?rt) ?s1))"
    by (rule r_into_rtranclp [of auth_step, OF auth_step.logout_req])
  have "(1200::nat) < 1000 + access_lifetime" by (simp add: access_lifetime_def)
  then show ?thesis using access_token_outlives_logout [OF wf ok st] out by simp
qed

text \<open>
  The login and logout round trip on the example accounts: the clerk logs in, logs
  out with the refresh token, a second logout with it is refused as blacklisted, and the
  access token still identifies the clerk; the inactive account cannot log in.
\<close>

theorem auth_example:
  "(let (r, s1) = login_view 1000 (Some ''clerk'') (Some ''secret'') example_auth in
    case r of
      LoginOk rt at u \<Rightarrow>
        (let (o1, s2) = logout_view 1010 (Some at) (Some rt) s1 in
         (o1, fst (logout_view 1020 (Some at) (Some rt) s2), current_user 1030 (Some at) s2))
    | LoginError k m \<Rightarrow> (LogoutError k m, LogoutError k m, Inl m))
   = (LogoutOk ''Successfully logged out'', LogoutError 400 ''Token is blacklisted'',
      Inr \<lparr>user_id = 1, username = ''clerk'', role = STAFF, user_station = ''Saddar''\<rparr>)
   \<and> fst (login_view 1000 (Some ''retired'') (Some ''old'') example_auth)
     = LoginError 401 ''Invalid credentials''"
  by code_simp


text \<open>
  C24. Requests that do not authenticate: without an \<open>Authorization\<close> header, with an
  expired token or with a refresh token in place of an access token, \<open>current_user\<close>
  (and every view behind \<open>IsAuthenticated\<close>) answers 401 with the library's message.
\<close>

theorem current_user_rejects:
  "current_user now None st = Inl ''Authentication credentials were not provided.''
   \<and> (tok_exp c \<le> now \<or> tok_type c = RefreshT \<longrightarrow>
        current_user now (Some (Encoded c)) st = Inl ''Given token not valid for any token type'')"
  by (cases "tok_type c") (auto simp: current_user_def request_user_def jwt_authenticate_def decode_token_def)

theorem current_user_rejects_witness:
  "current_user 1000 (Some (Encoded \<lparr>tok_type = RefreshT, tok_jti = 1, tok_user = Some 1, tok_exp = 87400\<rparr>))
      (snd (login_view 1000 (Some ''clerk'') (Some ''secret'') example_auth))
     = Inl ''Given token not valid for any token type''
   \<and> current_user 2000 (Some (Encoded \<lparr>tok_type = AccessT, tok_jti = 2, tok_user = Some 1, tok_exp = 1300\<rparr>))
      (snd (login_view 1000 (Some ''clerk'') (Some ''secret'') example_auth))
     = Inl ''Given token not valid for any token type''"
  using current_user_rejects [of 1000 _ "\<lparr>tok_type = RefreshT, tok_jti = 1, tok_user = Some 1, tok_exp = 87400\<rparr>"]
    current_user_rejects [of 2000 _ "\<lparr>tok_type = AccessT, tok_jti = 2, tok_user = Some 1, tok_exp = 1300\<rparr>"]
  by simp

end
