(* ===== verification/ViewSet.thy ===== *)
theory ViewSet
  imports Workflow Query
begin

text \<open>
  The actions \<open>OpenCourtApplicationViewSet\<close> really serves (\<open>views.py\<close> lines
  73--77).  Its class body holds only \<open>queryset\<close>, \<open>serializer_class\<close> and
  \<open>permission_classes\<close>: \<open>get_queryset\<close> is a module-level function (line 82), and
  \<open>perform_create\<close>, \<open>update_status\<close> and \<open>update_feedback\<close> are nested inside it
  after its \<open>return\<close> (lines 118--159).  So the routes are Django REST framework's
  \<open>ModelViewSet\<close> defaults: \<open>get_object\<close> looks the primary key up in
  \<open>queryset.all()\<close> (404 when absent), \<open>create\<close> validates the serializer and calls the
  mixin's \<open>perform_create\<close> (\<open>serializer.save()\<close>), \<open>update\<close> and
  \<open>partial_update\<close> validate and save, \<open>destroy\<close> deletes.

  The serializer is not in the repository.  Its validation follows the spec's data model
  (section 3) and DRF's \<open>ModelSerializer\<close> for it: a non-blank unique serial number
  (the \<open>UniqueValidator\<close> excludes the instance being updated), status and feedback
  among the model's choices, days a non-negative integer or null.  All field errors are
  collected, in field order, into one 400 answer.  A status or feedback that is absent
  keeps the model default on creation and the stored value on update; the text fields
  are written as given.  \<open>partial_update\<close> (PATCH) validates and writes only the
  fields the request names.
\<close>

record app_payload =
  p_sr_no :: string
  p_dairy_no :: string
  p_name :: string
  p_contact :: string
  p_police_station :: string
  p_division :: string
  p_category :: string
  p_status :: "string option"
  p_feedback :: "string option"
  p_days :: "int option"
  p_remarks :: string

datatype 'a drf_response = Resp200 'a | Resp201 'a | Resp204 | Resp400 "(string \<times> string) list" | Resp404

text \<open>The model's feedback choices: PENDING is one of them, unlike in the action's check.\<close>

fun feedback_choice :: "string \<Rightarrow> app_feedback option" where
  "feedback_choice s = (if s = ''PENDING'' then Some FB_PENDING else feedback_of_str s)"

definition choice_error :: "string \<Rightarrow> string" where
  "choice_error v = CHR 0x22 # v @ CHR 0x22 # '' is not a valid choice.''"

text \<open>The serial number's field validation: not blank, and the \<open>UniqueValidator\<close> over
  the rows other than the instance being updated.\<close>

definition sr_errors :: "db \<Rightarrow> nat option \<Rightarrow> string \<Rightarrow> (string \<times> string) list" where
  "sr_errors s inst v =
     (if v = [] then [(''sr_no'', ''This field may not be blank.'')]
      else if list_ex (\<lambda>a. sr_no a = v \<and> Some (app_id a) \<noteq> inst) (apps s)
      then [(''sr_no'', ''open court application with this sr no already exists.'')]
      else [])"

text \<open>The status and feedback choice fields and the non-negative days field, for the
  values present in the request.\<close>

definition choice_errors ::
  "string option \<Rightarrow> string option \<Rightarrow> int option \<Rightarrow> (string \<times> string) list" where
  "choice_errors st fb dy =
     (case st of
        None \<Rightarrow> []
      | Some v \<Rightarrow> if status_of_str v = None then [(''status'', choice_error v)] else [])
   @ (case fb of
        None \<Rightarrow> []
      | Some v \<Rightarrow> if feedback_choice v = None then [(''feedback'', choice_error v)] else [])
   @ (case dy of
        None \<Rightarrow> []
      | Some i \<Rightarrow> if i < 0 then [(''days'', ''Ensure this value is greater than or equal to 0.'')] else [])"

definition validate_payload :: "db \<Rightarrow> nat option \<Rightarrow> app_payload \<Rightarrow> (string \<times> string) list" where
  "validate_payload s inst p =
     sr_errors s inst (p_sr_no p) @ choice_errors (p_status p) (p_feedback p) (p_days p)"

text \<open>The validated data written onto an instance.\<close>

definition payload_app :: "app_payload \<Rightarrow> application \<Rightarrow> application" where
  "payload_app p a =
     a\<lparr>sr_no := p_sr_no p, dairy_no := p_dairy_no p, name := p_name p, contact := p_contact p,
       police_station := p_police_station p, division := p_division p, category := p_category p,
       status := (case Option.bind (p_status p) status_of_str of None \<Rightarrow> status a | Some st \<Rightarrow> st),
       feedback := (case Option.bind (p_feedback p) feedback_choice of None \<Rightarrow> feedback a | Some f \<Rightarrow> f),
       days := p_days p, remarks := p_remarks p\<rparr>"

text \<open>\<open>serializer.save(**kw)\<close> on creation: a new row with the next primary key.\<close>

definition serializer_create :: "app_payload \<Rightarrow> nat option \<Rightarrow> db \<Rightarrow> application \<times> db" where
  "serializer_create p by s =
     (let a = (payload_app p (blank_application (next_id s) (p_sr_no p)))\<lparr>created_by := by\<rparr> in
      (a, s\<lparr>apps := apps s @ [a], next_id := Suc (next_id s)\<rparr>))"

text \<open>Lines 118--120, the override as written: \<open>serializer.save(created_by=self.request.user)\<close>.\<close>

definition perform_create :: "user \<Rightarrow> app_payload \<Rightarrow> db \<Rightarrow> application \<times> db" where
  "perform_create u p s = serializer_create p (Some (user_id u)) s"

text \<open>\<open>CreateModelMixin.perform_create\<close>, the one the view set runs: \<open>serializer.save()\<close>.\<close>

definition default_perform_create :: "app_payload \<Rightarrow> db \<Rightarrow> application \<times> db" where
  "default_perform_create p s = serializer_create p None s"

text \<open>\<open>create\<close>: 400 with every field error, or 201 with the new record.\<close>

definition viewset_create :: "user \<Rightarrow> app_payload \<Rightarrow> db \<Rightarrow> application drf_response \<times> db" where
  "viewset_create u p s =
     (let errs = validate_payload s None p in
      if errs \<noteq> [] then (Resp400 errs, s)
      else (let (a, s') = default_perform_create p s in (Resp201 a, s')))"

text \<open>\<open>retrieve\<close>: \<open>get_object()\<close> over \<open>queryset.all()\<close>, whoever asks.\<close>

definition viewset_retrieve :: "user \<Rightarrow> nat \<Rightarrow> db \<Rightarrow> application drf_response" where
  "viewset_retrieve u pk s = (case db_get pk s of None \<Rightarrow> Resp404 | Some a \<Rightarrow> Resp200 a)"

text \<open>\<open>update\<close> (PUT): \<open>get_object()\<close>, validation against the other rows, save.\<close>

definition viewset_update ::
  "user \<Rightarrow> nat \<Rightarrow> app_payload \<Rightarrow> db \<Rightarrow> application drf_response \<times> db" where
  "viewset_update u pk p s =
     (case db_get pk s of
        None \<Rightarrow> (Resp404, s)
      | Some a \<Rightarrow>
          (let errs = validate_payload s (Some pk) p in
           if errs \<noteq> [] then (Resp400 errs, s)
           else (let a' = payload_app p a in (Resp200 a', db_save a' s))))"

text \<open>\<open>destroy\<close>: \<open>get_object()\<close>, then \<open>instance.delete()\<close>; 204.\<close>

definition viewset_destroy :: "user \<Rightarrow> nat \<Rightarrow> db \<Rightarrow> application drf_response \<times> db" where
  "viewset_destroy u pk s =
     (case db_get pk s of
        None \<Rightarrow> (Resp404, s)
      | Some a \<Rightarrow> (Resp204, s\<lparr>apps := filter (\<lambda>b. app_id b \<noteq> pk) (apps s)\<rparr>))"

text \<open>
  \<open>partial_update\<close> (PATCH): a request names only some fields; the absent ones are
  neither validated nor written.  \<open>pp_days\<close> distinguishes an absent field
  (\<open>None\<close>) from an explicit null (\<open>Some None\<close>).
\<close>

record app_patch =
  pp_sr_no :: "string option"
  pp_dairy_no :: "string option"
  pp_name :: "string option"
  pp_contact :: "string option"
  pp_police_station :: "string option"
  pp_division :: "string option"
  pp_category :: "string option"
  pp_status :: "string option"
  pp_feedback :: "string option"
  pp_days :: "int option option"
  pp_remarks :: "string option"

definition given :: "'a option \<Rightarrow> 'a \<Rightarrow> 'a" where
  "given v d = (case v of None \<Rightarrow> d | Some x \<Rightarrow> x)"

definition validate_patch :: "db \<Rightarrow> nat \<Rightarrow> app_patch \<Rightarrow> (string \<times> string) list" where
  "validate_patch s pk pp =
     (case pp_sr_no pp of None \<Rightarrow> [] | Some v \<Rightarrow> sr_errors s (Some pk) v)
     @ choice_errors (pp_status pp) (pp_feedback pp) (given (pp_days pp) None)"

definition patch_app :: "app_patch \<Rightarrow> application \<Rightarrow> application" where
  "patch_app pp a =
     a\<lparr>sr_no := given (pp_sr_no pp) (sr_no a), dairy_no := given (pp_dairy_no pp) (dairy_no a),
       name := given (pp_name pp) (name a), contact := given (pp_contact pp) (contact a),
       police_station := given (pp_police_station pp) (police_station a),
       division := given (pp_division pp) (division a), category := given (pp_category pp) (category a),
       status := given (Option.bind (pp_status pp) status_of_str) (status a),
       feedback := given (Option.bind (pp_feedback pp) feedback_choice) (feedback a),
       days := given (pp_days pp) (days a), remarks := given (pp_remarks pp) (remarks a)\<rparr>"

definition viewset_partial_update ::
  "user \<Rightarrow> nat \<Rightarrow> app_patch \<Rightarrow> db \<Rightarrow> application drf_response \<times> db" where
  "viewset_partial_update u pk pp s =
     (case db_get pk s of
        None \<Rightarrow> (Resp404, s)
      | Some a \<Rightarrow>
          (let errs = validate_patch s pk pp in
           if errs \<noteq> [] then (Resp400 errs, s)
           else (let a' = patch_app pp a in (Resp200 a', db_save a' s))))"

text \<open>The requests of the view set's write routes.\<close>

inductive viewset_step :: "db \<Rightarrow> db \<Rightarrow> bool" where
  create_req: "viewset_step s (snd (viewset_create u p s))"
| update_req: "viewset_step s (snd (viewset_update u pk p s))"
| partial_req: "viewset_step s (snd (viewset_partial_update u pk pp s))"
| destroy_req: "viewset_step s (snd (viewset_destroy u pk s))"

subsection \<open>Examples\<close>

definition example_payload :: app_payload where
  "example_payload =
     \<lparr>p_sr_no = ''2002'', p_dairy_no = ''D-9'', p_name = ''Sana'', p_contact = ''0321'',
      p_police_station = ''Civil Lines'', p_division = ''City'', p_category = ''Family'',
      p_status = None, p_feedback = None, p_days = Some 3, p_remarks = []\<rparr>"

definition empty_patch :: app_patch where
  "empty_patch =
     \<lparr>pp_sr_no = None, pp_dairy_no = None, pp_name = None, pp_contact = None,
      pp_police_station = None, pp_division = None, pp_category = None, pp_status = None,
      pp_feedback = None, pp_days = None, pp_remarks = None\<rparr>"

definition example_sho :: user where
  "example_sho = \<lparr>user_id = 5, username = ''sho'', role = STAFF, user_station = ''Saddar''\<rparr>"


subsection \<open>Lemmas\<close>

lemma find_app_id:
  "distinct (map app_id xs) \<Longrightarrow> b \<in> set xs \<Longrightarrow> find (\<lambda>a. app_id a = app_id b) xs = Some b"
  by (induction xs) (auto simp: image_iff)

lemma db_get_mem: "db_wf s \<Longrightarrow> b \<in> set (apps s) \<Longrightarrow> db_get (app_id b) s = Some b"
  by (simp add: db_get_def db_wf_def find_app_id)

lemma validate_payload_Nil:
  assumes "validate_payload s inst p = []"
  shows "p_sr_no p \<noteq> [] \<and> (\<forall>a \<in> set (apps s). sr_no a = p_sr_no p \<longrightarrow> Some (app_id a) = inst)
    \<and> (case p_days p of None \<Rightarrow> True | Some i \<Rightarrow> 0 \<le> i)"
  using assms
  by (auto simp: validate_payload_def sr_errors_def choice_errors_def list_ex_iff split: if_splits option.splits)

lemma validate_patch_Nil:
  assumes "validate_patch s pk pp = []"
  shows "(\<forall>v. pp_sr_no pp = Some v \<longrightarrow> (\<forall>a \<in> set (apps s). sr_no a = v \<longrightarrow> app_id a = pk))
    \<and> (\<forall>d. pp_days pp = Some d \<longrightarrow> (case d of None \<Rightarrow> True | Some i \<Rightarrow> 0 \<le> i))"
  using assms
  by (auto simp: validate_patch_def sr_errors_def choice_errors_def given_def list_ex_iff
      split: if_splits option.splits)

lemma payload_app_fields [simp]:
  "app_id (payload_app p a) = app_id a" "sr_no (payload_app p a) = p_sr_no p"
  "days (payload_app p a) = p_days p" "created_by (payload_app p a) = created_by a"
  by (simp_all add: payload_app_def)

lemma viewset_create_Ok:
  assumes "viewset_create u p s = (Resp201 a, s')"
  shows "validate_payload s None p = [] \<and> (a, s') = serializer_create p None s"
  using assms by (auto simp: viewset_create_def default_perform_create_def Let_def split: if_splits prod.splits)

text \<open>Saving a row under its primary key with a serial number no other row holds.\<close>

lemma db_wf_db_save_key:
  assumes "db_wf s"
    and "\<forall>c \<in> set (apps s). sr_no c = sr_no a \<longrightarrow> app_id c = app_id a"
  shows "db_wf (db_save a s)"
proof -
  let ?xs = "apps (db_save a s)"
  have ids: "map app_id ?xs = map app_id (apps s)" by simp
  have mem: "x \<in> set ?xs \<Longrightarrow> x = a \<or> (x \<in> set (apps s) \<and> app_id x \<noteq> app_id a)" for x
    by (auto simp: db_save_def)
  have "inj_on sr_no (set ?xs)"
  proof (rule inj_onI)
    fix x y assume x: "x \<in> set ?xs" and y: "y \<in> set ?xs" and eq: "sr_no x = sr_no y"
    consider "x = a" "y = a" | "x = a" "y \<in> set (apps s)" "app_id y \<noteq> app_id a"
      | "y = a" "x \<in> set (apps s)" "app_id x \<noteq> app_id a"
      | "x \<in> set (apps s)" "y \<in> set (apps s)"
      using mem [OF x] mem [OF y] by blast
    then show "x = y"
    proof cases
      case 2 then show ?thesis using assms(2) eq by auto
    next
      case 3 then show ?thesis using assms(2) eq by auto
    next
      case 4 then show ?thesis using db_wf_same_sr [OF assms(1)] eq by blast
    qed simp
  qed
  moreover have "distinct ?xs"
    using assms(1) ids distinct_map [of app_id ?xs] by (simp add: db_wf_def)
  ultimately have "distinct (map sr_no ?xs)" by (simp add: distinct_map)
  moreover have "\<forall>c \<in> set ?xs. app_id c < next_id (db_save a s)"
  proof
    fix c assume "c \<in> set ?xs"
    then have "app_id c \<in> set (map app_id ?xs)" by (simp only: set_map imageI)
    then have "app_id c \<in> set (map app_id (apps s))" by (simp only: ids)
    then show "app_id c < next_id (db_save a s)" using assms(1) by (auto simp: db_wf_def)
  qed
  ultimately show ?thesis using assms(1) ids by (simp add: db_wf_def)
qed

lemma db_save_self:
  assumes "db_wf s" and "db_get (app_id a) s = Some a"
  shows "db_save a s = s"
proof -
  have a: "a \<in> set (apps s)" using db_get_Some [OF assms(2)] by simp
  have "map (\<lambda>b. if app_id b = app_id a then a else b) (apps s) = apps s"
    using db_wf_same_id [OF assms(1) a] by (intro map_idI) auto
  then show ?thesis by (simp add: db_save_def)
qed

lemma patch_app_empty [simp]: "patch_app empty_patch a = a"
  by (simp add: patch_app_def empty_patch_def given_def)

lemma viewset_step_inv:
  assumes "viewset_step s t" and "db_wf s" and "list_all days_ok (apps s)"
  shows "db_wf t \<and> list_all days_ok (apps t)"
  using assms
proof (induction rule: viewset_step.induct)
  case (create_req s u p)
  show ?case
  proof (cases "validate_payload s None p = []")
    case True
    note v = validate_payload_Nil [OF True]
    let ?a = "(payload_app p (blank_application (next_id s) (p_sr_no p)))\<lparr>created_by := None\<rparr>"
    have "snd (viewset_create u p s) = s\<lparr>apps := apps s @ [?a], next_id := Suc (next_id s)\<rparr>"
      using True by (simp add: viewset_create_def default_perform_create_def serializer_create_def Let_def)
    moreover have "sr_no ?a \<notin> sr_keys s"
      using v create_req.prems(1) by (auto simp: sr_keys_def blank_application_def)
    moreover have "days_ok ?a" using v by (simp add: days_ok_def split: option.splits)
    ultimately show ?thesis using create_req.prems db_wf_append_new [of s ?a]
      by (simp add: blank_application_def)
  qed (use create_req.prems in \<open>simp add: viewset_create_def Let_def\<close>)
next
  case (update_req s u pk p)
  show ?case
  proof (cases "db_get pk s")
    case (Some b)
    show ?thesis
    proof (cases "validate_payload s (Some pk) p = []")
      case True
      note v = validate_payload_Nil [OF True]
      have b: "b \<in> set (apps s)" "app_id b = pk" using db_get_Some [OF Some] by auto
      let ?a = "payload_app p b"
      have "db_wf (db_save ?a s)"
        using update_req.prems(1) v b by (intro db_wf_db_save_key) auto
      moreover have "list_all days_ok (apps (db_save ?a s))"
        using v by (intro list_all_db_save [OF update_req.prems(2)]) (simp add: days_ok_def split: option.splits)
      ultimately show ?thesis using Some True by (simp add: viewset_update_def Let_def)
    qed (use Some update_req.prems in \<open>simp add: viewset_update_def Let_def\<close>)
  qed (use update_req.prems in \<open>simp add: viewset_update_def\<close>)
next
  case (partial_req s u pk pp)
  show ?case
  proof (cases "db_get pk s")
    case (Some b)
    show ?thesis
    proof (cases "validate_patch s pk pp = []")
      case True
      note v = validate_patch_Nil [OF True]
      have b: "b \<in> set (apps s)" "app_id b = pk" using db_get_Some [OF Some] by auto
      let ?a = "patch_app pp b"
      have "\<forall>c \<in> set (apps s). sr_no c = sr_no ?a \<longrightarrow> app_id c = app_id ?a"
      proof (cases "pp_sr_no pp")
        case None
        then show ?thesis using b db_wf_same_sr [OF partial_req.prems(1) b(1)]
          by (auto simp: patch_app_def given_def)
      qed (use v b in \<open>auto simp: patch_app_def given_def\<close>)
      then have "db_wf (db_save ?a s)" by (rule db_wf_db_save_key [OF partial_req.prems(1)])
      moreover have "days_ok ?a"
        using v b partial_req.prems(2)
        by (cases "pp_days pp") (auto simp: patch_app_def given_def days_ok_def list_all_iff split: option.splits)
      then have "list_all days_ok (apps (db_save ?a s))"
        by (rule list_all_db_save [OF partial_req.prems(2)])
      ultimately show ?thesis using Some True by (simp add: viewset_partial_update_def Let_def)
    qed (use Some partial_req.prems in \<open>simp add: viewset_partial_update_def Let_def\<close>)
  qed (use partial_req.prems in \<open>simp add: viewset_partial_update_def\<close>)
next
  case (destroy_req s u pk)
  then show ?case
    by (auto simp: viewset_destroy_def db_wf_def distinct_map_filter list_all_iff split: option.splits)
qed

subsection \<open>Properties of the view set\<close>

text \<open>
  C27. A record created through the API has no \<open>created_by\<close>, whoever creates it: the
  override that would stamp the requesting user (lines 118--120) is nested inside the
  module-level \<open>get_queryset\<close> and never reached, so the mixin's \<open>serializer.save()\<close>
  runs.  The override as written would have stored the same record stamped.
\<close>

theorem viewset_create_no_creator:
  assumes "viewset_create u p s = (Resp201 a, s')"
  shows "created_by a = None \<and> a \<in> set (apps s')
    \<and> fst (perform_create u p s) = a\<lparr>created_by := Some (user_id u)\<rparr>"
  using viewset_create_Ok [OF assms]
  by (auto simp: serializer_create_def perform_create_def Let_def)

theorem viewset_create_no_creator_witness:
  "created_by (payload_app example_payload (blank_application 2 ''2002'')) = None"
proof -
  have ok: "viewset_create example_sho example_payload example_db
      = (Resp201 (payload_app example_payload (blank_application 2 ''2002'')),
         snd (viewset_create example_sho example_payload example_db))"
    by code_simp
  show ?thesis using viewset_create_no_creator [OF ok] by simp
qed

text \<open>
  C28. Object routes are not scoped: whatever the user's role and station, any stored
  record can be retrieved and deleted by its primary key (\<open>get_object\<close> searches
  \<open>queryset.all()\<close>), although the spec lets STAFF observe only their station and
  specifies no deletion.
\<close>

theorem viewset_object_unscoped:
  assumes "db_wf s" and "b \<in> set (apps s)"
  shows "viewset_retrieve u (app_id b) s = Resp200 b
    \<and> viewset_destroy u (app_id b) s = (Resp204, s\<lparr>apps := filter (\<lambda>c. app_id c \<noteq> app_id b) (apps s)\<rparr>)
    \<and> b \<notin> set (apps (snd (viewset_destroy u (app_id b) s)))"
  using db_get_mem [OF assms] by (simp add: viewset_retrieve_def viewset_destroy_def)

theorem viewset_object_unscoped_witness:
  "role example_sho = STAFF
   \<and> police_station (payload_app example_payload (blank_application 2 ''2002'')) \<noteq> user_station example_sho
   \<and> viewset_retrieve example_sho 2 (snd (viewset_create example_sho example_payload example_db))
       = Resp200 (payload_app example_payload (blank_application 2 ''2002''))"
proof -
  let ?s = "snd (viewset_create example_sho example_payload example_db)"
  have wf: "db_wf ?s" by code_simp
  have mem: "payload_app example_payload (blank_application 2 ''2002'') \<in> set (apps ?s)" by code_simp
  have "police_station (payload_app example_payload (blank_application 2 ''2002'')) \<noteq> user_station example_sho"
    by code_simp
  then show ?thesis using viewset_object_unscoped [OF wf mem, of example_sho]
    by (simp add: example_sho_def blank_application_def)
qed

text \<open>
  The PATCH route writes only what the request names: an empty patch answers the
  stored record and leaves the store as it is, while a patch \<open>{feedback: PENDING}\<close> is
  accepted (PENDING is one of the model's choices) and resets the feedback, which the
  workflow action \<open>update_feedback\<close> refuses with \<open>Invalid feedback\<close>.
\<close>

theorem viewset_partial_update_patch:
  assumes "db_wf s" and "db_get pk s = Some a"
  shows "viewset_partial_update u pk empty_patch s = (Resp200 a, s)
    \<and> viewset_partial_update u pk (empty_patch\<lparr>pp_feedback := Some ''PENDING''\<rparr>) s
        = (Resp200 (a\<lparr>feedback := FB_PENDING\<rparr>), db_save (a\<lparr>feedback := FB_PENDING\<rparr>) s)
    \<and> fst (update_feedback pk (Some ''PENDING'') rm s) = BadRequest ''Invalid feedback''"
proof -
  have id: "app_id a = pk" using db_get_Some [OF assms(2)] by simp
  have e: "validate_patch s pk empty_patch = []"
    by (simp add: validate_patch_def empty_patch_def choice_errors_def given_def)
  have f: "validate_patch s pk (empty_patch\<lparr>pp_feedback := Some ''PENDING''\<rparr>) = []"
    by (simp add: validate_patch_def empty_patch_def choice_errors_def given_def)
  have p: "patch_app (empty_patch\<lparr>pp_feedback := Some ''PENDING''\<rparr>) a = a\<lparr>feedback := FB_PENDING\<rparr>"
    by (simp add: patch_app_def empty_patch_def given_def)
  show ?thesis
    using assms e f p db_save_self [OF assms(1), of a] id
    by (simp add: viewset_partial_update_def update_feedback_def Let_def)
qed

theorem viewset_partial_update_patch_witness:
  "viewset_partial_update example_sho 1 (empty_patch\<lparr>pp_feedback := Some ''PENDING''\<rparr>) example_db
     = (Resp200 (example_app\<lparr>feedback := FB_PENDING\<rparr>), db_save (example_app\<lparr>feedback := FB_PENDING\<rparr>) example_db)
   \<and> fst (update_feedback 1 (Some ''PENDING'') [] example_db) = BadRequest ''Invalid feedback''"
  using viewset_partial_update_patch [OF db_wf_example_db db_get_example_db, of example_sho "[]"] by simp

end
