(* ===== verification/Spec2Isabelle.thy ===== *)
theory Spec2Isabelle
  imports Import Workflow Query Stats Auth ViewSet
begin

text \<open>
  \<^bold>\<open>A verification development of the open-court applications backend.\<close>

  The repository is a Django REST backend with one source file,
  \<open>src/backend/core/views.py\<close>.  It keeps a table of open-court applications
  (\<open>OpenCourtApplication\<close>) and serves: login and logout with JWT tokens and
  \<open>current_user\<close> (lines 24--71); the view set \<open>OpenCourtApplicationViewSet\<close>
  (lines 74--77), whose routes are Django REST framework's default create, retrieve,
  update, partial update and destroy over \<open>OpenCourtApplication.objects.all()\<close>,
  unscoped; a bulk spreadsheet import (\<open>upload_excel\<close>, lines 162--256); and the
  dashboard statistics with the station and category lists (lines 259--330).  The file
  also writes a role-scoped \<open>get_queryset\<close>, a \<open>perform_create\<close> that records the
  creator and two workflow actions (\<open>update_status\<close>, \<open>update_feedback\<close>), but
  \<open>get_queryset\<close> is defined at module level, after the class, and the other three
  are nested in it after its \<open>return\<close>: no route reaches any of them.  They are modelled
  as written, as what the code means to do, and the development says which routes
  actually run.  Every view but \<open>login_view\<close> sits behind \<open>IsAuthenticated\<close>, which
  derives \<open>request.user\<close> from an access token.  The model file, the serializers,
  Django, openpyxl and simplejwt are not in the repository: what the views call from
  them is modelled from the spec and the libraries' documented behaviour, and marked so
  in the manifest's map.

  \<^bold>\<open>Theories.\<close>
  \<^item> \<open>Prelude\<close>: exceptions as the left side of a sum and \<open>bind_exc\<close> to sequence
    steps that may raise; \<open>count_where\<close> (Django's \<open>.filter(...).count()\<close>) and the
    counting lemmas the components share.
  \<^item> \<open>PyValues\<close>: the cell values \<open>openpyxl\<close> yields, Python truthiness, \<open>str()\<close>,
    \<open>str.isdigit\<close>, \<open>int()\<close>, tuple indexing with its \<open>IndexError\<close>,
    \<open>datetime.date\<close> and Django's \<open>parse_date\<close>; decimal printing and parsing with the
    round trip \<open>digits_val (nat_to_str n) = n\<close>.
  \<^item> \<open>Records\<close>: the application record, the user, the status and feedback
    enumerations, and the store (the table in insertion order with the next primary
    key) with the ORM calls the views make (\<open>update_or_create\<close>, \<open>save\<close>, \<open>get\<close>) and
    the role scope of lines 87--89 and 268--270.  The invariant \<open>db_wf\<close> (distinct
    primary keys below the next one, unique serial numbers) is kept by every write;
    \<open>days_ok\<close> is the spec's bound on the days column.
  \<^item> \<open>Import\<close>: \<open>upload_excel\<close>: the file checks, the loop over the rows after the
    header (\<open>import_rows\<close>, structural recursion, so no fuel), and per row
    (\<open>process_row\<close>) the serial-number skip, the date and days normalisation, the
    \<open>defaults\<close> payload read cell by cell in the code's order, the upsert and the
    \<open>created_by\<close> stamp on update; an exception becomes \<open>Row n: ...\<close>.  Claims C1--C7.
  \<^item> \<open>Workflow\<close>: \<open>update_status\<close> and \<open>update_feedback\<close> (lines 122--159) with their
    \<open>get_object\<close> 404 and invalid-value 400, and the step relation \<open>workflow_step\<close> of
    those requests.  Claims C8--C11.
  \<^item> \<open>Query\<close>: the module-level \<open>get_queryset\<close> (lines 82--115) as written, and a
    refinement of its filter chain against the spec's listing predicate.  Claims C12--C14.
  \<^item> \<open>Stats\<close>: \<open>dashboard_stats\<close> (overall counts, top-ten groupings with their
    order, the admin-only station statistics), \<open>police_stations\<close>, \<open>categories\<close>.
    Claims C15--C18.
  \<^item> \<open>Auth\<close>: \<open>login_view\<close>, \<open>logout_view\<close>, \<open>current_user\<close> over the accounts, the
    tokens the server signed, simplejwt's outstanding and blacklist tables and a
    \<open>jti\<close> counter; \<open>authenticate\<close>, token creation, decoding, verification,
    \<open>blacklist()\<close>, \<open>JWTAuthentication\<close> and \<open>IsAuthenticated\<close> follow the libraries.
    Signing is abstracted as membership in the signed list (what HMAC verification
    gives), the \<open>uuid4\<close> \<open>jti\<close> as a fresh counter value, the clock as a parameter
    \<open>now\<close>; lifetimes are simplejwt's defaults (300 s and one day), and only their
    order matters to the proofs.  \<open>auth_wf\<close> is the token-table invariant and
    \<open>auth_step\<close> the logins and logouts in any order.  Claims C20--C24.
  \<^item> \<open>ViewSet\<close>: the routes the view set really serves: \<open>create\<close>, \<open>retrieve\<close>,
    \<open>update\<close>, \<open>partial_update\<close> and \<open>destroy\<close> over \<open>queryset.all()\<close>, with the
    serializer's validation taken from the spec's data model, and the unreached
    \<open>perform_create\<close> override (lines 118--120) as written.  Claims C27, C28.
  \<^item> This theory: the compositions.  \<open>dashboard_request\<close> puts the permission in front
    of \<open>dashboard_stats\<close>; \<open>request_step\<close> interleaves imports and workflow requests,
    \<open>api_step\<close> adds the view set's writes.  Claims C19, C25, C26, C29.

  \<^bold>\<open>What is proved.\<close>  The import is correct in the terms of the spec's sections 4.2
  and 8: a re-import creates nothing (C1); the error list is exactly the failing rows and
  every data row is counted once (C2); the stored serial numbers afterwards are the old
  ones and those of the counted rows, and every other record is left as it was (C3);
  empty serial numbers are skipped (C4); the \<open>created_by\<close> stamp (C5); the days column
  (C6); the request errors (C7).  The workflow actions reject unknown records and values
  and set what they are given (C8--C10) and never make feedback PENDING again (C11).  The
  written filter chain is scoped and refines the spec (C12--C14).  The dashboard's
  counts, orderings, top-k and role rules (C15--C18).  Login and logout (C20--C24):
  errors, the tokens a login returns, a logged-out refresh token is spent forever, and a
  logout without a token answers 200, which the spec does not state.  Across components:
  a re-import undoes workflow progress (C19), the dashboard is that of the token's active
  account (C25), and the invariant with the days bound survives any interleaving of
  imports and workflow requests (C26) and of every write the API serves (C29).  The view
  set's create never records the creator (C27) and its object routes ignore the role
  scope and delete records (C28).  Besides the claims, the theories keep the spec's
  import example computed end to end (\<open>Import.upload_example\<close>), the login and logout
  round trip (\<open>Auth.auth_example\<close>), and two theorems behind findings of the manifest:
  a logout leaves the access token valid until it expires
  (\<open>Auth.access_token_outlives_logout\<close>), and the PATCH route lets feedback return to
  PENDING, which \<open>update_feedback\<close> refuses (\<open>ViewSet.viewset_partial_update_patch\<close>).

  \<^bold>\<open>Termination.\<close>  The code has one loop, \<open>for row in iter_rows(...)\<close> over a
  finite sheet, modelled by structural recursion (\<open>import_rows\<close>); the decimal printer
  \<open>nat_to_str\<close> recurses on \<open>n div 10\<close> and its termination is proved by \<open>fun\<close>.  Every
  definition is total and executable, so no fuel or partiality is needed and there is
  no termination property beyond that to state.

  \<^bold>\<open>Not modelled.\<close>  Serializers (they only shape response bodies) and URL routing
  (not in \<open>views.py\<close>); the serializer itself (its validation is taken from the spec's
  data model); float and time cells; the ISO week-date forms that Python 3.11's
  \<open>date.fromisoformat\<close> accepts beyond Django's regular expression; password hashing
  (a password is compared as is) and token signatures (abstracted as above); database
  concurrency (the spec specifies none; every request is a function of the state).
\<close>

subsection \<open>Composition: authenticated requests\<close>

text \<open>
  Every view but \<open>login_view\<close> is behind \<open>IsAuthenticated\<close>; the user the views
  receive as \<open>request.user\<close> is the one \<open>Auth.request_user\<close> derives from the access
  token.  \<open>dashboard_request\<close> is \<open>dashboard_stats\<close> (\<open>views.py\<close> lines 259--263) with
  its permission class in front.
\<close>

definition dashboard_request :: "nat \<Rightarrow> token_text option \<Rightarrow> auth_state \<Rightarrow> db \<Rightarrow> string + dashboard" where
  "dashboard_request now hdr st s =
     (case request_user now hdr st of
        Inl msg \<Rightarrow> Inl msg
      | Inr u \<Rightarrow> Inr (dashboard_stats u s))"

text \<open>
  The requests that write the application table, in any order: an import (any user,
  any upload) or a workflow action.
\<close>

inductive request_step :: "db \<Rightarrow> db \<Rightarrow> bool" where
  import_req: "request_step s (snd (upload_excel u f s))"
| workflow_req: "workflow_step s t \<Longrightarrow> request_step s t"

text \<open>Every write the API serves: the view set's routes, imports and workflow requests.\<close>

inductive api_step :: "db \<Rightarrow> db \<Rightarrow> bool" where
  viewset_write: "viewset_step s t \<Longrightarrow> api_step s t"
| other_write: "request_step s t \<Longrightarrow> api_step s t"

subsection \<open>Lemmas across components\<close>

lemma request_step_inv:
  assumes "request_step t t'" and "db_wf t" and "list_all days_ok (apps t)"
  shows "db_wf t' \<and> list_all days_ok (apps t')"
  using assms(1)
proof (cases rule: request_step.cases)
  case (import_req u f)
  have "db_wf t'"
    using import_rows_wf [of "start_state t"] assms(2) import_req
    by (auto simp: upload_excel_def start_state_def Let_def split: option.splits sum.splits)
  then show ?thesis using upload_excel_days [OF assms(3)] import_req by simp
next
  case workflow_req
  then show ?thesis using workflow_step_db [OF _ assms(2)] workflow_step_days [OF _ assms(3)] by blast
qed

subsection \<open>Properties across components\<close>

text \<open>
  C19. Workflow progress does not survive a re-import: whatever status and feedback the
  workflow requests have set, importing a sheet that carries a record's serial number
  puts that record back to status PENDING and feedback PENDING (the spec's open
  question in section 9).
\<close>

theorem workflow_progress_reset_by_import:
  assumes "db_wf s0" and "workflow_step\<^sup>*\<^sup>* s0 s"
    and "upload_excel u (Some f) s = (UploadOk m c up errs, s')"
    and "workbook f = Inr rows" and "r \<in> set (drop 1 rows)" and "row_counted r"
  shows "\<exists>a \<in> set (apps s'). sr_no a = py_str (hd r) \<and> status a = PENDING \<and> feedback a = FB_PENDING"
proof -
  from assms(2,1) have wf: "db_wf s"
    by (induction rule: rtranclp_induct) (auto dest: workflow_step_db)
  from assms(3) obtain fl rows' where "Some f = Some fl" and "workbook fl = Inr rows'"
    and s': "s' = imp_db (import_rows u 2 (drop 1 rows') (start_state s))"
    by (rule upload_excel_OkE)
  then have s'': "s' = imp_db (import_rows u 2 (drop 1 rows) (start_state s))" using assms(4) by simp
  have wf0: "db_wf (imp_db (start_state s))" using wf by (simp add: start_state_def)
  have "py_str (hd r) \<in> counted_keys (drop 1 rows)"
    using assms(5,6) by (auto simp: counted_keys_def)
  then have "py_str (hd r) \<in> sr_keys s'"
    using import_rows_facts [OF wf0 refl, of u 2 "drop 1 rows"] s'' by auto
  then obtain a where a: "a \<in> set (apps s')" "sr_no a = py_str (hd r)" by (auto simp: sr_keys_def)
  have "\<forall>a \<in> set (apps s'). sr_no a \<in> {} \<union> counted_keys (drop 1 rows)
           \<longrightarrow> status a = PENDING \<and> feedback a = FB_PENDING"
    using import_rows_pending [OF wf0, of "{}" u 2 "drop 1 rows"] s'' by simp
  with a \<open>py_str (hd r) \<in> counted_keys (drop 1 rows)\<close> show ?thesis by auto
qed

theorem workflow_progress_reset_by_import_witness:
  "\<exists>a \<in> set (apps (snd (upload_excel example_clerk (Some example_sheet)
                         (snd (update_status 1 (Some ''HEARD'') example_db))))).
     sr_no a = ''1001'' \<and> status a = PENDING \<and> feedback a = FB_PENDING"
proof -
  let ?s = "snd (update_status 1 (Some ''HEARD'') example_db)"
  have st: "workflow_step\<^sup>*\<^sup>* example_db ?s"
    by (rule r_into_rtranclp) (rule workflow_step.status_req)
  have up: "upload_excel example_clerk (Some example_sheet) ?s
      = (UploadOk ''Excel file processed successfully'' 0 1 [],
         snd (upload_excel example_clerk (Some example_sheet) ?s))"
    by code_simp
  have wb: "workbook example_sheet = Inr [[CStr ''Sr No''], example_row]"
    by (simp add: example_sheet_def)
  have r: "example_row \<in> set (drop 1 [[CStr ''Sr No''], example_row])" by simp
  have cnt: "row_counted example_row" by code_simp
  have k: "py_str (hd example_row) = ''1001''" by code_simp
  show ?thesis
    using workflow_progress_reset_by_import [OF db_wf_example_db st up wb r cnt] k by simp
qed


text \<open>
  C25. The dashboard answers only a request carrying a live access token of an active
  account, and it is that account's dashboard: for a STAFF account with a station its
  total counts exactly the records of that station.
\<close>

theorem dashboard_request_identity:
  assumes "dashboard_request now hdr st s = Inr d"
  shows "\<exists>c a. hdr = Some (Encoded c) \<and> tok_type c = AccessT \<and> now < tok_exp c
    \<and> a \<in> set (accounts st) \<and> acc_active a \<and> tok_user c = Some (user_id (acc_user a))
    \<and> d = dashboard_stats (acc_user a) s
    \<and> (role (acc_user a) = STAFF \<and> user_station (acc_user a) \<noteq> [] \<longrightarrow>
         total_applications (overall d)
           = count_where (\<lambda>x. police_station x = user_station (acc_user a)) (apps s))"
proof -
  obtain u where ru: "request_user now hdr st = Inr u" and d: "d = dashboard_stats u s"
    using assms by (auto simp: dashboard_request_def split: sum.splits)
  from ru obtain c a where "hdr = Some (Encoded c)" "tok_type c = AccessT" "now < tok_exp c"
    "tok_user c = Some (user_id u)" "a \<in> set (accounts st)" "acc_user a = u" "acc_active a"
    by (rule request_user_Inr)
  moreover have "role u = STAFF \<and> user_station u \<noteq> [] \<longrightarrow>
      total_applications (overall d) = count_where (\<lambda>x. police_station x = user_station u) (apps s)"
    by (simp add: d dashboard_stats_def overall_of_def role_scope_def count_where_def Let_def)
  ultimately show ?thesis using d by blast
qed

theorem dashboard_request_identity_witness:
  "\<exists>c a. Some (Encoded \<lparr>tok_type = AccessT, tok_jti = 2, tok_user = Some 1, tok_exp = 1300\<rparr>) = Some (Encoded c)
     \<and> a \<in> set example_accounts \<and> acc_active a
     \<and> dashboard_stats \<lparr>user_id = 1, username = ''clerk'', role = STAFF, user_station = ''Saddar''\<rparr> example_stats_db
         = dashboard_stats (acc_user a) example_stats_db"
proof -
  let ?at = "Encoded \<lparr>tok_type = AccessT, tok_jti = 2, tok_user = Some 1, tok_exp = 1300\<rparr>"
  let ?s1 = "snd (login_view 1000 (Some ''clerk'') (Some ''secret'') example_auth)"
  have eq: "dashboard_request 1200 (Some ?at) ?s1 example_stats_db
     = Inr (dashboard_stats \<lparr>user_id = 1, username = ''clerk'', role = STAFF, user_station = ''Saddar''\<rparr>
             example_stats_db)"
    by code_simp
  have acc: "accounts ?s1 = example_accounts" by code_simp
  show ?thesis using dashboard_request_identity [OF eq] acc by auto
qed


text \<open>
  C26. The store invariant and the bound on the days column hold under any interleaving
  of imports and workflow requests: primary keys and serial numbers stay unique, and
  every stored days value is a non-negative count or nothing (spec section 3), because
  the import only stores what its digit check lets through and the workflow never writes
  that column.
\<close>

theorem store_invariant_requests:
  assumes "db_wf s0" and "list_all days_ok (apps s0)" and "request_step\<^sup>*\<^sup>* s0 s"
  shows "db_wf s \<and> list_all days_ok (apps s)"
  using assms(3,1,2)
  by (induction rule: rtranclp_induct) (auto dest: request_step_inv)

theorem store_invariant_requests_witness:
  "db_wf (snd (update_status 1 (Some ''HEARD'') (snd (upload_excel example_clerk (Some example_sheet) empty_db))))
   \<and> list_all days_ok (apps (snd (update_status 1 (Some ''HEARD'')
       (snd (upload_excel example_clerk (Some example_sheet) empty_db)))))"
proof -
  have wf: "db_wf empty_db" by (simp add: db_wf_def empty_db_def)
  have dk: "list_all days_ok (apps empty_db)" by (simp add: empty_db_def)
  have st: "request_step\<^sup>*\<^sup>* empty_db
      (snd (update_status 1 (Some ''HEARD'') (snd (upload_excel example_clerk (Some example_sheet) empty_db))))"
    by (rule rtranclp.rtrancl_into_rtrancl [OF r_into_rtranclp [of request_step, OF request_step.import_req]
          request_step.workflow_req [OF workflow_step.status_req]])
  show ?thesis using store_invariant_requests [OF wf dk st] .
qed


text \<open>
  C29. The store invariant and the days bound hold under any interleaving of every
  write the API serves: the view set's create, update, partial update and destroy (with
  the serializer's validation), imports and workflow requests.
\<close>

theorem api_store_invariant:
  assumes "db_wf s0" and "list_all days_ok (apps s0)" and "api_step\<^sup>*\<^sup>* s0 s"
  shows "db_wf s \<and> list_all days_ok (apps s)"
  using assms(3,1,2)
proof (induction rule: rtranclp_induct)
  case (step t t')
  then have "db_wf t" "list_all days_ok (apps t)" by auto
  with step.hyps(2) show ?case
    by (cases rule: api_step.cases) (auto dest: viewset_step_inv request_step_inv)
qed simp

theorem api_store_invariant_witness:
  "db_wf (snd (viewset_destroy example_sho 1 (snd (viewset_create example_sho example_payload
      (snd (upload_excel example_clerk (Some example_sheet) empty_db))))))
   \<and> list_all days_ok (apps (snd (viewset_destroy example_sho 1 (snd (viewset_create example_sho
      example_payload (snd (upload_excel example_clerk (Some example_sheet) empty_db)))))))"
proof -
  have wf: "db_wf empty_db" by (simp add: db_wf_def empty_db_def)
  have dk: "list_all days_ok (apps empty_db)" by (simp add: empty_db_def)
  let ?s1 = "snd (upload_excel example_clerk (Some example_sheet) empty_db)"
  let ?s2 = "snd (viewset_create example_sho example_payload ?s1)"
  have st: "api_step\<^sup>*\<^sup>* empty_db (snd (viewset_destroy example_sho 1 ?s2))"
  proof -
    have "api_step empty_db ?s1" by (intro api_step.other_write request_step.import_req)
    moreover have "api_step ?s1 ?s2" by (intro api_step.viewset_write viewset_step.create_req)
    moreover have "api_step ?s2 (snd (viewset_destroy example_sho 1 ?s2))"
      by (intro api_step.viewset_write viewset_step.destroy_req)
    ultimately show ?thesis by (meson rtranclp.rtrancl_into_rtrancl r_into_rtranclp)
  qed
  show ?thesis using api_store_invariant [OF wf dk st] .
qed

end
